theory Spec2Isabelle
  imports Main "HOL-Library.Sublist"
begin

section \<open>Python values used by the two scripts\<close>

text \<open>
  The repository holds two scripts, \<^verbatim>\<open>scripts/create_jira_issues.py\<close> (REST API v3, rich-text
  description, no project probe) and \<^verbatim>\<open>scripts/create_jira_issues_v2.py\<close> (REST API v2, plain
  description, project probe). Both define \<^verbatim>\<open>get_auth_header\<close>, \<^verbatim>\<open>create_issue\<close> and
  \<^verbatim>\<open>main\<close>; the definitions of the second script carry the suffix \<open>_v2\<close>.

  A Python \<^verbatim>\<open>str\<close> is a sequence of Unicode code points, so it is a list of numbers (each
  below \<open>0x110000\<close>); \<open>lit\<close> turns an ASCII literal into such a list. A \<^verbatim>\<open>bytes\<close> object is a
  list of numbers below 256.
\<close>

type_synonym str = "nat list"
type_synonym bytes = "nat list"

abbreviation lit :: "string \<Rightarrow> str" where
  "lit s \<equiv> map of_char s"

text \<open>
  The exceptions that can travel through the scripts. \<open>URLError_exn reason\<close> is a
  \<^verbatim>\<open>URLError\<close> with the text of its reason; \<open>OtherException name\<close> is an exception of
  any class that none of the names before it covers and that is no \<^verbatim>\<open>URLError\<close>
  (\<^verbatim>\<open>UnicodeDecodeError\<close>, \<^verbatim>\<open>ValueError\<close>, \<^verbatim>\<open>RemoteDisconnected\<close>, ...).
\<close>

datatype exn =
    UnicodeEncodeError
  | JSONDecodeError
  | KeyError str
  | TypeError
  | URLError_exn str
  | OtherException str

text \<open>\<^verbatim>\<open>f"{n}"\<close> for a non-negative integer (\<^verbatim>\<open>e.code\<close>, \<^verbatim>\<open>len(ISSUES)\<close>, the loop index).\<close>

fun str_nat :: "nat \<Rightarrow> str" where
  "str_nat n = (if n < 10 then [48 + n] else str_nat (n div 10) @ [48 + n mod 10])"

declare str_nat.simps [simp del]

text \<open>
  \<^verbatim>\<open>str.encode()\<close>: UTF-8. Python refuses to encode a surrogate code point
  (\<open>U+D800\<close> to \<open>U+DFFF\<close>) and raises \<^verbatim>\<open>UnicodeEncodeError\<close>; such code points do occur in
  \<^verbatim>\<open>os.environ\<close> values (undecodable bytes of the environment are kept as lone surrogates).
\<close>

definition surrogate :: "nat \<Rightarrow> bool" where
  "surrogate c \<longleftrightarrow> 0xD800 \<le> c \<and> c \<le> 0xDFFF"

definition utf8_char :: "nat \<Rightarrow> exn + bytes" where
  "utf8_char c =
     (if c < 0x80 then Inr [c]
      else if c < 0x800 then Inr [0xC0 + c div 64, 0x80 + c mod 64]
      else if surrogate c then Inl UnicodeEncodeError
      else if c < 0x10000 then
        Inr [0xE0 + c div 4096, 0x80 + (c div 64) mod 64, 0x80 + c mod 64]
      else
        Inr [0xF0 + c div 262144, 0x80 + (c div 4096) mod 64,
             0x80 + (c div 64) mod 64, 0x80 + c mod 64])"

fun encode :: "str \<Rightarrow> exn + bytes" where
  "encode [] = Inr []"
| "encode (c # cs) =
     (case utf8_char c of
        Inl e \<Rightarrow> Inl e
      | Inr bs \<Rightarrow> (case encode cs of Inl e \<Rightarrow> Inl e | Inr rest \<Rightarrow> Inr (bs @ rest)))"

text \<open>
  \<^verbatim>\<open>base64.b64encode(raw).decode()\<close>: the input is taken three bytes at a time, each group
  gives four characters of the alphabet, and a last group of one or two bytes is padded
  with \<^verbatim>\<open>=\<close>. The result consists of ASCII characters, which \<^verbatim>\<open>decode()\<close> maps to the
  code points of the same value.
\<close>

definition b64_alphabet :: str where
  "b64_alphabet = lit ''ABCDEFGHIJKLMNOPQRSTUVWXYZabcdefghijklmnopqrstuvwxyz0123456789+/''"

text \<open>The character for an index; the implementation masks the index with \<^verbatim>\<open>0x3f\<close>.\<close>

definition b64_char :: "nat \<Rightarrow> nat" where
  "b64_char i = b64_alphabet ! (i mod 64)"

fun b64encode :: "bytes \<Rightarrow> str" where
  "b64encode (a # b # c # rest) =
     [b64_char (a div 4), b64_char ((a mod 4) * 16 + b div 16),
      b64_char ((b mod 16) * 4 + c div 64), b64_char (c mod 64)] @ b64encode rest"
| "b64encode [a, b] =
     [b64_char (a div 4), b64_char ((a mod 4) * 16 + b div 16),
      b64_char ((b mod 16) * 4), 61]"
| "b64encode [a] = [b64_char (a div 4), b64_char ((a mod 4) * 16), 61, 61]"
| "b64encode [] = []"

text \<open>\<^verbatim>\<open>str.rstrip("/")\<close> removes every trailing slash.\<close>

definition rstrip_slash :: "str \<Rightarrow> str" where
  "rstrip_slash s = rev (dropWhile (\<lambda>c. c = 47) (rev s))"

section \<open>JSON payloads, requests and replies\<close>

text \<open>The object handed to \<^verbatim>\<open>json.dumps\<close>; a dict keeps its insertion order.\<close>

datatype json =
    JString str
  | JNumber int
  | JArray "json list"
  | JObject "(str \<times> json) list"

record http_request =
  req_url :: str
  req_data :: "json option"
  req_headers :: "(str \<times> str) list"
  req_method :: str

text \<open>
  A value produced by \<^verbatim>\<open>json.loads\<close>, as far as the scripts look at it: they index it with
  a string key and they format it with \<^verbatim>\<open>str()\<close> inside f-strings. \<open>PStr s\<close> is a string,
  \<open>PDict shown items\<close> a dict with its items, \<open>PAtom shown\<close> any other value (number,
  boolean, \<^verbatim>\<open>None\<close>, list); \<open>shown\<close> is the text \<^verbatim>\<open>str()\<close> gives.
\<close>

datatype pyval =
    PStr str
  | PDict str "(str \<times> pyval) list"
  | PAtom str

fun py_str :: "pyval \<Rightarrow> str" where
  "py_str (PStr s) = s"
| "py_str (PDict shown items) = shown"
| "py_str (PAtom shown) = shown"

text \<open>\<^verbatim>\<open>result[k]\<close>: a missing key raises \<^verbatim>\<open>KeyError\<close>, a value that is no dict \<^verbatim>\<open>TypeError\<close>.\<close>

fun getitem :: "pyval \<Rightarrow> str \<Rightarrow> exn + pyval" where
  "getitem (PDict shown items) k =
     (case map_of items k of None \<Rightarrow> Inl (KeyError k) | Some v \<Rightarrow> Inr v)"
| "getitem (PStr s) k = Inl TypeError"
| "getitem (PAtom shown) k = Inl TypeError"

text \<open>
  A body as the library reads it: \<open>Unreadable name\<close> when \<^verbatim>\<open>read().decode()\<close> raises an
  exception of class \<open>name\<close> (\<^verbatim>\<open>UnicodeDecodeError\<close> for bytes that are not UTF-8,
  \<^verbatim>\<open>IncompleteRead\<close> for a broken connection), otherwise \<open>Readable text parsed\<close> with the
  decoded text and what \<^verbatim>\<open>json.loads(text)\<close> makes of it (\<open>None\<close> when it raises
  \<^verbatim>\<open>JSONDecodeError\<close>).
\<close>

datatype body = Unreadable str | Readable str "pyval option"

text \<open>
  What \<^verbatim>\<open>request.urlopen\<close> does with a request: it returns a response (urllib does so for
  a 2xx status only), raises \<^verbatim>\<open>HTTPError\<close> with a status code and a body, raises a
  \<^verbatim>\<open>URLError\<close> that is no \<^verbatim>\<open>HTTPError\<close> (\<open>URLError reason\<close>, with the text of
  \<^verbatim>\<open>str(e.reason)\<close>), or raises an exception of another class (\<open>Raises name\<close>; the
  constructor \<^verbatim>\<open>request.Request\<close> raising \<^verbatim>\<open>ValueError\<close> on a malformed URL is such a
  reply too). The network is a function from the requests sent so far, the current one
  last, to the reply.
\<close>

datatype reply =
    Response body
  | HTTPError nat body
  | URLError str
  | Raises str

type_synonym net = "http_request list \<Rightarrow> reply"

definition urlopen :: "net \<Rightarrow> http_request list \<Rightarrow> http_request \<Rightarrow> reply \<times> http_request list" where
  "urlopen net log req = (net (log @ [req]), log @ [req])"

definition read_decode :: "body \<Rightarrow> exn + str" where
  "read_decode b =
     (case b of Unreadable name \<Rightarrow> Inl (OtherException name) | Readable text parsed \<Rightarrow> Inr text)"

definition json_loads :: "body \<Rightarrow> exn + pyval" where
  "json_loads b =
     (case read_decode b of
        Inl e \<Rightarrow> Inl e
      | Inr text \<Rightarrow>
          (case b of
             Readable t (Some v) \<Rightarrow> Inr v
           | _ \<Rightarrow> Inl JSONDecodeError))"

section \<open>The functions of the scripts\<close>

definition PROJECT_KEY :: str where
  "PROJECT_KEY = lit ''BB''"

text \<open>
  An entry of \<^verbatim>\<open>ISSUES\<close>: the scripts index \<^verbatim>\<open>summary\<close> and \<^verbatim>\<open>description\<close>, read
  \<^verbatim>\<open>issuetype\<close> with a default and test whether the key \<^verbatim>\<open>labels\<close> is there.
\<close>

record issue_data =
  summary :: str
  description :: str
  issuetype :: "str option"
  labels :: "str list option"

text \<open>The dict \<^verbatim>\<open>create_issue\<close> returns: \<^verbatim>\<open>success\<close> with \<^verbatim>\<open>key\<close> and \<^verbatim>\<open>id\<close>, or with \<^verbatim>\<open>error\<close>.\<close>

datatype creation_result = Success pyval pyval | Failure str

definition get_auth_header :: "str \<Rightarrow> str \<Rightarrow> exn + str" where
  "get_auth_header email api_token =
     (let credentials = email @ lit '':'' @ api_token in
      case encode credentials of
        Inl e \<Rightarrow> Inl e
      | Inr raw \<Rightarrow> Inr (lit ''Basic '' @ b64encode raw))"

text \<open>
  The \<^verbatim>\<open>try\<close> statement of \<^verbatim>\<open>create_issue\<close>, the same in both scripts: what it makes
  of the reply of \<^verbatim>\<open>urlopen\<close>. None of the exceptions raised inside the \<^verbatim>\<open>with\<close> block
  is a \<^verbatim>\<open>URLError\<close>, so the two handlers do not catch them, and an exception raised inside
  the first handler leaves the statement.
\<close>

definition try_create :: "reply \<Rightarrow> exn + creation_result" where
  "try_create r =
     (case r of
        Response b \<Rightarrow>
          (case json_loads b of
             Inl e \<Rightarrow> Inl e
           | Inr result \<Rightarrow>
               (case getitem result (lit ''key'') of
                  Inl e \<Rightarrow> Inl e
                | Inr k \<Rightarrow>
                    (case getitem result (lit ''id'') of
                       Inl e \<Rightarrow> Inl e
                     | Inr i \<Rightarrow> Inr (Success k i))))
      | HTTPError code b \<Rightarrow>
          (case read_decode b of
             Inl e \<Rightarrow> Inl e
           | Inr error_body \<Rightarrow> Inr (Failure (str_nat code @ lit '': '' @ error_body)))
      | URLError reason \<Rightarrow> Inr (Failure reason)
      | Raises name \<Rightarrow> Inl (OtherException name))"

definition send_create ::
  "net \<Rightarrow> http_request list \<Rightarrow> http_request \<Rightarrow> (exn + creation_result) \<times> http_request list" where
  "send_create net log req = (let (r, log') = urlopen net log req in (try_create r, log'))"

definition issuetype_or_Task :: "issue_data \<Rightarrow> str" where
  "issuetype_or_Task issue = (case issuetype issue of None \<Rightarrow> lit ''Task'' | Some t \<Rightarrow> t)"

definition labels_field :: "issue_data \<Rightarrow> (str \<times> json) list" where
  "labels_field issue =
     (case labels issue of None \<Rightarrow> [] | Some ls \<Rightarrow> [(lit ''labels'', JArray (map JString ls))])"

definition create_headers :: "str \<Rightarrow> (str \<times> str) list" where
  "create_headers auth_header =
     [(lit ''Authorization'', auth_header),
      (lit ''Content-Type'', lit ''application/json''),
      (lit ''Accept'', lit ''application/json'')]"

definition payload :: "str \<Rightarrow> issue_data \<Rightarrow> json" where
  "payload project_key issue =
     JObject [(lit ''fields'', JObject
       ([(lit ''project'', JObject [(lit ''key'', JString project_key)]),
         (lit ''summary'', JString (summary issue)),
         (lit ''description'', JObject
            [(lit ''type'', JString (lit ''doc'')),
             (lit ''version'', JNumber 1),
             (lit ''content'', JArray
                [JObject
                   [(lit ''type'', JString (lit ''paragraph'')),
                    (lit ''content'', JArray
                       [JObject
                          [(lit ''type'', JString (lit ''text'')),
                           (lit ''text'', JString (description issue))]])]])]),
         (lit ''issuetype'', JObject [(lit ''name'', JString (issuetype_or_Task issue))])]
        @ labels_field issue))]"

definition payload_v2 :: "str \<Rightarrow> issue_data \<Rightarrow> json" where
  "payload_v2 project_key issue =
     JObject [(lit ''fields'', JObject
       ([(lit ''project'', JObject [(lit ''key'', JString project_key)]),
         (lit ''summary'', JString (summary issue)),
         (lit ''description'', JString (description issue)),
         (lit ''issuetype'', JObject [(lit ''name'', JString (issuetype_or_Task issue))])]
        @ labels_field issue))]"

definition create_request :: "str \<Rightarrow> str \<Rightarrow> str \<Rightarrow> issue_data \<Rightarrow> http_request" where
  "create_request jira_url auth_header project_key issue =
     \<lparr>req_url = jira_url @ lit ''/rest/api/3/issue'',
      req_data = Some (payload project_key issue),
      req_headers = create_headers auth_header,
      req_method = lit ''POST''\<rparr>"

definition create_request_v2 :: "str \<Rightarrow> str \<Rightarrow> str \<Rightarrow> issue_data \<Rightarrow> http_request" where
  "create_request_v2 jira_url auth_header project_key issue =
     \<lparr>req_url = jira_url @ lit ''/rest/api/2/issue'',
      req_data = Some (payload_v2 project_key issue),
      req_headers = create_headers auth_header,
      req_method = lit ''POST''\<rparr>"

definition create_issue ::
  "net \<Rightarrow> http_request list \<Rightarrow> str \<Rightarrow> str \<Rightarrow> str \<Rightarrow> issue_data
     \<Rightarrow> (exn + creation_result) \<times> http_request list" where
  "create_issue net log jira_url auth_header project_key issue =
     send_create net log (create_request jira_url auth_header project_key issue)"

definition create_issue_v2 ::
  "net \<Rightarrow> http_request list \<Rightarrow> str \<Rightarrow> str \<Rightarrow> str \<Rightarrow> issue_data
     \<Rightarrow> (exn + creation_result) \<times> http_request list" where
  "create_issue_v2 net log jira_url auth_header project_key issue =
     send_create net log (create_request_v2 jira_url auth_header project_key issue)"

definition probe_request :: "str \<Rightarrow> str \<Rightarrow> str \<Rightarrow> http_request" where
  "probe_request jira_url auth_header project_key =
     \<lparr>req_url = jira_url @ lit ''/rest/api/2/project/'' @ project_key,
      req_data = None,
      req_headers = [(lit ''Authorization'', auth_header), (lit ''Accept'', lit ''application/json'')],
      req_method = lit ''GET''\<rparr>"

definition check_project_exists ::
  "net \<Rightarrow> http_request list \<Rightarrow> str \<Rightarrow> str \<Rightarrow> str \<Rightarrow> (exn + bool) \<times> http_request list" where
  "check_project_exists net log jira_url auth_header project_key =
     (let (r, log') = urlopen net log (probe_request jira_url auth_header project_key) in
      (case r of
         Response b \<Rightarrow> Inr True
       | HTTPError code b \<Rightarrow> Inr False
       | URLError reason \<Rightarrow> Inl (URLError_exn reason)
       | Raises name \<Rightarrow> Inl (OtherException name),
       log'))"

section \<open>The two main programs\<close>

text \<open>
  \<^verbatim>\<open>main\<close> reads the module-level list \<^verbatim>\<open>ISSUES\<close>; here the list is the argument
  \<open>issues\<close>. The run of the first script is \<open>main codec environ ISSUES net\<close>, the run
  of the second \<open>main_v2 codec environ ISSUES_v2 net\<close>, with the lists given at the end of this
  section.
\<close>

text \<open>
  The state a run threads through: the lines printed so far (one entry for each call of
  \<^verbatim>\<open>print\<close>), the requests handed to \<^verbatim>\<open>urlopen\<close> so far, and the two accumulators
  \<^verbatim>\<open>created\<close> and \<^verbatim>\<open>failed\<close>.
\<close>

record 'c state =
  stdout :: "str list"
  requests :: "http_request list"
  created :: "'c list"
  failed :: "str list"

definition init :: "'c state" where
  "init = \<lparr>stdout = [], requests = [], created = [], failed = []\<rparr>"

text \<open>
  \<^verbatim>\<open>print\<close> encodes its text with the codec of \<^verbatim>\<open>sys.stdout\<close> and raises
  \<^verbatim>\<open>UnicodeEncodeError\<close>, writing nothing, when the codec cannot encode a character of it
  (strict UTF-8 refuses a lone surrogate, cp1252 the check mark). A codec says which code
  points beyond ASCII it can encode; every codec of a standard stream encodes ASCII. The
  result of a print is the exception, if any, and the state.
\<close>

type_synonym codec = "nat \<Rightarrow> bool"

definition printable :: "codec \<Rightarrow> str \<Rightarrow> bool" where
  "printable codec s = list_all (\<lambda>c. c < 128 \<or> codec c) s"

definition print :: "codec \<Rightarrow> str \<Rightarrow> 'c state \<Rightarrow> exn option \<times> 'c state" where
  "print codec s st =
     (if printable codec s then (None, st\<lparr>stdout := stdout st @ [s]\<rparr>)
      else (Some UnicodeEncodeError, st))"

text \<open>Several calls of \<^verbatim>\<open>print\<close> in a row: the first that raises ends them.\<close>

fun prints :: "codec \<Rightarrow> str list \<Rightarrow> 'c state \<Rightarrow> exn option \<times> 'c state" where
  "prints codec [] st = (None, st)"
| "prints codec (s # ss) st =
     (case print codec s st of
        (Some e, st') \<Rightarrow> (Some e, st')
      | (None, st') \<Rightarrow> prints codec ss st')"

text \<open>
  How a run ends: \<^verbatim>\<open>main\<close> returns, \<^verbatim>\<open>sys.exit(n)\<close> is called, or an exception reaches
  the top level. The interpreter exits with status 0 in the first case, \<open>n\<close> in the
  second and 1 (after the traceback) in the third.
\<close>

datatype outcome = Returned | SysExit nat | Uncaught exn

fun exit_status :: "outcome \<Rightarrow> nat" where
  "exit_status Returned = 0"
| "exit_status (SysExit n) = n"
| "exit_status (Uncaught e) = 1"

type_synonym environ = "str \<rightharpoonup> str"

text \<open>\<^verbatim>\<open>not os.environ.get(name)\<close>: the variable is unset or set to the empty string.\<close>

definition not_set :: "environ \<Rightarrow> str \<Rightarrow> bool" where
  "not_set environ name = (case environ name of None \<Rightarrow> True | Some v \<Rightarrow> v = [])"

definition required :: "str list" where
  "required = [lit ''JIRA_URL'', lit ''JIRA_EMAIL'', lit ''JIRA_API_TOKEN'']"

definition missing_vars :: "environ \<Rightarrow> str list" where
  "missing_vars environ =
     (if not_set environ (lit ''JIRA_URL'') then [lit ''JIRA_URL''] else []) @
     (if not_set environ (lit ''JIRA_EMAIL'') then [lit ''JIRA_EMAIL''] else []) @
     (if not_set environ (lit ''JIRA_API_TOKEN'') then [lit ''JIRA_API_TOKEN''] else [])"

text \<open>The value of a variable that passed the check (a non-empty string).\<close>

definition env_value :: "environ \<Rightarrow> str \<Rightarrow> str" where
  "env_value environ name = (case environ name of None \<Rightarrow> [] | Some v \<Rightarrow> v)"

subsection \<open>\<^verbatim>\<open>create_jira_issues.py\<close>\<close>

definition missing_report :: "str list \<Rightarrow> str list" where
  \<open>missing_report missing =
     [lit ''Error: Missing required environment variables:'']
     @ map (\<lambda>var. lit ''  - '' @ var) missing
     @ [lit ''\<newline>Set them using:'',
        lit ''  export JIRA_URL="https://yoursite.atlassian.net"'',
        lit ''  export JIRA_EMAIL="your.email@example.com"'',
        lit ''  export JIRA_API_TOKEN="your-api-token"'',
        lit ''\<newline>Get your API token at: https://id.atlassian.com/manage-profile/security/api-tokens'']\<close>

text \<open>
  The \<^verbatim>\<open>for\<close> loop over \<^verbatim>\<open>ISSUES\<close>; it stops when \<^verbatim>\<open>create_issue\<close> or a \<^verbatim>\<open>print\<close> raises.
\<close>

fun create_all ::
  "codec \<Rightarrow> net \<Rightarrow> str \<Rightarrow> str \<Rightarrow> issue_data list \<Rightarrow> pyval state \<Rightarrow> exn option \<times> pyval state" where
  "create_all codec net jira_url auth_header [] st = (None, st)"
| "create_all codec net jira_url auth_header (issue # rest) st =
     (case print codec (lit ''\<newline>Creating: '' @ take 50 (summary issue) @ lit ''...'') st of
        (Some e, st1) \<Rightarrow> (Some e, st1)
      | (None, st1) \<Rightarrow>
          (let (result, log') =
                 create_issue net (requests st1) jira_url auth_header PROJECT_KEY issue;
               st2 = st1\<lparr>requests := log'\<rparr>
           in case result of
                Inl e \<Rightarrow> (Some e, st2)
              | Inr (Success k i) \<Rightarrow>
                  (case prints codec
                          [lit ''  '' @ [0x2713] @ lit '' Created: '' @ py_str k,
                           lit ''    URL: '' @ jira_url @ lit ''/browse/'' @ py_str k] st2 of
                     (Some e, st3) \<Rightarrow> (Some e, st3)
                   | (None, st3) \<Rightarrow>
                       create_all codec net jira_url auth_header rest
                         (st3\<lparr>created := created st3 @ [k]\<rparr>))
              | Inr (Failure err) \<Rightarrow>
                  (case print codec (lit ''  '' @ [0x2717] @ lit '' Failed: '' @ err) st2 of
                     (Some e, st3) \<Rightarrow> (Some e, st3)
                   | (None, st3) \<Rightarrow>
                       create_all codec net jira_url auth_header rest
                         (st3\<lparr>failed := failed st3 @ [summary issue]\<rparr>))))"

definition report :: "codec \<Rightarrow> str \<Rightarrow> pyval state \<Rightarrow> outcome \<times> pyval state" where
  "report codec jira_url st =
     (case prints codec
             [lit ''\<newline>'' @ replicate 50 61,
              lit ''Summary: '' @ str_nat (length (created st)) @ lit '' created, ''
                @ str_nat (length (failed st)) @ lit '' failed''] st of
        (Some e, st1) \<Rightarrow> (Uncaught e, st1)
      | (None, st1) \<Rightarrow>
          (case (if created st \<noteq> [] then
                   prints codec ([lit ''\<newline>Created issues:'']
                     @ map (\<lambda>k. lit ''  - '' @ jira_url @ lit ''/browse/'' @ py_str k)
                         (created st)) st1
                 else (None, st1)) of
             (Some e, st2) \<Rightarrow> (Uncaught e, st2)
           | (None, st2) \<Rightarrow>
               if failed st \<noteq> [] then
                 (case prints codec ([lit ''\<newline>Failed issues:'']
                         @ map (\<lambda>s. lit ''  - '' @ s) (failed st)) st2 of
                    (Some e, st3) \<Rightarrow> (Uncaught e, st3)
                  | (None, st3) \<Rightarrow> (SysExit 1, st3))
               else (Returned, st2)))"

definition main :: "codec \<Rightarrow> environ \<Rightarrow> issue_data list \<Rightarrow> net \<Rightarrow> outcome \<times> pyval state" where
  "main codec environ issues net =
     (let missing = missing_vars environ in
      if missing \<noteq> [] then
        (case prints codec (missing_report missing) init of
           (Some e, st) \<Rightarrow> (Uncaught e, st)
         | (None, st) \<Rightarrow> (SysExit 1, st))
      else
        let jira_url = rstrip_slash (env_value environ (lit ''JIRA_URL'')) in
        case get_auth_header (env_value environ (lit ''JIRA_EMAIL''))
               (env_value environ (lit ''JIRA_API_TOKEN'')) of
          Inl e \<Rightarrow> (Uncaught e, init)
        | Inr auth_header \<Rightarrow>
            (case prints codec
                    [lit ''Creating '' @ str_nat (length issues) @ lit '' issues in project ''
                       @ PROJECT_KEY @ lit ''...'',
                     lit ''Jira URL: '' @ jira_url,
                     replicate 50 45] init of
               (Some e, st) \<Rightarrow> (Uncaught e, st)
             | (None, st) \<Rightarrow>
                 (case create_all codec net jira_url auth_header issues st of
                    (Some e, st') \<Rightarrow> (Uncaught e, st')
                  | (None, st') \<Rightarrow> report codec jira_url st')))"

subsection \<open>\<^verbatim>\<open>create_jira_issues_v2.py\<close>\<close>

definition missing_report_v2 :: "str list \<Rightarrow> str list" where
  \<open>missing_report_v2 missing =
     [replicate 60 61,
      lit ''ERROR: Missing required environment variables'',
      replicate 60 61]
     @ map (\<lambda>var. lit ''  - '' @ var) missing
     @ [[],
        lit ''Set them using (Windows CMD):'',
        lit ''  set JIRA_URL=https://yoursite.atlassian.net'',
        lit ''  set JIRA_EMAIL=your.email@example.com'',
        lit ''  set JIRA_API_TOKEN=your-api-token'',
        [],
        lit ''Or using (PowerShell):'',
        lit ''  $env:JIRA_URL="https://yoursite.atlassian.net"'',
        lit ''  $env:JIRA_EMAIL="your.email@example.com"'',
        lit ''  $env:JIRA_API_TOKEN="your-api-token"'',
        [],
        lit ''Get your API token at:'',
        lit ''  https://id.atlassian.com/manage-profile/security/api-tokens'',
        replicate 60 61]\<close>

text \<open>An entry of \<^verbatim>\<open>created\<close> in the second script: a dict with three keys.\<close>

record created_item =
  item_key :: pyval
  item_summary :: str
  item_url :: str

definition summary_short :: "issue_data \<Rightarrow> str" where
  "summary_short issue =
     (if length (summary issue) > 45 then take 45 (summary issue) @ lit ''...''
      else summary issue)"

text \<open>The loop over \<^verbatim>\<open>enumerate(ISSUES, 1)\<close>; \<open>n\<close> is \<^verbatim>\<open>len(ISSUES)\<close>, \<open>i\<close> the index.\<close>

fun create_all_v2 ::
  "codec \<Rightarrow> net \<Rightarrow> str \<Rightarrow> str \<Rightarrow> nat \<Rightarrow> nat \<Rightarrow> issue_data list \<Rightarrow> created_item state
     \<Rightarrow> exn option \<times> created_item state" where
  "create_all_v2 codec net jira_url auth_header n i [] st = (None, st)"
| "create_all_v2 codec net jira_url auth_header n i (issue # rest) st =
     (case print codec (lit ''\<newline>['' @ str_nat i @ lit ''/'' @ str_nat n @ lit ''] ''
                          @ summary_short issue) st of
        (Some e, st1) \<Rightarrow> (Some e, st1)
      | (None, st1) \<Rightarrow>
          (let (result, log') =
                 create_issue_v2 net (requests st1) jira_url auth_header PROJECT_KEY issue;
               st2 = st1\<lparr>requests := log'\<rparr>
           in case result of
                Inl e \<Rightarrow> (Some e, st2)
              | Inr (Success k j) \<Rightarrow>
                  (case print codec (lit ''  '' @ [0x2713] @ lit '' Created: '' @ py_str k) st2 of
                     (Some e, st3) \<Rightarrow> (Some e, st3)
                   | (None, st3) \<Rightarrow>
                       create_all_v2 codec net jira_url auth_header n (Suc i) rest
                         (st3\<lparr>created := created st3 @
                            [\<lparr>item_key = k, item_summary = summary issue,
                              item_url = jira_url @ lit ''/browse/'' @ py_str k\<rparr>]\<rparr>))
              | Inr (Failure err) \<Rightarrow>
                  (case print codec
                          (lit ''  '' @ [0x2717] @ lit '' Failed: '' @ take 100 err) st2 of
                     (Some e, st3) \<Rightarrow> (Some e, st3)
                   | (None, st3) \<Rightarrow>
                       create_all_v2 codec net jira_url auth_header n (Suc i) rest
                         (st3\<lparr>failed := failed st3 @ [summary issue]\<rparr>))))"

definition report_v2 :: "codec \<Rightarrow> created_item state \<Rightarrow> outcome \<times> created_item state" where
  "report_v2 codec st =
     (case prints codec
             [lit ''\<newline>'' @ replicate 60 61,
              lit ''SUMMARY'',
              replicate 60 61,
              lit ''Created: '' @ str_nat (length (created st)),
              lit ''Failed:  '' @ str_nat (length (failed st))] st of
        (Some e, st1) \<Rightarrow> (Uncaught e, st1)
      | (None, st1) \<Rightarrow>
          (case (if created st \<noteq> [] then
                   prints codec ([lit ''\<newline>'' @ [0x2713] @ lit '' Created Issues:'']
                     @ concat (map (\<lambda>item.
                         [lit ''  '' @ py_str (item_key item) @ lit '': ''
                            @ take 40 (item_summary item),
                          lit ''    '' @ item_url item]) (created st))) st1
                 else (None, st1)) of
             (Some e, st2) \<Rightarrow> (Uncaught e, st2)
           | (None, st2) \<Rightarrow>
               if failed st \<noteq> [] then
                 (case prints codec ([lit ''\<newline>'' @ [0x2717] @ lit '' Failed Issues:'']
                         @ map (\<lambda>s. lit ''  - '' @ s) (failed st)) st2 of
                    (Some e, st3) \<Rightarrow> (Uncaught e, st3)
                  | (None, st3) \<Rightarrow> (SysExit 1, st3))
               else
                 (case prints codec [lit ''\<newline>'' @ replicate 60 61, lit ''Done!''] st2 of
                    (Some e, st3) \<Rightarrow> (Uncaught e, st3)
                  | (None, st3) \<Rightarrow> (Returned, st3))))"

definition main_v2 ::
  "codec \<Rightarrow> environ \<Rightarrow> issue_data list \<Rightarrow> net \<Rightarrow> outcome \<times> created_item state" where
  "main_v2 codec environ issues net =
     (let missing = missing_vars environ in
      if missing \<noteq> [] then
        (case prints codec (missing_report_v2 missing) init of
           (Some e, st) \<Rightarrow> (Uncaught e, st)
         | (None, st) \<Rightarrow> (SysExit 1, st))
      else
        let jira_url = rstrip_slash (env_value environ (lit ''JIRA_URL'')) in
        case get_auth_header (env_value environ (lit ''JIRA_EMAIL''))
               (env_value environ (lit ''JIRA_API_TOKEN'')) of
          Inl e \<Rightarrow> (Uncaught e, init)
        | Inr auth_header \<Rightarrow>
            (case prints codec
                    [replicate 60 61,
                     lit ''Beyond Burndown - Jira Issue Creator'',
                     replicate 60 61,
                     lit ''Jira URL: '' @ jira_url,
                     lit ''Project:  '' @ PROJECT_KEY,
                     lit ''Issues:   '' @ str_nat (length issues),
                     replicate 60 45,
                     lit ''\<newline>Checking project '' @ PROJECT_KEY @ lit ''...''] init of
               (Some e, st) \<Rightarrow> (Uncaught e, st)
             | (None, st) \<Rightarrow>
                 (let (found, log') =
                        check_project_exists net (requests st) jira_url auth_header PROJECT_KEY;
                      st1 = st\<lparr>requests := log'\<rparr>
                  in case found of
                       Inl e \<Rightarrow> (Uncaught e, st1)
                     | Inr False \<Rightarrow>
                         (case prints codec
                                 [lit ''ERROR: Project '' @ [39] @ PROJECT_KEY @ [39]
                                    @ lit '' not found or not accessible.'',
                                  lit ''Check that:'',
                                  lit ''  1. The project key is correct'',
                                  lit ''  2. Your API token has access to this project'',
                                  lit ''  3. Your Jira URL is correct''] st1 of
                            (Some e, st2) \<Rightarrow> (Uncaught e, st2)
                          | (None, st2) \<Rightarrow> (SysExit 1, st2))
                     | Inr True \<Rightarrow>
                         (case prints codec
                                 [lit ''  '' @ [0x2713] @ lit '' Project '' @ PROJECT_KEY
                                    @ lit '' found'',
                                  lit ''\<newline>Creating issues...'',
                                  replicate 60 45] st1 of
                            (Some e, st2) \<Rightarrow> (Uncaught e, st2)
                          | (None, st2) \<Rightarrow>
                              (case create_all_v2 codec net jira_url auth_header (length issues) 1
                                      issues st2 of
                                 (Some e, st') \<Rightarrow> (Uncaught e, st')
                               | (None, st') \<Rightarrow> report_v2 codec st')))))"

subsection \<open>The issues to create\<close>



section \<open>Notions used in the statements\<close>

text \<open>The field \<open>name\<close> of the \<^verbatim>\<open>fields\<close> object in the JSON body of a request.\<close>

fun json_get :: "json \<Rightarrow> str \<Rightarrow> json option" where
  "json_get (JObject items) name = map_of items name"
| "json_get (JString s) name = None"
| "json_get (JNumber n) name = None"
| "json_get (JArray xs) name = None"

definition body_field :: "http_request \<Rightarrow> str \<Rightarrow> json option" where
  "body_field req name =
     (case req_data req of
        None \<Rightarrow> None
      | Some p \<Rightarrow> (case json_get p (lit ''fields'') of None \<Rightarrow> None | Some f \<Rightarrow> json_get f name))"

text \<open>
  The replies \<^verbatim>\<open>create_issue\<close> turns into a result: a response whose body is a JSON
  object with the keys \<^verbatim>\<open>key\<close> and \<^verbatim>\<open>id\<close>, an HTTP error with a readable body, and a
  \<^verbatim>\<open>URLError\<close>. On every other reply an exception leaves \<^verbatim>\<open>create_issue\<close>.
\<close>

fun handled :: "reply \<Rightarrow> bool" where
  "handled (Response (Readable btext (Some (PDict shown items)))) =
     (map_of items (lit ''key'') \<noteq> None \<and> map_of items (lit ''id'') \<noteq> None)"
| "handled (Response b) = False"
| "handled (HTTPError code (Readable btext parsed)) = True"
| "handled (HTTPError code (Unreadable name)) = False"
| "handled (URLError reason) = True"
| "handled (Raises name) = False"

text \<open>The replies to the probe that \<^verbatim>\<open>check_project_exists\<close> turns into a boolean.\<close>

fun probe_handled :: "reply \<Rightarrow> bool" where
  "probe_handled (Response b) = True"
| "probe_handled (HTTPError code b) = True"
| "probe_handled (URLError reason) = False"
| "probe_handled (Raises name) = False"

text \<open>The replies the network gives when the requests \<open>reqs\<close> are sent one after another.\<close>

fun replies :: "net \<Rightarrow> http_request list \<Rightarrow> http_request list \<Rightarrow> reply list" where
  "replies net log [] = []"
| "replies net log (req # reqs) = net (log @ [req]) # replies net (log @ [req]) reqs"

text \<open>
  What a list of results puts into the accumulators: the keys of the successes, and the
  summaries of the issues whose result is a failure.
\<close>

fun created_keys :: "(exn + creation_result) list \<Rightarrow> pyval list" where
  "created_keys [] = []"
| "created_keys (Inr (Success k i) # rs) = k # created_keys rs"
| "created_keys (r # rs) = created_keys rs"

fun created_items :: "str \<Rightarrow> issue_data list \<Rightarrow> (exn + creation_result) list \<Rightarrow> created_item list" where
  "created_items jira_url (issue # issues) (Inr (Success k i) # rs) =
     \<lparr>item_key = k, item_summary = summary issue,
      item_url = jira_url @ lit ''/browse/'' @ py_str k\<rparr> # created_items jira_url issues rs"
| "created_items jira_url (issue # issues) (r # rs) = created_items jira_url issues rs"
| "created_items jira_url issues rs = []"

fun failed_summaries :: "issue_data list \<Rightarrow> (exn + creation_result) list \<Rightarrow> str list" where
  "failed_summaries (issue # issues) (Inr (Failure err) # rs) =
     summary issue # failed_summaries issues rs"
| "failed_summaries (issue # issues) (r # rs) = failed_summaries issues rs"
| "failed_summaries issues rs = []"

text \<open>
  An attempt lets the loop go on to the next template when \<^verbatim>\<open>create_issue\<close> returns a
  result and the lines the loop prints for the attempt can be encoded: the line
  announcing the template, then for a success the line with the key (and, in the first
  script, the line with the browse URL), for a failure the line with the error detail
  (its first 100 characters in the second script).
\<close>

fun attempt_proceeds :: "codec \<Rightarrow> str \<Rightarrow> issue_data \<Rightarrow> exn + creation_result \<Rightarrow> bool" where
  "attempt_proceeds codec jira_url issue (Inr (Success k i)) =
     (printable codec (take 50 (summary issue)) \<and> printable codec [0x2713]
      \<and> printable codec (py_str k) \<and> printable codec jira_url)"
| "attempt_proceeds codec jira_url issue (Inr (Failure err)) =
     (printable codec (take 50 (summary issue)) \<and> printable codec [0x2717]
      \<and> printable codec err)"
| "attempt_proceeds codec jira_url issue (Inl e) = False"

fun attempt_proceeds_v2 :: "codec \<Rightarrow> issue_data \<Rightarrow> exn + creation_result \<Rightarrow> bool" where
  "attempt_proceeds_v2 codec issue (Inr (Success k i)) =
     (printable codec (summary_short issue) \<and> printable codec [0x2713]
      \<and> printable codec (py_str k))"
| "attempt_proceeds_v2 codec issue (Inr (Failure err)) =
     (printable codec (summary_short issue) \<and> printable codec [0x2717]
      \<and> printable codec (take 100 err))"
| "attempt_proceeds_v2 codec issue (Inl e) = False"

text \<open>The lines the loops print start with a line feed or a space.\<close>

definition loop_line :: "str \<Rightarrow> bool" where
  "loop_line l \<longleftrightarrow> take 1 l = [10] \<or> take 1 l = [32]"

text \<open>The summary has been printed: the line with the counts, or the heading.\<close>

definition summary_printed :: "str list \<Rightarrow> bool" where
  "summary_printed out = list_ex (\<lambda>l. take 9 l = lit ''Summary: '') out"

definition summary_printed_v2 :: "str list \<Rightarrow> bool" where
  "summary_printed_v2 out = list_ex (\<lambda>l. l = lit ''SUMMARY'') out"

text \<open>The lines of the output that list a variable or an issue: they start with \<^verbatim>\<open>  - \<close>.\<close>

definition listing :: "str list \<Rightarrow> str list" where
  "listing out = filter (\<lambda>l. take 4 l = lit ''  - '') out"

text \<open>Every issue of the list has been created: all are in \<^verbatim>\<open>created\<close>, none in \<^verbatim>\<open>failed\<close>.\<close>

definition all_created :: "issue_data list \<Rightarrow> 'c state \<Rightarrow> bool" where
  "all_created issues st \<longleftrightarrow> length (created st) = length issues \<and> failed st = []"

text \<open>
  The project check of the second script, made with the configured URL and credentials,
  returns \<^verbatim>\<open>True\<close>.
\<close>

definition project_found :: "environ \<Rightarrow> net \<Rightarrow> bool" where
  "project_found environ net =
     (case get_auth_header (env_value environ (lit ''JIRA_EMAIL''))
             (env_value environ (lit ''JIRA_API_TOKEN'')) of
        Inl e \<Rightarrow> False
      | Inr auth_header \<Rightarrow>
          fst (check_project_exists net []
                 (rstrip_slash (env_value environ (lit ''JIRA_URL''))) auth_header PROJECT_KEY)
            = Inr True)"

text \<open>A URL that continues \<open>base\<close> with a path, with exactly one slash at the joint.\<close>

definition joined :: "str \<Rightarrow> str \<Rightarrow> bool" where
  "joined base full \<longleftrightarrow>
     (\<exists>seg. full = base @ [47] @ seg \<and> take 1 seg \<noteq> [47])
     \<and> (base = [] \<or> last base \<noteq> 47)"

subsection \<open>Standard Base64\<close>

text \<open>
  The encoding as the standard (RFC 4648, section 4) words it: the bytes are read as one
  stream of bits, most significant bit first; the stream is cut into groups of six bits,
  the last group filled up with zero bits; each group selects a character of the
  alphabet; the characters are padded with \<^verbatim>\<open>=\<close> to a multiple of four.
\<close>

text \<open>The \<open>k\<close> low bits of a number, most significant first.\<close>

fun bits_of :: "nat \<Rightarrow> nat \<Rightarrow> bool list" where
  "bits_of 0 n = []"
| "bits_of (Suc k) n = bits_of k (n div 2) @ [odd n]"

text \<open>The number a list of bits denotes, least significant bit first and most significant bit first.\<close>

fun value_lsb :: "bool list \<Rightarrow> nat" where
  "value_lsb [] = 0"
| "value_lsb (b # bits) = (if b then 1 else 0) + 2 * value_lsb bits"

definition bits_value :: "bool list \<Rightarrow> nat" where
  "bits_value bits = value_lsb (rev bits)"

function sextets :: "bool list \<Rightarrow> bool list list" where
  "sextets bits =
     (if bits = [] then [] else take 6 (bits @ replicate 5 False) # sextets (drop 6 bits))"
  by pat_completeness auto
termination
  by (relation "measure length") auto

definition base64_standard :: "bytes \<Rightarrow> str" where
  "base64_standard raw =
     (let chars = map (\<lambda>g. b64_alphabet ! bits_value g) (sextets (concat (map (bits_of 8) raw)))
      in chars @ replicate ((4 - length chars mod 4) mod 4) 61)"

definition sextet_chars :: "bytes \<Rightarrow> str" where
  "sextet_chars raw =
     map (\<lambda>g. b64_alphabet ! bits_value g) (sextets (concat (map (bits_of 8) raw)))"


subsection \<open>Sample data\<close>

definition sample_issue :: issue_data where
  "sample_issue = \<lparr>summary = lit ''Set up tests'', description = lit ''h2. Summary'',
     issuetype = Some (lit ''Task''), labels = Some [lit ''testing'', lit ''e2e'']\<rparr>"

definition sample_url :: str where
  "sample_url = lit ''https://x.atlassian.net''"

definition sample_auth :: str where
  "sample_auth = lit ''Basic YUBiLmNvbTp0b2sxMjM=''"

definition sample_items :: "(str \<times> pyval) list" where
  "sample_items = [(lit ''id'', PStr (lit ''10007'')), (lit ''key'', PStr (lit ''BB-7''))]"

definition created_text :: str where
  \<open>created_text = lit ''{"id": "10007", "key": "BB-7"}''\<close>

definition created_shown :: str where
  \<open>created_shown = lit ''{'id': '10007', 'key': 'BB-7'}''\<close>

definition created_reply :: reply where
  "created_reply = Response (Readable created_text (Some (PDict created_shown sample_items)))"

definition bad_request_text :: str where
  \<open>bad_request_text = lit ''{"errorMessages":["bad request"]}''\<close>

definition bad_request_reply :: reply where
  "bad_request_reply = HTTPError 400 (Readable bad_request_text None)"

text \<open>An HTTP 500 whose body is not UTF-8, and a connection closed without a response.\<close>

definition undecodable_reply :: reply where
  "undecodable_reply = HTTPError 500 (Unreadable (lit ''UnicodeDecodeError''))"

definition disconnected_reply :: reply where
  "disconnected_reply = Raises (lit ''RemoteDisconnected'')"

text \<open>The codec of a UTF-8 terminal: every code point but the surrogates.\<close>

definition utf8_stdout :: codec where
  "utf8_stdout c \<longleftrightarrow> \<not> surrogate c \<and> c < 0x110000"

definition refused :: str where
  "refused = lit ''[Errno 111] Connection refused''"

definition sample_environ :: environ where
  "sample_environ =
     [lit ''JIRA_URL'' \<mapsto> lit ''https://x.atlassian.net/'',
      lit ''JIRA_EMAIL'' \<mapsto> lit ''a@b.com'',
      lit ''JIRA_API_TOKEN'' \<mapsto> lit ''tok123'']"

definition second_issue :: issue_data where
  "second_issue = \<lparr>summary = lit ''Write tests'', description = lit ''h2. Scope'',
     issuetype = None, labels = None\<rparr>"

definition three_issues :: "issue_data list" where
  "three_issues = [sample_issue, second_issue, sample_issue]"

text \<open>A network that rejects the second request it sees and accepts the others.\<close>

definition second_fails :: net where
  "second_fails h = (if length h = 2 then bad_request_reply else created_reply)"

text \<open>A network that answers the second request with the undecodable HTTP 500.\<close>

definition second_undecodable :: net where
  "second_undecodable h = (if length h = 2 then undecodable_reply else created_reply)"

text \<open>
  A response to a create request whose key is a lone surrogate, written in the body as a
  JSON escape, and the answer to the probe for a project that does not exist.
\<close>

definition surrogate_key_reply :: reply where
  \<open>surrogate_key_reply =
     Response (Readable (lit ''{"key":"'' @ [92] @ lit ''ud800","id":"1"}'')
       (Some (PDict (lit ''{'key': '' @ [39, 92] @ lit ''ud800', 'id': '1'}'')
          [(lit ''key'', PStr [0xD800]), (lit ''id'', PStr (lit ''1''))])))\<close>

definition html_reply :: reply where
  "html_reply = Response (Readable (lit ''<html>OK</html>'') None)"

definition not_found_reply :: reply where
  "not_found_reply = HTTPError 404 (Readable (lit ''Not Found'') None)"


section \<open>Single requests\<close>

lemma create_issue_eq:
  "create_issue net log u h k issue =
     (try_create (net (log @ [create_request u h k issue])), log @ [create_request u h k issue])"
  by (simp add: create_issue_def send_create_def urlopen_def)

lemma create_issue_v2_eq:
  "create_issue_v2 net log u h k issue =
     (try_create (net (log @ [create_request_v2 u h k issue])),
      log @ [create_request_v2 u h k issue])"
  by (simp add: create_issue_v2_def send_create_def urlopen_def)

lemma check_project_exists_eq:
  "check_project_exists net log u h k =
     (case net (log @ [probe_request u h k]) of
        Response b \<Rightarrow> Inr True
      | HTTPError code b \<Rightarrow> Inr False
      | URLError reason \<Rightarrow> Inl (URLError_exn reason)
      | Raises name \<Rightarrow> Inl (OtherException name),
      log @ [probe_request u h k])"
  by (simp add: check_project_exists_def urlopen_def)

lemma try_create_success:
  "map_of items (lit ''key'') = Some k \<Longrightarrow> map_of items (lit ''id'') = Some i \<Longrightarrow>
   try_create (Response (Readable btext (Some (PDict shown items)))) = Inr (Success k i)"
  by (simp add: try_create_def json_loads_def read_decode_def)

lemma try_create_http_error:
  "try_create (HTTPError code (Readable btext parsed)) =
     Inr (Failure (str_nat code @ lit '': '' @ btext))"
  by (simp add: try_create_def read_decode_def)

lemma try_create_url_error: "try_create (URLError reason) = Inr (Failure reason)"
  by (simp add: try_create_def)

lemma handled_iff: "handled r \<longleftrightarrow> (\<exists>res. try_create r = Inr res)"
  by (induction r rule: handled.induct)
     (auto simp: try_create_def json_loads_def read_decode_def split: option.splits)

lemma labels_lookup:
  "body_field (create_request u h k issue) (lit ''labels'')
     = map_option (\<lambda>ls. JArray (map JString ls)) (labels issue)"
  by (cases "labels issue")
     (simp_all add: body_field_def create_request_def payload_def labels_field_def)

lemma labels_lookup_v2:
  "body_field (create_request_v2 u h k issue) (lit ''labels'')
     = map_option (\<lambda>ls. JArray (map JString ls)) (labels issue)"
  by (cases "labels issue")
     (simp_all add: body_field_def create_request_v2_def payload_v2_def labels_field_def)

lemma try_create_raises:
  "try_create (HTTPError code (Unreadable name)) = Inl (OtherException name)"
  "try_create (Raises name) = Inl (OtherException name)"
  by (simp_all add: try_create_def read_decode_def)

text \<open>
  C1, as stated, fails: not every HTTP error response gives a failure result. When the
  body of the error response is not UTF-8, \<^verbatim>\<open>e.read().decode()\<close> raises inside the handler
  and the exception leaves \<^verbatim>\<open>create_issue\<close>.
\<close>

theorem http_error_undecodable_body_raises:
  "fst (create_issue (\<lambda>h. undecodable_reply) [] sample_url sample_auth PROJECT_KEY sample_issue)
     = Inl (OtherException (lit ''UnicodeDecodeError''))"
  by (simp add: create_issue_eq undecodable_reply_def try_create_raises)

text \<open>
  C1, amended. \<^verbatim>\<open>create_issue\<close> (both scripts) returns a success carrying \<^verbatim>\<open>key\<close> and
  \<^verbatim>\<open>id\<close> unchanged when \<^verbatim>\<open>urlopen\<close> returns a response whose body is a JSON object
  holding both; a failure whose detail is the status code in decimal, a colon and a
  space, and the body text when \<^verbatim>\<open>urlopen\<close> raises \<^verbatim>\<open>HTTPError\<close> and the body can be read
  and decoded; a failure whose detail is the text of the reason when \<^verbatim>\<open>urlopen\<close> raises a
  \<^verbatim>\<open>URLError\<close>. When the body of an HTTP error cannot be read or decoded, or when
  \<^verbatim>\<open>urlopen\<close> raises an exception that is no \<^verbatim>\<open>URLError\<close>, that exception leaves
  \<^verbatim>\<open>create_issue\<close>.
\<close>

theorem create_issue_discriminated_result:
  "(net (log @ [create_request u h k issue]) = Response (Readable btext (Some (PDict shown items)))
      \<and> map_of items (lit ''key'') = Some key \<and> map_of items (lit ''id'') = Some ident
    \<longrightarrow> fst (create_issue net log u h k issue) = Inr (Success key ident))
   \<and> (net (log @ [create_request u h k issue]) = HTTPError code (Readable btext parsed)
    \<longrightarrow> fst (create_issue net log u h k issue)
          = Inr (Failure (str_nat code @ lit '': '' @ btext)))
   \<and> (net (log @ [create_request u h k issue]) = URLError reason
    \<longrightarrow> fst (create_issue net log u h k issue) = Inr (Failure reason))
   \<and> (net (log @ [create_request u h k issue]) = HTTPError code (Unreadable name)
    \<longrightarrow> fst (create_issue net log u h k issue) = Inl (OtherException name))
   \<and> (net (log @ [create_request u h k issue]) = Raises name
    \<longrightarrow> fst (create_issue net log u h k issue) = Inl (OtherException name))
   \<and> (net (log @ [create_request_v2 u h k issue])
        = Response (Readable btext (Some (PDict shown items)))
      \<and> map_of items (lit ''key'') = Some key \<and> map_of items (lit ''id'') = Some ident
    \<longrightarrow> fst (create_issue_v2 net log u h k issue) = Inr (Success key ident))
   \<and> (net (log @ [create_request_v2 u h k issue]) = HTTPError code (Readable btext parsed)
    \<longrightarrow> fst (create_issue_v2 net log u h k issue)
          = Inr (Failure (str_nat code @ lit '': '' @ btext)))
   \<and> (net (log @ [create_request_v2 u h k issue]) = URLError reason
    \<longrightarrow> fst (create_issue_v2 net log u h k issue) = Inr (Failure reason))
   \<and> (net (log @ [create_request_v2 u h k issue]) = HTTPError code (Unreadable name)
    \<longrightarrow> fst (create_issue_v2 net log u h k issue) = Inl (OtherException name))
   \<and> (net (log @ [create_request_v2 u h k issue]) = Raises name
    \<longrightarrow> fst (create_issue_v2 net log u h k issue) = Inl (OtherException name))"
  by (simp add: create_issue_eq create_issue_v2_eq try_create_success try_create_http_error
        try_create_url_error try_create_raises)

theorem create_issue_discriminated_result_witness:
  "fst (create_issue (\<lambda>h. created_reply) [] sample_url sample_auth PROJECT_KEY sample_issue)
     = Inr (Success (PStr (lit ''BB-7'')) (PStr (lit ''10007'')))
   \<and> fst (create_issue_v2 (\<lambda>h. created_reply) [] sample_url sample_auth PROJECT_KEY sample_issue)
     = Inr (Success (PStr (lit ''BB-7'')) (PStr (lit ''10007'')))
   \<and> fst (create_issue (\<lambda>h. bad_request_reply) [] sample_url sample_auth PROJECT_KEY sample_issue)
     = Inr (Failure (lit ''400: '' @ bad_request_text))
   \<and> fst (create_issue_v2 (\<lambda>h. bad_request_reply) [] sample_url sample_auth PROJECT_KEY sample_issue)
     = Inr (Failure (lit ''400: '' @ bad_request_text))
   \<and> fst (create_issue (\<lambda>h. URLError refused) [] sample_url sample_auth PROJECT_KEY sample_issue)
     = Inr (Failure refused)
   \<and> fst (create_issue_v2 (\<lambda>h. URLError refused) [] sample_url sample_auth PROJECT_KEY sample_issue)
     = Inr (Failure refused)
   \<and> fst (create_issue_v2 (\<lambda>h. undecodable_reply) [] sample_url sample_auth PROJECT_KEY
          sample_issue)
     = Inl (OtherException (lit ''UnicodeDecodeError''))
   \<and> fst (create_issue (\<lambda>h. disconnected_reply) [] sample_url sample_auth PROJECT_KEY
          sample_issue)
     = Inl (OtherException (lit ''RemoteDisconnected''))
   \<and> fst (create_issue_v2 (\<lambda>h. disconnected_reply) [] sample_url sample_auth PROJECT_KEY
          sample_issue)
     = Inl (OtherException (lit ''RemoteDisconnected''))"
  using
    create_issue_discriminated_result
      [where net = "\<lambda>h. created_reply" and log = "[]" and u = sample_url and h = sample_auth
        and k = PROJECT_KEY and issue = sample_issue and btext = created_text
        and shown = created_shown and items = sample_items
        and key = "PStr (lit ''BB-7'')" and ident = "PStr (lit ''10007'')"]
    create_issue_discriminated_result
      [where net = "\<lambda>h. bad_request_reply" and log = "[]" and u = sample_url
        and h = sample_auth and k = PROJECT_KEY and issue = sample_issue and code = 400
        and btext = bad_request_text and parsed = None]
    create_issue_discriminated_result
      [where net = "\<lambda>h. URLError refused" and log = "[]" and u = sample_url
        and h = sample_auth and k = PROJECT_KEY and issue = sample_issue and reason = refused]
    create_issue_discriminated_result
      [where net = "\<lambda>h. undecodable_reply" and log = "[]" and u = sample_url
        and h = sample_auth and k = PROJECT_KEY and issue = sample_issue and code = 500
        and name = "lit ''UnicodeDecodeError''"]
    create_issue_discriminated_result
      [where net = "\<lambda>h. disconnected_reply" and log = "[]" and u = sample_url
        and h = sample_auth and k = PROJECT_KEY and issue = sample_issue
        and name = "lit ''RemoteDisconnected''"]
  by (simp add: created_reply_def sample_items_def bad_request_reply_def undecodable_reply_def
        disconnected_reply_def str_nat.simps)

text \<open>
  C5, at the failing input. When \<^verbatim>\<open>urlopen\<close> raises a \<^verbatim>\<open>URLError\<close> (here: the host name
  does not resolve), \<^verbatim>\<open>check_project_exists\<close> does not return \<^verbatim>\<open>False\<close>: its only handler
  is for \<^verbatim>\<open>HTTPError\<close>, and the \<^verbatim>\<open>URLError\<close> leaves the function.
\<close>

theorem check_project_exists_url_error_escapes:
  "fst (check_project_exists (\<lambda>h. URLError (lit ''[Errno -2] Name or service not known'')) []
          sample_url sample_auth PROJECT_KEY)
     = Inl (URLError_exn (lit ''[Errno -2] Name or service not known''))"
  by (simp add: check_project_exists_eq)

text \<open>
  C9, as stated, fails: a template whose \<^verbatim>\<open>labels\<close> entry is the empty list has no
  labels, yet the request body carries the field \<^verbatim>\<open>labels\<close>, with the empty list.
\<close>

theorem labels_empty_list_is_sent:
  "body_field
     (last (snd (create_issue (\<lambda>h. created_reply) [] sample_url sample_auth PROJECT_KEY
        \<lparr>summary = lit ''Set up tests'', description = lit ''h2. Summary'',
          issuetype = None, labels = Some []\<rparr>)))
     (lit ''labels'') = Some (JArray [])"
  using labels_lookup [of sample_url sample_auth PROJECT_KEY
      "\<lparr>summary = lit ''Set up tests'', description = lit ''h2. Summary'',
        issuetype = None, labels = Some []\<rparr>"]
  by (simp add: create_issue_eq)

text \<open>
  C9, amended. The request \<^verbatim>\<open>create_issue\<close> sends (both scripts) has the field
  \<^verbatim>\<open>labels\<close> exactly when the template has the key \<^verbatim>\<open>labels\<close>, and the field then holds
  the template's labels unchanged, also when that list is empty.
\<close>

theorem labels_sent_iff_key_present:
  "snd (create_issue net log u h k issue) = log @ [create_request u h k issue]
   \<and> body_field (create_request u h k issue) (lit ''labels'')
       = map_option (\<lambda>ls. JArray (map JString ls)) (labels issue)
   \<and> snd (create_issue_v2 net log u h k issue) = log @ [create_request_v2 u h k issue]
   \<and> body_field (create_request_v2 u h k issue) (lit ''labels'')
       = map_option (\<lambda>ls. JArray (map JString ls)) (labels issue)"
  using labels_lookup [of u h k issue] labels_lookup_v2 [of u h k issue]
  by (simp add: create_issue_eq create_issue_v2_eq)
section \<open>The loops over the issues\<close>

lemma printable_Nil [simp]: "printable codec []"
  and printable_Cons [simp]:
    "printable codec (c # s) \<longleftrightarrow> (c < 128 \<or> codec c) \<and> printable codec s"
  and printable_append [simp]:
    "printable codec (s @ t) \<longleftrightarrow> printable codec s \<and> printable codec t"
  by (simp_all add: printable_def)

lemma printable_take: "printable codec s \<Longrightarrow> printable codec (take n s)"
  unfolding printable_def list_all_iff by (auto dest: in_set_takeD)

lemma printable_take_le:
  "printable codec (take m s) \<Longrightarrow> n \<le> m \<Longrightarrow> printable codec (take n s)"
  using printable_take [of codec "take m s" n] by (simp add: min_def)

lemma printable_replicate: "c < 128 \<Longrightarrow> printable codec (replicate n c)"
  by (induction n) simp_all

lemma printable_rule [simp]:
  "printable codec (replicate n 45)" "printable codec (replicate n 61)"
  by (simp_all add: printable_replicate)

lemma printable_str_nat [simp]: "printable codec (str_nat n)"
proof (induction n rule: str_nat.induct)
  case (1 n)
  show ?case
  proof (cases "n < 10")
    case True
    then show ?thesis by (subst str_nat.simps) simp
  next
    case False
    moreover have "48 + n mod 10 < 128" by presburger
    ultimately show ?thesis using 1 by (subst str_nat.simps) simp
  qed
qed

lemma printable_rstrip_slash: "printable codec s \<Longrightarrow> printable codec (rstrip_slash s)"
proof -
  assume p: "printable codec s"
  have "set (rstrip_slash s) \<subseteq> set s"
    unfolding rstrip_slash_def using set_dropWhileD by fastforce
  with p show ?thesis
    unfolding printable_def list_all_iff by blast
qed

lemma printable_PROJECT_KEY [simp]: "printable codec PROJECT_KEY"
  by (simp add: PROJECT_KEY_def)

lemma print_eq:
  "printable codec s \<Longrightarrow> print codec s st = (None, st\<lparr>stdout := stdout st @ [s]\<rparr>)"
  "\<not> printable codec s \<Longrightarrow> print codec s st = (Some UnicodeEncodeError, st)"
  by (simp_all add: print_def)

lemma prints_eq:
  "prints codec ss st =
     (if list_all (printable codec) ss then None else Some UnicodeEncodeError,
      st\<lparr>stdout := stdout st @ takeWhile (printable codec) ss\<rparr>)"
proof (induction ss arbitrary: st)
  case Nil
  show ?case by simp
next
  case (Cons s ss)
  show ?case
    by (cases "printable codec s") (simp_all add: print_def Cons.IH)
qed

lemma prints_ok:
  "list_all (printable codec) ss \<Longrightarrow> prints codec ss st = (None, st\<lparr>stdout := stdout st @ ss\<rparr>)"
  by (simp add: prints_eq takeWhile_eq_all_conv list_all_iff)

lemma prints_state [simp]:
  "requests (snd (prints codec ss st)) = requests st"
  "created (snd (prints codec ss st)) = created st"
  "failed (snd (prints codec ss st)) = failed st"
  "stdout (snd (prints codec ss st)) = stdout st @ takeWhile (printable codec) ss"
  by (simp_all add: prints_eq)

lemma prints_fst: "fst (prints codec ss st) = None \<longleftrightarrow> list_all (printable codec) ss"
  by (simp add: prints_eq)


lemma loop_line_simps [simp]:
  "loop_line (10 # l)" "loop_line (32 # l)"
  by (simp_all add: loop_line_def)

lemma attempt_proceeds_summary:
  "attempt_proceeds codec u issue r \<Longrightarrow> printable codec (take 50 (summary issue))"
  by (induction codec u issue r rule: attempt_proceeds.induct) simp_all

lemma create_all_Cons_cases:
  obtains
    (stopped) e st' ls where
      "\<not> attempt_proceeds codec u issue
           (try_create (net (requests st @ [create_request u auth PROJECT_KEY issue])))"
      "create_all codec net u auth (issue # rest) st = (Some e, st')"
      "requests st' = requests st
       \<or> requests st' = requests st @ [create_request u auth PROJECT_KEY issue]"
      "created st' = created st" "failed st' = failed st"
      "stdout st' = stdout st @ ls" "list_all loop_line ls"
  | (success) k i st' where
      "try_create (net (requests st @ [create_request u auth PROJECT_KEY issue]))
         = Inr (Success k i)"
      "attempt_proceeds codec u issue (Inr (Success k i))"
      "create_all codec net u auth (issue # rest) st = create_all codec net u auth rest st'"
      "requests st' = requests st @ [create_request u auth PROJECT_KEY issue]"
      "created st' = created st @ [k]" "failed st' = failed st"
      "stdout st' = stdout st @
         [lit ''\<newline>Creating: '' @ take 50 (summary issue) @ lit ''...'',
          lit ''  '' @ [0x2713] @ lit '' Created: '' @ py_str k,
          lit ''    URL: '' @ u @ lit ''/browse/'' @ py_str k]"
  | (failure) err st' where
      "try_create (net (requests st @ [create_request u auth PROJECT_KEY issue]))
         = Inr (Failure err)"
      "attempt_proceeds codec u issue (Inr (Failure err))"
      "create_all codec net u auth (issue # rest) st = create_all codec net u auth rest st'"
      "requests st' = requests st @ [create_request u auth PROJECT_KEY issue]"
      "created st' = created st" "failed st' = failed st @ [summary issue]"
      "stdout st' = stdout st @
         [lit ''\<newline>Creating: '' @ take 50 (summary issue) @ lit ''...'',
          lit ''  '' @ [0x2717] @ lit '' Failed: '' @ err]"
proof -
  let ?req = "create_request u auth PROJECT_KEY issue"
  let ?r = "try_create (net (requests st @ [?req]))"
  let ?l1 = "lit ''\<newline>Creating: '' @ take 50 (summary issue) @ lit ''...''"
  show ?thesis
  proof (cases "printable codec (take 50 (summary issue))")
    case False
    have nap: "\<not> attempt_proceeds codec u issue ?r"
      using False attempt_proceeds_summary by blast
    show ?thesis
      using False
      by (intro stopped [where st' = st and ls = "[]" and e = UnicodeEncodeError] nap)
         (simp_all add: print_def)
  next
    case p1: True
    define st2 where "st2 = st\<lparr>stdout := stdout st @ [?l1], requests := requests st @ [?req]\<rparr>"
    have st2: "requests st2 = requests st @ [?req]" "created st2 = created st"
      "failed st2 = failed st" "stdout st2 = stdout st @ [?l1]"
      by (simp_all add: st2_def)
    show ?thesis
    proof (cases ?r)
      case (Inl e)
      have nap: "\<not> attempt_proceeds codec u issue ?r" by (simp add: Inl)
      show ?thesis
        using p1 Inl
        by (intro stopped [where st' = st2 and ls = "[?l1]" and e = e] nap)
           (simp_all add: print_def create_issue_eq st2_def)
    next
      case (Inr res)
      show ?thesis
      proof (cases res)
        case (Success k i)
        let ?l2 = "lit ''  '' @ [0x2713] @ lit '' Created: '' @ py_str k"
        let ?l3 = "lit ''    URL: '' @ u @ lit ''/browse/'' @ py_str k"
        note r = Inr [unfolded Success]
        show ?thesis
        proof (cases "printable codec ?l2")
          case bad: False
          have nap: "\<not> attempt_proceeds codec u issue ?r"
            using bad by (auto simp add: r)
          show ?thesis
            using p1 r bad
            by (intro stopped [where st' = st2 and ls = "[?l1]" and e = UnicodeEncodeError] nap)
               (auto simp add: print_def prints_eq create_issue_eq st2_def)
        next
          case ok2: True
          show ?thesis
          proof (cases "printable codec ?l3")
            case bad: False
            define st3 where "st3 = st2\<lparr>stdout := stdout st2 @ [?l2]\<rparr>"
            have nap: "\<not> attempt_proceeds codec u issue ?r"
              using bad ok2 by (auto simp add: r)
            show ?thesis
              using p1 r ok2 bad
              by (intro stopped [where st' = st3 and ls = "[?l1, ?l2]"
                    and e = UnicodeEncodeError] nap)
                 (auto simp add: print_def prints_eq create_issue_eq st2_def st3_def)
          next
            case ok3: True
            define st3 where "st3 = st2\<lparr>stdout := stdout st2 @ [?l2, ?l3],
              created := created st2 @ [k]\<rparr>"
            have ap: "attempt_proceeds codec u issue (Inr (Success k i))"
              using p1 ok2 ok3 by simp
            show ?thesis
              using p1 r ok2 ok3
              by (intro success [where st' = st3, OF r ap])
                 (auto simp add: print_def prints_eq create_issue_eq st2_def st3_def)
          qed
        qed
      next
        case (Failure err)
        let ?l2 = "lit ''  '' @ [0x2717] @ lit '' Failed: '' @ err"
        note r = Inr [unfolded Failure]
        show ?thesis
        proof (cases "printable codec ?l2")
          case ok: True
          define st3 where "st3 = st2\<lparr>stdout := stdout st2 @ [?l2],
            failed := failed st2 @ [summary issue]\<rparr>"
          have ap: "attempt_proceeds codec u issue (Inr (Failure err))"
            using p1 ok by simp
          show ?thesis
            using p1 r ok
            by (intro failure [where st' = st3, OF r ap])
               (simp_all add: print_def create_issue_eq st2_def st3_def)
        next
          case bad: False
          have nap: "\<not> attempt_proceeds codec u issue ?r"
            using bad by (auto simp add: r)
          show ?thesis
            using p1 r bad
            by (intro stopped [where st' = st2 and ls = "[?l1]" and e = UnicodeEncodeError] nap)
               (auto simp add: print_def create_issue_eq st2_def)
        qed
      qed
    qed
  qed
qed

declare create_all.simps(2) [simp del]


lemma attempt_proceeds_v2_summary:
  "attempt_proceeds_v2 codec issue r \<Longrightarrow> printable codec (summary_short issue)"
  by (induction codec issue r rule: attempt_proceeds_v2.induct) simp_all

lemma attempt_proceeds_handled:
  "attempt_proceeds codec u issue (try_create r) \<Longrightarrow> handled r"
  "attempt_proceeds_v2 codec issue (try_create r) \<Longrightarrow> handled r"
  by (cases "try_create r"; simp add: handled_iff)+

lemma create_all_v2_Cons_cases:
  obtains
    (stopped) e st' ls where
      "\<not> attempt_proceeds_v2 codec issue
           (try_create (net (requests st @ [create_request_v2 u auth PROJECT_KEY issue])))"
      "create_all_v2 codec net u auth n j (issue # rest) st = (Some e, st')"
      "requests st' = requests st
       \<or> requests st' = requests st @ [create_request_v2 u auth PROJECT_KEY issue]"
      "created st' = created st" "failed st' = failed st"
      "stdout st' = stdout st @ ls" "list_all loop_line ls"
  | (success) k i st' where
      "try_create (net (requests st @ [create_request_v2 u auth PROJECT_KEY issue]))
         = Inr (Success k i)"
      "attempt_proceeds_v2 codec issue (Inr (Success k i))"
      "create_all_v2 codec net u auth n j (issue # rest) st
         = create_all_v2 codec net u auth n (Suc j) rest st'"
      "requests st' = requests st @ [create_request_v2 u auth PROJECT_KEY issue]"
      "created st' = created st @
         [\<lparr>item_key = k, item_summary = summary issue,
           item_url = u @ lit ''/browse/'' @ py_str k\<rparr>]" "failed st' = failed st"
      "stdout st' = stdout st @
         [lit ''\<newline>['' @ str_nat j @ lit ''/'' @ str_nat n @ lit ''] '' @ summary_short issue,
          lit ''  '' @ [0x2713] @ lit '' Created: '' @ py_str k]"
  | (failure) err st' where
      "try_create (net (requests st @ [create_request_v2 u auth PROJECT_KEY issue]))
         = Inr (Failure err)"
      "attempt_proceeds_v2 codec issue (Inr (Failure err))"
      "create_all_v2 codec net u auth n j (issue # rest) st
         = create_all_v2 codec net u auth n (Suc j) rest st'"
      "requests st' = requests st @ [create_request_v2 u auth PROJECT_KEY issue]"
      "created st' = created st" "failed st' = failed st @ [summary issue]"
      "stdout st' = stdout st @
         [lit ''\<newline>['' @ str_nat j @ lit ''/'' @ str_nat n @ lit ''] '' @ summary_short issue,
          lit ''  '' @ [0x2717] @ lit '' Failed: '' @ take 100 err]"
proof -
  let ?req = "create_request_v2 u auth PROJECT_KEY issue"
  let ?r = "try_create (net (requests st @ [?req]))"
  let ?l1 = "lit ''\<newline>['' @ str_nat j @ lit ''/'' @ str_nat n @ lit ''] '' @ summary_short issue"
  show ?thesis
  proof (cases "printable codec (summary_short issue)")
    case False
    have nap: "\<not> attempt_proceeds_v2 codec issue ?r"
      using False attempt_proceeds_v2_summary by blast
    show ?thesis
      using False
      by (intro stopped [where st' = st and ls = "[]" and e = UnicodeEncodeError] nap)
         (simp_all add: print_def)
  next
    case p1: True
    define st2 where "st2 = st\<lparr>stdout := stdout st @ [?l1], requests := requests st @ [?req]\<rparr>"
    show ?thesis
    proof (cases ?r)
      case (Inl e)
      have nap: "\<not> attempt_proceeds_v2 codec issue ?r" by (simp add: Inl)
      show ?thesis
        using p1 Inl
        by (intro stopped [where st' = st2 and ls = "[?l1]" and e = e] nap)
           (simp_all add: print_def create_issue_v2_eq st2_def)
    next
      case (Inr res)
      show ?thesis
      proof (cases res)
        case (Success k i)
        let ?l2 = "lit ''  '' @ [0x2713] @ lit '' Created: '' @ py_str k"
        note r = Inr [unfolded Success]
        show ?thesis
        proof (cases "printable codec ?l2")
          case bad: False
          have nap: "\<not> attempt_proceeds_v2 codec issue ?r"
            using bad by (auto simp add: r)
          show ?thesis
            using p1 r bad
            by (intro stopped [where st' = st2 and ls = "[?l1]" and e = UnicodeEncodeError] nap)
               (auto simp add: print_def create_issue_v2_eq st2_def)
        next
          case ok2: True
          define st3 where "st3 = st2\<lparr>stdout := stdout st2 @ [?l2],
            created := created st2 @ [\<lparr>item_key = k, item_summary = summary issue,
              item_url = u @ lit ''/browse/'' @ py_str k\<rparr>]\<rparr>"
          have ap: "attempt_proceeds_v2 codec issue (Inr (Success k i))"
            using p1 ok2 by simp
          show ?thesis
            using p1 r ok2
            by (intro success [where st' = st3, OF r ap])
               (auto simp add: print_def create_issue_v2_eq st2_def st3_def)
        qed
      next
        case (Failure err)
        let ?l2 = "lit ''  '' @ [0x2717] @ lit '' Failed: '' @ take 100 err"
        note r = Inr [unfolded Failure]
        show ?thesis
        proof (cases "printable codec ?l2")
          case ok: True
          define st3 where "st3 = st2\<lparr>stdout := stdout st2 @ [?l2],
            failed := failed st2 @ [summary issue]\<rparr>"
          have ap: "attempt_proceeds_v2 codec issue (Inr (Failure err))"
            using p1 ok by simp
          show ?thesis
            using p1 r ok
            by (intro failure [where st' = st3, OF r ap])
               (auto simp add: print_def create_issue_v2_eq st2_def st3_def)
        next
          case bad: False
          have nap: "\<not> attempt_proceeds_v2 codec issue ?r"
            using bad by (auto simp add: r)
          show ?thesis
            using p1 r bad
            by (intro stopped [where st' = st2 and ls = "[?l1]" and e = UnicodeEncodeError] nap)
               (auto simp add: print_def create_issue_v2_eq st2_def)
        qed
      qed
    qed
  qed
qed

declare create_all_v2.simps(2) [simp del]

lemma create_all_proceeds_iff:
  "fst (create_all codec net u auth issues st) = None
   \<longleftrightarrow> list_all2 (attempt_proceeds codec u) issues
         (map try_create
            (replies net (requests st) (map (create_request u auth PROJECT_KEY) issues)))"
proof (induction issues arbitrary: st)
  case Nil
  show ?case by simp
next
  case (Cons issue rest)
  show ?case
  proof (cases rule: create_all_Cons_cases [of codec u issue net st auth rest])
    case (stopped e st' ls)
    then show ?thesis by simp
  next
    case (success k i st')
    from Cons.IH [of st'] show ?thesis
      unfolding success(3) using success(1,2) by (simp add: success(4))
  next
    case (failure err st')
    from Cons.IH [of st'] show ?thesis
      unfolding failure(3) using failure(1,2) by (simp add: failure(4))
  qed
qed

lemma create_all_result:
  "fst (create_all codec net u auth issues st) = None \<Longrightarrow>
   requests (snd (create_all codec net u auth issues st))
       = requests st @ map (create_request u auth PROJECT_KEY) issues
   \<and> created (snd (create_all codec net u auth issues st))
       = created st @ created_keys (map try_create
            (replies net (requests st) (map (create_request u auth PROJECT_KEY) issues)))
   \<and> failed (snd (create_all codec net u auth issues st))
       = failed st @ failed_summaries issues (map try_create
            (replies net (requests st) (map (create_request u auth PROJECT_KEY) issues)))"
proof (induction issues arbitrary: st)
  case Nil
  show ?case by simp
next
  case (Cons issue rest)
  show ?case
  proof (cases rule: create_all_Cons_cases [of codec u issue net st auth rest])
    case (stopped e st' ls)
    with Cons.prems show ?thesis by simp
  next
    case (success k i st')
    from Cons.prems have "fst (create_all codec net u auth rest st') = None"
      unfolding success(3) .
    from Cons.IH [OF this] show ?thesis
      unfolding success(3) by (simp add: success)
  next
    case (failure err st')
    from Cons.prems have "fst (create_all codec net u auth rest st') = None"
      unfolding failure(3) .
    from Cons.IH [OF this] show ?thesis
      unfolding failure(3) by (simp add: failure)
  qed
qed

lemma create_all_counts:
  "(fst (create_all codec net u auth issues st) = None \<longrightarrow>
      length (created (snd (create_all codec net u auth issues st)))
        + length (failed (snd (create_all codec net u auth issues st)))
      = length (created st) + length (failed st) + length issues)
   \<and> (fst (create_all codec net u auth issues st) \<noteq> None \<longrightarrow>
      length (created (snd (create_all codec net u auth issues st)))
        + length (failed (snd (create_all codec net u auth issues st)))
      < length (created st) + length (failed st) + length issues)"
proof (induction issues arbitrary: st)
  case Nil
  show ?case by simp
next
  case (Cons issue rest)
  show ?case
  proof (cases rule: create_all_Cons_cases [of codec u issue net st auth rest])
    case (stopped e st' ls)
    then show ?thesis by simp
  next
    case (success k i st')
    from Cons.IH [of st'] show ?thesis
      unfolding success(3) by (simp add: success)
  next
    case (failure err st')
    from Cons.IH [of st'] show ?thesis
      unfolding failure(3) by (simp add: failure)
  qed
qed

lemma create_all_prefix:
  "\<exists>reqs. requests (snd (create_all codec net u auth issues st)) = requests st @ reqs
     \<and> prefix reqs (map (create_request u auth PROJECT_KEY) issues)"
proof (induction issues arbitrary: st)
  case Nil
  show ?case by simp
next
  case (Cons issue rest)
  show ?case
  proof (cases rule: create_all_Cons_cases [of codec u issue net st auth rest])
    case (stopped e st' ls)
    from stopped(3) show ?thesis
    proof
      assume "requests st' = requests st"
      then show ?thesis using stopped(2) by simp
    next
      assume "requests st' = requests st @ [create_request u auth PROJECT_KEY issue]"
      then show ?thesis using stopped(2) by simp
    qed
  next
    case (success k i st')
    from Cons.IH [of st'] show ?thesis
      unfolding success(3) by (auto simp add: success)
  next
    case (failure err st')
    from Cons.IH [of st'] show ?thesis
      unfolding failure(3) by (auto simp add: failure)
  qed
qed

lemma create_all_lines:
  "\<exists>ls. stdout (snd (create_all codec net u auth issues st)) = stdout st @ ls
     \<and> list_all loop_line ls"
proof (induction issues arbitrary: st)
  case Nil
  show ?case by simp
next
  case (Cons issue rest)
  show ?case
  proof (cases rule: create_all_Cons_cases [of codec u issue net st auth rest])
    case (stopped e st' ls)
    then show ?thesis by simp
  next
    case (success k i st')
    from Cons.IH [of st'] show ?thesis
      unfolding success(3) success(7) by auto
  next
    case (failure err st')
    from Cons.IH [of st'] show ?thesis
      unfolding failure(3) failure(7) by auto
  qed
qed

lemma create_all_stdout:
  "set (stdout st) \<subseteq> set (stdout (snd (create_all codec net u auth issues st)))
   \<and> (\<forall>k \<in> set (created (snd (create_all codec net u auth issues st))).
        k \<in> set (created st)
        \<or> (lit ''    URL: '' @ u @ lit ''/browse/'' @ py_str k
            \<in> set (stdout (snd (create_all codec net u auth issues st)))
           \<and> printable codec u \<and> printable codec (py_str k)))"
proof (induction issues arbitrary: st)
  case Nil
  show ?case by simp
next
  case (Cons issue rest)
  show ?case
  proof (cases rule: create_all_Cons_cases [of codec u issue net st auth rest])
    case (stopped e st' ls)
    then show ?thesis by auto
  next
    case (success k i st')
    from success(2) have p: "printable codec u" "printable codec (py_str k)" by simp_all
    from Cons.IH [of st'] p show ?thesis
      unfolding success(3) success(5) success(7) by auto
  next
    case (failure err st')
    from Cons.IH [of st'] show ?thesis
      unfolding failure(3) failure(5) failure(7) by auto
  qed
qed

lemma create_all_v2_proceeds_iff:
  "fst (create_all_v2 codec net u auth n j issues st) = None
   \<longleftrightarrow> list_all2 (attempt_proceeds_v2 codec) issues
         (map try_create
            (replies net (requests st) (map (create_request_v2 u auth PROJECT_KEY) issues)))"
proof (induction issues arbitrary: st j)
  case Nil
  show ?case by simp
next
  case (Cons issue rest)
  show ?case
  proof (cases rule: create_all_v2_Cons_cases [of codec issue net st u auth n j rest])
    case (stopped e st' ls)
    then show ?thesis by simp
  next
    case (success k i st')
    from Cons.IH [of "Suc j" st'] show ?thesis
      unfolding success(3) using success(1,2) by (simp add: success(4))
  next
    case (failure err st')
    from Cons.IH [of "Suc j" st'] show ?thesis
      unfolding failure(3) using failure(1,2) by (simp add: failure(4))
  qed
qed

lemma create_all_v2_result:
  "fst (create_all_v2 codec net u auth n j issues st) = None \<Longrightarrow>
   requests (snd (create_all_v2 codec net u auth n j issues st))
       = requests st @ map (create_request_v2 u auth PROJECT_KEY) issues
   \<and> created (snd (create_all_v2 codec net u auth n j issues st))
       = created st @ created_items u issues (map try_create
            (replies net (requests st) (map (create_request_v2 u auth PROJECT_KEY) issues)))
   \<and> failed (snd (create_all_v2 codec net u auth n j issues st))
       = failed st @ failed_summaries issues (map try_create
            (replies net (requests st) (map (create_request_v2 u auth PROJECT_KEY) issues)))"
proof (induction issues arbitrary: st j)
  case Nil
  show ?case by simp
next
  case (Cons issue rest)
  show ?case
  proof (cases rule: create_all_v2_Cons_cases [of codec issue net st u auth n j rest])
    case (stopped e st' ls)
    with Cons.prems show ?thesis by simp
  next
    case (success k i st')
    from Cons.prems have "fst (create_all_v2 codec net u auth n (Suc j) rest st') = None"
      unfolding success(3) .
    from Cons.IH [OF this] show ?thesis
      unfolding success(3) by (simp add: success)
  next
    case (failure err st')
    from Cons.prems have "fst (create_all_v2 codec net u auth n (Suc j) rest st') = None"
      unfolding failure(3) .
    from Cons.IH [OF this] show ?thesis
      unfolding failure(3) by (simp add: failure)
  qed
qed

lemma create_all_v2_counts:
  "(fst (create_all_v2 codec net u auth n j issues st) = None \<longrightarrow>
      length (created (snd (create_all_v2 codec net u auth n j issues st)))
        + length (failed (snd (create_all_v2 codec net u auth n j issues st)))
      = length (created st) + length (failed st) + length issues)
   \<and> (fst (create_all_v2 codec net u auth n j issues st) \<noteq> None \<longrightarrow>
      length (created (snd (create_all_v2 codec net u auth n j issues st)))
        + length (failed (snd (create_all_v2 codec net u auth n j issues st)))
      < length (created st) + length (failed st) + length issues)"
proof (induction issues arbitrary: st j)
  case Nil
  show ?case by simp
next
  case (Cons issue rest)
  show ?case
  proof (cases rule: create_all_v2_Cons_cases [of codec issue net st u auth n j rest])
    case (stopped e st' ls)
    then show ?thesis by simp
  next
    case (success k i st')
    from Cons.IH [of "Suc j" st'] show ?thesis
      unfolding success(3) by (simp add: success)
  next
    case (failure err st')
    from Cons.IH [of "Suc j" st'] show ?thesis
      unfolding failure(3) by (simp add: failure)
  qed
qed

lemma create_all_v2_prefix:
  "\<exists>reqs. requests (snd (create_all_v2 codec net u auth n j issues st)) = requests st @ reqs
     \<and> prefix reqs (map (create_request_v2 u auth PROJECT_KEY) issues)"
proof (induction issues arbitrary: st j)
  case Nil
  show ?case by simp
next
  case (Cons issue rest)
  show ?case
  proof (cases rule: create_all_v2_Cons_cases [of codec issue net st u auth n j rest])
    case (stopped e st' ls)
    from stopped(3) show ?thesis
    proof
      assume "requests st' = requests st"
      then show ?thesis using stopped(2) by simp
    next
      assume "requests st' = requests st @ [create_request_v2 u auth PROJECT_KEY issue]"
      then show ?thesis using stopped(2) by simp
    qed
  next
    case (success k i st')
    from Cons.IH [of "Suc j" st'] show ?thesis
      unfolding success(3) by (auto simp add: success)
  next
    case (failure err st')
    from Cons.IH [of "Suc j" st'] show ?thesis
      unfolding failure(3) by (auto simp add: failure)
  qed
qed

lemma create_all_v2_lines:
  "\<exists>ls. stdout (snd (create_all_v2 codec net u auth n j issues st)) = stdout st @ ls
     \<and> list_all loop_line ls"
proof (induction issues arbitrary: st j)
  case Nil
  show ?case by simp
next
  case (Cons issue rest)
  show ?case
  proof (cases rule: create_all_v2_Cons_cases [of codec issue net st u auth n j rest])
    case (stopped e st' ls)
    then show ?thesis by simp
  next
    case (success k i st')
    from Cons.IH [of "Suc j" st'] show ?thesis
      unfolding success(3) success(7) by auto
  next
    case (failure err st')
    from Cons.IH [of "Suc j" st'] show ?thesis
      unfolding failure(3) failure(7) by auto
  qed
qed

lemma printable_summary_short:
  "printable codec (summary_short issue) \<Longrightarrow> printable codec (take 40 (summary issue))"
proof (cases "length (summary issue) > 45")
  case True
  assume "printable codec (summary_short issue)"
  with True have "printable codec (take 45 (summary issue))"
    by (simp add: summary_short_def)
  then show ?thesis by (rule printable_take_le) simp
next
  case False
  assume "printable codec (summary_short issue)"
  with False have "printable codec (summary issue)"
    by (simp add: summary_short_def)
  then show ?thesis by (rule printable_take)
qed

lemma create_all_v2_urls:
  "\<forall>item \<in> set (created (snd (create_all_v2 codec net u auth n j issues st))).
     item \<in> set (created st)
     \<or> (item_url item = u @ lit ''/browse/'' @ py_str (item_key item)
        \<and> printable codec (py_str (item_key item))
        \<and> printable codec (take 40 (item_summary item)))"
proof (induction issues arbitrary: st j)
  case Nil
  show ?case by simp
next
  case (Cons issue rest)
  show ?case
  proof (cases rule: create_all_v2_Cons_cases [of codec issue net st u auth n j rest])
    case (stopped e st' ls)
    then show ?thesis by auto
  next
    case (success k i st')
    from success(2) have p: "printable codec (py_str k)"
      "printable codec (take 40 (summary issue))"
      by (simp_all add: printable_summary_short)
    from Cons.IH [of "Suc j" st'] p show ?thesis
      unfolding success(3) success(5) by auto
  next
    case (failure err st')
    from Cons.IH [of "Suc j" st'] show ?thesis
      unfolding failure(3) failure(5) by auto
  qed
qed


lemma create_all_sent:
  "length (requests (snd (create_all codec net u auth issues st)))
     + length (created st) + length (failed st)
   \<le> length (requests st) + length (created (snd (create_all codec net u auth issues st)))
       + length (failed (snd (create_all codec net u auth issues st))) + 1"
proof (induction issues arbitrary: st)
  case Nil
  show ?case by simp
next
  case (Cons issue rest)
  show ?case
  proof (cases rule: create_all_Cons_cases [of codec u issue net st auth rest])
    case (stopped e st' ls)
    from stopped(3) show ?thesis
    proof
      assume "requests st' = requests st"
      then show ?thesis using stopped by simp
    next
      assume "requests st' = requests st @ [create_request u auth PROJECT_KEY issue]"
      then show ?thesis using stopped by simp
    qed
  next
    case (success k i st')
    from Cons.IH [of st'] show ?thesis
      unfolding success(3) by (simp add: success)
  next
    case (failure err st')
    from Cons.IH [of st'] show ?thesis
      unfolding failure(3) by (simp add: failure)
  qed
qed

lemma create_all_v2_sent:
  "length (requests (snd (create_all_v2 codec net u auth n j issues st)))
     + length (created st) + length (failed st)
   \<le> length (requests st)
       + length (created (snd (create_all_v2 codec net u auth n j issues st)))
       + length (failed (snd (create_all_v2 codec net u auth n j issues st))) + 1"
proof (induction issues arbitrary: st j)
  case Nil
  show ?case by simp
next
  case (Cons issue rest)
  show ?case
  proof (cases rule: create_all_v2_Cons_cases [of codec issue net st u auth n j rest])
    case (stopped e st' ls)
    from stopped(3) show ?thesis
    proof
      assume "requests st' = requests st"
      then show ?thesis using stopped by simp
    next
      assume "requests st' = requests st @ [create_request_v2 u auth PROJECT_KEY issue]"
      then show ?thesis using stopped by simp
    qed
  next
    case (success k i st')
    from Cons.IH [of "Suc j" st'] show ?thesis
      unfolding success(3) by (simp add: success)
  next
    case (failure err st')
    from Cons.IH [of "Suc j" st'] show ?thesis
      unfolding failure(3) by (simp add: failure)
  qed
qed

section \<open>The batch\<close>

lemma sample_header:
  "get_auth_header (lit ''a@b.com'') (lit ''tok123'') = Inr sample_auth"
  by (simp add: get_auth_header_def utf8_char_def b64_char_def b64_alphabet_def sample_auth_def)

lemma sample_missing: "missing_vars sample_environ = []"
  by (simp add: missing_vars_def not_set_def sample_environ_def)

lemma sample_values:
  "env_value sample_environ (lit ''JIRA_URL'') = lit ''https://x.atlassian.net/''"
  "env_value sample_environ (lit ''JIRA_EMAIL'') = lit ''a@b.com''"
  "env_value sample_environ (lit ''JIRA_API_TOKEN'') = lit ''tok123''"
  by (simp_all add: env_value_def sample_environ_def)

lemma sample_base: "rstrip_slash (lit ''https://x.atlassian.net/'') = sample_url"
  by (simp add: rstrip_slash_def sample_url_def)

lemma utf8_stdout_marks: "utf8_stdout 0x2713" "utf8_stdout 0x2717"
  by (simp_all add: utf8_stdout_def surrogate_def)

lemma init_fields:
  "stdout init = []" "requests init = []" "created init = []" "failed init = []"
  by (simp_all add: init_def)

text \<open>
  C3, as stated, fails: a failed attempt can stop the batch. When the second create
  request is answered with an HTTP 500 whose body is not UTF-8, the decoding of the body
  in the handler of \<^verbatim>\<open>create_issue\<close> raises; the exception ends the loop and the run. The
  third template is never attempted, and the second is in neither accumulator.
\<close>

theorem batch_stops_on_undecodable_error_body:
  "fst (create_all utf8_stdout second_undecodable sample_url sample_auth three_issues init)
     = Some (OtherException (lit ''UnicodeDecodeError''))
   \<and> requests (snd (create_all utf8_stdout second_undecodable sample_url sample_auth
        three_issues init))
     = [create_request sample_url sample_auth PROJECT_KEY sample_issue,
        create_request sample_url sample_auth PROJECT_KEY second_issue]
   \<and> created (snd (create_all utf8_stdout second_undecodable sample_url sample_auth
        three_issues init)) = [PStr (lit ''BB-7'')]
   \<and> failed (snd (create_all utf8_stdout second_undecodable sample_url sample_auth
        three_issues init)) = []
   \<and> fst (main utf8_stdout sample_environ three_issues second_undecodable)
     = Uncaught (OtherException (lit ''UnicodeDecodeError''))
   \<and> length (requests (snd (main utf8_stdout sample_environ three_issues second_undecodable)))
     = 2"
  using sample_header sample_missing sample_values sample_base
  by (simp add: main_def Let_def create_all.simps(2) create_issue_eq print_def prints_eq
        second_undecodable_def undecodable_reply_def created_reply_def sample_items_def
        try_create_success try_create_raises three_issues_def init_fields utf8_stdout_marks
        sample_url_def sample_issue_def second_issue_def)


text \<open>
  C3, amended. The loop of either script sends the create requests of the templates in the
  order of the list, each at most once and never again: the requests it adds to the log
  are a prefix of the requests of the list. It goes on to the next template after an
  attempt exactly when \<^verbatim>\<open>create_issue\<close> returned a result, a success or a failure, and the
  lines the loop prints for the attempt could be written; so it runs to the end exactly
  when this is so for every template, whether or not attempts failed. When it runs to the
  end, the requests it has sent are those of all the templates, each once and in order,
  and every result has gone into exactly one accumulator (the key of a success into
  \<^verbatim>\<open>created\<close>, the summary of a failed template into \<^verbatim>\<open>failed\<close>), so the two accumulators
  have grown by the number of templates together. When an exception ends it, they have
  grown by less, and at most one request has been sent beyond the outcomes recorded: the
  templates after the one whose attempt raised are not attempted.
\<close>

theorem batch_attempts_in_order:
  "(\<exists>reqs. requests (snd (create_all codec net u auth issues st)) = requests st @ reqs
       \<and> prefix reqs (map (create_request u auth PROJECT_KEY) issues))
   \<and> (fst (create_all codec net u auth issues st) = None
      \<longleftrightarrow> list_all2 (attempt_proceeds codec u) issues
            (map try_create
               (replies net (requests st) (map (create_request u auth PROJECT_KEY) issues))))
   \<and> (fst (create_all codec net u auth issues st) = None
      \<longrightarrow> requests (snd (create_all codec net u auth issues st))
            = requests st @ map (create_request u auth PROJECT_KEY) issues
        \<and> created (snd (create_all codec net u auth issues st))
            = created st @ created_keys (map try_create
                (replies net (requests st) (map (create_request u auth PROJECT_KEY) issues)))
        \<and> failed (snd (create_all codec net u auth issues st))
            = failed st @ failed_summaries issues (map try_create
                (replies net (requests st) (map (create_request u auth PROJECT_KEY) issues)))
        \<and> length (created (snd (create_all codec net u auth issues st)))
            + length (failed (snd (create_all codec net u auth issues st)))
           = length (created st) + length (failed st) + length issues)
   \<and> (fst (create_all codec net u auth issues st) \<noteq> None
      \<longrightarrow> length (created (snd (create_all codec net u auth issues st)))
            + length (failed (snd (create_all codec net u auth issues st)))
           < length (created st) + length (failed st) + length issues
        \<and> length (requests (snd (create_all codec net u auth issues st)))
            + length (created st) + length (failed st)
           \<le> length (requests st)
             + length (created (snd (create_all codec net u auth issues st)))
             + length (failed (snd (create_all codec net u auth issues st))) + 1)
   \<and> (\<exists>reqs. requests (snd (create_all_v2 codec net u auth n j issues st2)) = requests st2 @ reqs
       \<and> prefix reqs (map (create_request_v2 u auth PROJECT_KEY) issues))
   \<and> (fst (create_all_v2 codec net u auth n j issues st2) = None
      \<longleftrightarrow> list_all2 (attempt_proceeds_v2 codec) issues
            (map try_create
               (replies net (requests st2) (map (create_request_v2 u auth PROJECT_KEY) issues))))
   \<and> (fst (create_all_v2 codec net u auth n j issues st2) = None
      \<longrightarrow> requests (snd (create_all_v2 codec net u auth n j issues st2))
            = requests st2 @ map (create_request_v2 u auth PROJECT_KEY) issues
        \<and> created (snd (create_all_v2 codec net u auth n j issues st2))
            = created st2 @ created_items u issues (map try_create
                (replies net (requests st2) (map (create_request_v2 u auth PROJECT_KEY) issues)))
        \<and> failed (snd (create_all_v2 codec net u auth n j issues st2))
            = failed st2 @ failed_summaries issues (map try_create
                (replies net (requests st2) (map (create_request_v2 u auth PROJECT_KEY) issues)))
        \<and> length (created (snd (create_all_v2 codec net u auth n j issues st2)))
            + length (failed (snd (create_all_v2 codec net u auth n j issues st2)))
           = length (created st2) + length (failed st2) + length issues)
   \<and> (fst (create_all_v2 codec net u auth n j issues st2) \<noteq> None
      \<longrightarrow> length (created (snd (create_all_v2 codec net u auth n j issues st2)))
            + length (failed (snd (create_all_v2 codec net u auth n j issues st2)))
           < length (created st2) + length (failed st2) + length issues
        \<and> length (requests (snd (create_all_v2 codec net u auth n j issues st2)))
            + length (created st2) + length (failed st2)
           \<le> length (requests st2)
             + length (created (snd (create_all_v2 codec net u auth n j issues st2)))
             + length (failed (snd (create_all_v2 codec net u auth n j issues st2))) + 1)"
  using create_all_prefix [of codec net u auth issues st]
    create_all_proceeds_iff [of codec net u auth issues st]
    create_all_result [of codec net u auth issues st]
    create_all_counts [of codec net u auth issues st]
    create_all_sent [of codec net u auth issues st]
    create_all_v2_prefix [of codec net u auth n j issues st2]
    create_all_v2_proceeds_iff [of codec net u auth n j issues st2]
    create_all_v2_result [of codec net u auth n j issues st2]
    create_all_v2_counts [of codec net u auth n j issues st2]
    create_all_v2_sent [of codec net u auth n j issues st2]
  by blast

theorem batch_attempts_in_order_witness:
  "list_all2 (attempt_proceeds utf8_stdout sample_url) three_issues
     (map try_create (replies second_fails (requests (init :: pyval state))
        (map (create_request sample_url sample_auth PROJECT_KEY) three_issues)))
   \<and> fst (create_all utf8_stdout second_fails sample_url sample_auth three_issues init) = None
   \<and> requests (snd (create_all utf8_stdout second_fails sample_url sample_auth three_issues init))
       = map (create_request sample_url sample_auth PROJECT_KEY) three_issues
   \<and> created (snd (create_all utf8_stdout second_fails sample_url sample_auth three_issues init))
       = [PStr (lit ''BB-7''), PStr (lit ''BB-7'')]
   \<and> failed (snd (create_all utf8_stdout second_fails sample_url sample_auth three_issues init))
       = [lit ''Write tests'']
   \<and> list_all2 (attempt_proceeds_v2 utf8_stdout) three_issues
     (map try_create (replies second_fails (requests (init :: created_item state))
        (map (create_request_v2 sample_url sample_auth PROJECT_KEY) three_issues)))
   \<and> fst (create_all_v2 utf8_stdout second_fails sample_url sample_auth 3 1 three_issues init)
       = None
   \<and> requests (snd (create_all_v2 utf8_stdout second_fails sample_url sample_auth 3 1
         three_issues init))
       = map (create_request_v2 sample_url sample_auth PROJECT_KEY) three_issues
   \<and> map item_key (created (snd (create_all_v2 utf8_stdout second_fails sample_url sample_auth
         3 1 three_issues init)))
       = [PStr (lit ''BB-7''), PStr (lit ''BB-7'')]
   \<and> failed (snd (create_all_v2 utf8_stdout second_fails sample_url sample_auth 3 1
         three_issues init))
       = [lit ''Write tests'']"
proof -
  have e1: "map try_create (replies second_fails []
      (map (create_request sample_url sample_auth PROJECT_KEY) three_issues))
     = [Inr (Success (PStr (lit ''BB-7'')) (PStr (lit ''10007''))),
        Inr (Failure (str_nat 400 @ lit '': '' @ bad_request_text)),
        Inr (Success (PStr (lit ''BB-7'')) (PStr (lit ''10007'')))]"
    by (simp add: second_fails_def three_issues_def created_reply_def bad_request_reply_def
          sample_items_def try_create_success try_create_http_error)
  have e2: "map try_create (replies second_fails []
      (map (create_request_v2 sample_url sample_auth PROJECT_KEY) three_issues))
     = [Inr (Success (PStr (lit ''BB-7'')) (PStr (lit ''10007''))),
        Inr (Failure (str_nat 400 @ lit '': '' @ bad_request_text)),
        Inr (Success (PStr (lit ''BB-7'')) (PStr (lit ''10007'')))]"
    by (simp add: second_fails_def three_issues_def created_reply_def bad_request_reply_def
          sample_items_def try_create_success try_create_http_error)
  have i: "requests (init :: pyval state) = []" "created (init :: pyval state) = []"
    "failed (init :: pyval state) = []"
    "requests (init :: created_item state) = []" "created (init :: created_item state) = []"
    "failed (init :: created_item state) = []"
    by (simp_all add: init_def)
  have h1: "list_all2 (attempt_proceeds utf8_stdout sample_url) three_issues
     [Inr (Success (PStr (lit ''BB-7'')) (PStr (lit ''10007''))),
      Inr (Failure (str_nat 400 @ lit '': '' @ bad_request_text)),
      Inr (Success (PStr (lit ''BB-7'')) (PStr (lit ''10007'')))]"
    by (simp add: three_issues_def sample_issue_def second_issue_def sample_url_def
          bad_request_text_def utf8_stdout_marks)
  have h2: "list_all2 (attempt_proceeds_v2 utf8_stdout) three_issues
     [Inr (Success (PStr (lit ''BB-7'')) (PStr (lit ''10007''))),
      Inr (Failure (str_nat 400 @ lit '': '' @ bad_request_text)),
      Inr (Success (PStr (lit ''BB-7'')) (PStr (lit ''10007'')))]"
    by (simp add: three_issues_def sample_issue_def second_issue_def summary_short_def
          bad_request_text_def utf8_stdout_marks printable_take)
  from batch_attempts_in_order
         [where codec = utf8_stdout and net = second_fails and u = sample_url
            and auth = sample_auth and issues = three_issues and st = init
            and ?st2.0 = init and n = 3 and j = 1]
       h1 h2
  show ?thesis
    unfolding i e1 e2 by (simp add: three_issues_def second_issue_def sample_issue_def)
qed

section \<open>Missing configuration\<close>

lemma missing_vars_filter: "missing_vars environ = filter (not_set environ) required"
  by (simp add: missing_vars_def required_def)

lemma missing_report_printable:
  "list_all (printable codec) (missing_report (missing_vars environ))"
  "list_all (printable codec) (missing_report_v2 (missing_vars environ))"
  by (simp_all add: missing_report_def missing_report_v2_def missing_vars_def)

lemma main_missing:
  "missing_vars environ \<noteq> [] \<Longrightarrow>
   main codec environ issues net
     = (SysExit 1, init\<lparr>stdout := missing_report (missing_vars environ)\<rparr>)"
  by (simp add: main_def prints_ok missing_report_printable init_fields)

lemma main_v2_missing:
  "missing_vars environ \<noteq> [] \<Longrightarrow>
   main_v2 codec environ issues net
     = (SysExit 1, init\<lparr>stdout := missing_report_v2 (missing_vars environ)\<rparr>)"
  by (simp add: main_v2_def prints_ok missing_report_printable init_fields)

lemma listing_map: "listing (map (\<lambda>var. lit ''  - '' @ var) vs) = map (\<lambda>var. lit ''  - '' @ var) vs"
  by (induction vs) (simp_all add: listing_def)

lemma listing_append: "listing (xs @ ys) = listing xs @ listing ys"
  by (simp add: listing_def)

lemma listing_missing_report:
  "listing (missing_report vs) = map (\<lambda>var. lit ''  - '' @ var) vs"
  using listing_map [of vs] by (simp add: missing_report_def listing_append) (simp add: listing_def)

lemma replicate_4: "replicate 4 x = [x, x, x, x]"
  by (simp add: eval_nat_numeral)

lemma listing_missing_report_v2:
  "listing (missing_report_v2 vs) = map (\<lambda>var. lit ''  - '' @ var) vs"
  using listing_map [of vs]
  by (simp add: missing_report_v2_def listing_append) (simp add: listing_def replicate_4)

lemma missing_stops:
  assumes "\<exists>name \<in> set required. not_set environ name"
  shows "fst (main codec environ issues net) = SysExit 1
     \<and> exit_status (fst (main codec environ issues net)) \<noteq> 0
     \<and> requests (snd (main codec environ issues net)) = []
     \<and> listing (stdout (snd (main codec environ issues net)))
         = map (\<lambda>name. lit ''  - '' @ name) (filter (not_set environ) required)
     \<and> fst (main_v2 codec environ issues net) = SysExit 1
     \<and> exit_status (fst (main_v2 codec environ issues net)) \<noteq> 0
     \<and> requests (snd (main_v2 codec environ issues net)) = []
     \<and> listing (stdout (snd (main_v2 codec environ issues net)))
         = map (\<lambda>name. lit ''  - '' @ name) (filter (not_set environ) required)"
proof -
  from assms have m: "missing_vars environ \<noteq> []"
    by (simp add: missing_vars_filter filter_empty_conv)
  show ?thesis
    unfolding main_missing [OF m] main_v2_missing [OF m]
    by (simp add: init_def listing_missing_report listing_missing_report_v2 missing_vars_filter)
qed


text \<open>
  C4. When one of the three variables is missing (\<^verbatim>\<open>not os.environ.get(name)\<close>: unset, or
  set to the empty string), both scripts call \<^verbatim>\<open>sys.exit(1)\<close>, have sent no request at all,
  and the lines of the output that list a variable name exactly the missing ones, in the
  order \<^verbatim>\<open>JIRA_URL\<close>, \<^verbatim>\<open>JIRA_EMAIL\<close>, \<^verbatim>\<open>JIRA_API_TOKEN\<close>. The lines of this report are
  ASCII, so every codec of the standard output can write them.
\<close>

theorem missing_configuration_stops:
  assumes "\<exists>name \<in> set required. not_set environ name"
  shows "fst (main codec environ issues net) = SysExit 1
     \<and> exit_status (fst (main codec environ issues net)) \<noteq> 0
     \<and> requests (snd (main codec environ issues net)) = []
     \<and> listing (stdout (snd (main codec environ issues net)))
         = map (\<lambda>name. lit ''  - '' @ name) (filter (not_set environ) required)
     \<and> fst (main_v2 codec environ issues net) = SysExit 1
     \<and> exit_status (fst (main_v2 codec environ issues net)) \<noteq> 0
     \<and> requests (snd (main_v2 codec environ issues net)) = []
     \<and> listing (stdout (snd (main_v2 codec environ issues net)))
         = map (\<lambda>name. lit ''  - '' @ name) (filter (not_set environ) required)"
  using assms by (rule missing_stops)

theorem missing_configuration_stops_witness:
  "(\<exists>name \<in> set required. not_set [lit ''JIRA_URL'' \<mapsto> lit ''https://x.atlassian.net/''] name)
   \<and> fst (main utf8_stdout [lit ''JIRA_URL'' \<mapsto> lit ''https://x.atlassian.net/''] [sample_issue]
          (\<lambda>h. created_reply)) = SysExit 1
   \<and> requests (snd (main utf8_stdout [lit ''JIRA_URL'' \<mapsto> lit ''https://x.atlassian.net/'']
          [sample_issue] (\<lambda>h. created_reply))) = []
   \<and> listing (stdout (snd (main utf8_stdout [lit ''JIRA_URL'' \<mapsto> lit ''https://x.atlassian.net/'']
          [sample_issue] (\<lambda>h. created_reply))))
       = [lit ''  - JIRA_EMAIL'', lit ''  - JIRA_API_TOKEN'']
   \<and> fst (main_v2 utf8_stdout [lit ''JIRA_URL'' \<mapsto> lit ''https://x.atlassian.net/'']
          [sample_issue] (\<lambda>h. created_reply)) = SysExit 1
   \<and> requests (snd (main_v2 utf8_stdout [lit ''JIRA_URL'' \<mapsto> lit ''https://x.atlassian.net/'']
          [sample_issue] (\<lambda>h. created_reply))) = []
   \<and> listing (stdout (snd (main_v2 utf8_stdout
          [lit ''JIRA_URL'' \<mapsto> lit ''https://x.atlassian.net/'']
          [sample_issue] (\<lambda>h. created_reply))))
       = [lit ''  - JIRA_EMAIL'', lit ''  - JIRA_API_TOKEN'']"
proof -
  have h: "\<exists>name \<in> set required. not_set [lit ''JIRA_URL'' \<mapsto> lit ''https://x.atlassian.net/''] name"
    by (simp add: required_def not_set_def)
  show ?thesis
    using h missing_configuration_stops [OF h, of utf8_stdout "[sample_issue]" "\<lambda>h. created_reply"]
    by (simp add: required_def not_set_def)
qed

lemma not_set_empty: "not_set (environ(name \<mapsto> [])) = not_set (environ(name := None))"
  by (rule ext) (simp add: not_set_def)

lemma env_value_empty: "env_value (environ(name \<mapsto> [])) = env_value (environ(name := None))"
  by (rule ext) (simp add: env_value_def)

lemma main_empty_value:
  "main codec (environ(name \<mapsto> [])) issues net = main codec (environ(name := None)) issues net"
  "main_v2 codec (environ(name \<mapsto> [])) issues net
     = main_v2 codec (environ(name := None)) issues net"
  by (simp_all only: main_def main_v2_def missing_vars_filter not_set_empty env_value_empty)

text \<open>
  C10. For each of the three variables, a run in which the variable is set to the empty
  string is the same run, in both scripts, as the one in which it is unset: the variable
  is in the printed list of missing variables, the exit status is 1 and no request has
  been sent.
\<close>

theorem empty_value_is_missing:
  "(\<forall>name \<in> set required.
      main codec (environ(name \<mapsto> [])) issues net = main codec (environ(name := None)) issues net
      \<and> lit ''  - '' @ name
           \<in> set (listing (stdout (snd (main codec (environ(name \<mapsto> [])) issues net))))
      \<and> exit_status (fst (main codec (environ(name \<mapsto> [])) issues net)) = 1
      \<and> requests (snd (main codec (environ(name \<mapsto> [])) issues net)) = [])
   \<and> (\<forall>name \<in> set required.
      main_v2 codec (environ(name \<mapsto> [])) issues net
        = main_v2 codec (environ(name := None)) issues net
      \<and> lit ''  - '' @ name
           \<in> set (listing (stdout (snd (main_v2 codec (environ(name \<mapsto> [])) issues net))))
      \<and> exit_status (fst (main_v2 codec (environ(name \<mapsto> [])) issues net)) = 1
      \<and> requests (snd (main_v2 codec (environ(name \<mapsto> [])) issues net)) = [])"
proof -
  have "\<And>name. name \<in> set required \<Longrightarrow>
      main codec (environ(name \<mapsto> [])) issues net = main codec (environ(name := None)) issues net
      \<and> lit ''  - '' @ name
           \<in> set (listing (stdout (snd (main codec (environ(name \<mapsto> [])) issues net))))
      \<and> exit_status (fst (main codec (environ(name \<mapsto> [])) issues net)) = 1
      \<and> requests (snd (main codec (environ(name \<mapsto> [])) issues net)) = []
      \<and> main_v2 codec (environ(name \<mapsto> [])) issues net
          = main_v2 codec (environ(name := None)) issues net
      \<and> lit ''  - '' @ name
           \<in> set (listing (stdout (snd (main_v2 codec (environ(name \<mapsto> [])) issues net))))
      \<and> exit_status (fst (main_v2 codec (environ(name \<mapsto> [])) issues net)) = 1
      \<and> requests (snd (main_v2 codec (environ(name \<mapsto> [])) issues net)) = []"
  proof -
    fix name :: str
    assume r: "name \<in> set required"
    have n: "not_set (environ(name \<mapsto> [])) name"
      by (simp add: not_set_def)
    with r have ex: "\<exists>v \<in> set required. not_set (environ(name \<mapsto> [])) v"
      by blast
    from r n have "name \<in> set (filter (not_set (environ(name \<mapsto> []))) required)"
      by simp
    then have "lit ''  - '' @ name
       \<in> set (map (\<lambda>name. lit ''  - '' @ name) (filter (not_set (environ(name \<mapsto> []))) required))"
      unfolding set_map by (rule imageI)
    then show "?thesis name"
      using missing_stops [OF ex, of codec issues net]
      by (simp add: main_empty_value)
  qed
  then show ?thesis by blast
qed

theorem empty_value_is_missing_witness:
  "lit ''JIRA_EMAIL'' \<in> set required
   \<and> main utf8_stdout (sample_environ(lit ''JIRA_EMAIL'' \<mapsto> [])) [sample_issue]
       (\<lambda>h. created_reply)
       = main utf8_stdout (sample_environ(lit ''JIRA_EMAIL'' := None)) [sample_issue]
           (\<lambda>h. created_reply)
   \<and> listing (stdout (snd (main utf8_stdout (sample_environ(lit ''JIRA_EMAIL'' \<mapsto> []))
          [sample_issue] (\<lambda>h. created_reply)))) = [lit ''  - JIRA_EMAIL'']
   \<and> exit_status (fst (main utf8_stdout (sample_environ(lit ''JIRA_EMAIL'' \<mapsto> [])) [sample_issue]
          (\<lambda>h. created_reply))) = 1
   \<and> main_v2 utf8_stdout (sample_environ(lit ''JIRA_EMAIL'' \<mapsto> [])) [sample_issue]
       (\<lambda>h. created_reply)
       = main_v2 utf8_stdout (sample_environ(lit ''JIRA_EMAIL'' := None)) [sample_issue]
           (\<lambda>h. created_reply)
   \<and> requests (snd (main_v2 utf8_stdout (sample_environ(lit ''JIRA_EMAIL'' \<mapsto> []))
          [sample_issue] (\<lambda>h. created_reply))) = []"
proof -
  have m: "missing_vars (sample_environ(lit ''JIRA_EMAIL'' \<mapsto> [])) = [lit ''JIRA_EMAIL'']"
    by (simp add: missing_vars_def not_set_def sample_environ_def)
  have r: "lit ''JIRA_EMAIL'' \<in> set required"
    by (simp add: required_def)
  have l: "listing (stdout (snd (main utf8_stdout (sample_environ(lit ''JIRA_EMAIL'' \<mapsto> []))
          [sample_issue] (\<lambda>h. created_reply)))) = [lit ''  - JIRA_EMAIL'']"
    using m by (simp add: main_missing listing_missing_report init_def)
  from empty_value_is_missing [of utf8_stdout sample_environ "[sample_issue]" "\<lambda>h. created_reply"]
    r l
  show ?thesis by blast
qed

section \<open>The runs of the two programs\<close>

lemma rstrip_slash_last: "rstrip_slash s = [] \<or> last (rstrip_slash s) \<noteq> 47"
proof -
  have "\<And>xs. dropWhile (\<lambda>c. c = (47::nat)) xs = [] \<or> hd (dropWhile (\<lambda>c. c = 47) xs) \<noteq> 47"
    using hd_dropWhile by (metis (mono_tags, lifting))
  then show ?thesis
    unfolding rstrip_slash_def by (metis last_rev rev_is_Nil_conv)
qed

lemma rstrip_slash_decomp: "\<exists>n. s = rstrip_slash s @ replicate n 47"
proof -
  have "rev s = takeWhile (\<lambda>c. c = 47) (rev s) @ dropWhile (\<lambda>c. c = 47) (rev s)"
    by simp
  moreover have "takeWhile (\<lambda>c. c = (47::nat)) (rev s) = replicate (length (takeWhile (\<lambda>c. c = 47) (rev s))) 47"
    by (metis (mono_tags, lifting) replicate_length_same set_takeWhileD)
  ultimately have "rev s = replicate (length (takeWhile (\<lambda>c. c = 47) (rev s))) 47 @ dropWhile (\<lambda>c. c = 47) (rev s)"
    by simp
  then have "s = rev (dropWhile (\<lambda>c. c = 47) (rev s)) @ replicate (length (takeWhile (\<lambda>c. c = 47) (rev s))) 47"
    by (metis rev_append rev_replicate rev_rev_ident)
  then show ?thesis unfolding rstrip_slash_def by blast
qed

lemma joined_rest: "base = [] \<or> last base \<noteq> 47 \<Longrightarrow> joined base (base @ lit ''/rest/api/3/issue'')"
  "base = [] \<or> last base \<noteq> 47 \<Longrightarrow> joined base (base @ lit ''/rest/api/2/issue'')"
  "base = [] \<or> last base \<noteq> 47 \<Longrightarrow> joined base (base @ lit ''/rest/api/2/project/'' @ k)"
  "base = [] \<or> last base \<noteq> 47 \<Longrightarrow> joined base (base @ lit ''/browse/'' @ k)"
  by (simp_all add: joined_def)

lemma prints_cases:
  "prints codec ss st =
     (if list_all (printable codec) ss then (None, st\<lparr>stdout := stdout st @ ss\<rparr>)
      else (Some UnicodeEncodeError,
            st\<lparr>stdout := stdout st @ takeWhile (printable codec) ss\<rparr>))"
  by (simp add: prints_ok) (simp add: prints_eq)

lemma summary_printed_append:
  "summary_printed (xs @ ys) \<longleftrightarrow> summary_printed xs \<or> summary_printed ys"
  "summary_printed_v2 (xs @ ys) \<longleftrightarrow> summary_printed_v2 xs \<or> summary_printed_v2 ys"
  by (simp_all add: summary_printed_def summary_printed_v2_def)

lemma loop_line_no_summary:
  "loop_line l \<Longrightarrow> take 9 l \<noteq> lit ''Summary: ''"
  "loop_line l \<Longrightarrow> l \<noteq> lit ''SUMMARY''"
  by (cases l; auto simp add: loop_line_def)+

lemma loop_lines_no_summary:
  "list_all loop_line ls \<Longrightarrow> \<not> summary_printed ls"
  "list_all loop_line ls \<Longrightarrow> \<not> summary_printed_v2 ls"
  using loop_line_no_summary
  by (auto simp add: summary_printed_def summary_printed_v2_def list_all_iff list_ex_iff)

lemma report_state:
  "requests (snd (report codec u st)) = requests st"
  "created (snd (report codec u st)) = created st"
  "failed (snd (report codec u st)) = failed st"
  by (simp_all add: report_def prints_cases)

lemma report_outcome:
  "fst (report codec u st) = Returned \<or> fst (report codec u st) = SysExit 1
   \<or> fst (report codec u st) = Uncaught UnicodeEncodeError"
  "fst (report codec u st) = Returned \<Longrightarrow> failed st = []"
  by (simp_all add: report_def prints_cases split: if_splits)

lemma browse_lines_printable:
  "printable codec u \<Longrightarrow> \<forall>k \<in> set ks. printable codec (py_str k) \<Longrightarrow>
   list_all (printable codec) (map (\<lambda>k. lit ''  - '' @ u @ lit ''/browse/'' @ py_str k) ks)"
  by (simp add: list_all_iff)

lemma failed_lines_printable:
  "list_all (printable codec) (map (\<lambda>s. lit ''  - '' @ s) ss) \<longleftrightarrow> list_all (printable codec) ss"
  by (simp add: list_all_iff)

lemma report_completes:
  assumes "created st = [] \<or> printable codec u"
    and "\<forall>k \<in> set (created st). printable codec (py_str k)"
    and "list_all (printable codec) (failed st)"
  shows "fst (report codec u st) = (if failed st \<noteq> [] then SysExit 1 else Returned)"
  using assms
  by (auto simp add: report_def prints_cases failed_lines_printable list_all_iff)

lemma report_stdout:
  "set (stdout st) \<subseteq> set (stdout (snd (report codec u st)))"
  "lit ''Summary: '' @ str_nat (length (created st)) @ lit '' created, ''
     @ str_nat (length (failed st)) @ lit '' failed'' \<in> set (stdout (snd (report codec u st)))"
  by (auto simp add: report_def prints_cases)

lemma report_browse:
  "k \<in> set (created st) \<Longrightarrow> \<forall>e. fst (report codec u st) \<noteq> Uncaught e \<Longrightarrow>
     lit ''  - '' @ u @ lit ''/browse/'' @ py_str k \<in> set (stdout (snd (report codec u st)))"
  by (auto simp add: report_def prints_cases split: if_splits)

lemma report_v2_state:
  "requests (snd (report_v2 codec st)) = requests st"
  "created (snd (report_v2 codec st)) = created st"
  "failed (snd (report_v2 codec st)) = failed st"
  by (simp_all add: report_v2_def prints_cases)

lemma report_v2_outcome:
  "fst (report_v2 codec st) = Returned \<or> fst (report_v2 codec st) = SysExit 1
   \<or> fst (report_v2 codec st) = Uncaught UnicodeEncodeError"
  "fst (report_v2 codec st) = Returned \<Longrightarrow> failed st = []"
  by (simp_all add: report_v2_def prints_cases split: if_splits)

lemma item_lines_printable:
  "\<forall>item \<in> set items. printable codec (py_str (item_key item))
      \<and> printable codec (take 40 (item_summary item)) \<and> printable codec (item_url item) \<Longrightarrow>
   list_all (printable codec) (concat (map (\<lambda>item.
      [lit ''  '' @ py_str (item_key item) @ lit '': '' @ take 40 (item_summary item),
       lit ''    '' @ item_url item]) items))"
  by (induction items) simp_all

lemma report_v2_completes:
  assumes "created st = [] \<or> printable codec [0x2713]"
    and "\<forall>item \<in> set (created st). printable codec (py_str (item_key item))
      \<and> printable codec (take 40 (item_summary item)) \<and> printable codec (item_url item)"
    and "failed st = [] \<or> printable codec [0x2717]"
    and "list_all (printable codec) (failed st)"
  shows "fst (report_v2 codec st) = (if failed st \<noteq> [] then SysExit 1 else Returned)"
  using assms item_lines_printable [of "created st" codec]
  by (auto simp add: report_v2_def prints_cases list_all_iff)

lemma report_v2_stdout:
  "set (stdout st) \<subseteq> set (stdout (snd (report_v2 codec st)))"
  "lit ''SUMMARY'' \<in> set (stdout (snd (report_v2 codec st)))"
  by (auto simp add: report_v2_def prints_cases)


lemma rule_no_summary:
  "replicate n (45::nat) \<noteq> lit ''Summary: ''"
  "replicate n (45::nat) \<noteq> lit ''SUMMARY''"
  "replicate n (61::nat) \<noteq> lit ''SUMMARY''"
proof -
  have "\<And>c s. (83::nat) \<in> set s \<Longrightarrow> c \<noteq> 83 \<Longrightarrow> replicate n c \<noteq> s"
    by auto
  then show "replicate n (45::nat) \<noteq> lit ''Summary: ''"
    "replicate n (45::nat) \<noteq> lit ''SUMMARY''"
    "replicate n (61::nat) \<noteq> lit ''SUMMARY''"
    by simp_all
qed

lemma main_cases:
  obtains
    (missing) "missing_vars environ \<noteq> []"
      "main codec environ issues net
         = (SysExit 1, init\<lparr>stdout := missing_report (missing_vars environ)\<rparr>)"
  | (no_header) e where "missing_vars environ = []"
      "get_auth_header (env_value environ (lit ''JIRA_EMAIL''))
         (env_value environ (lit ''JIRA_API_TOKEN'')) = Inl e"
      "main codec environ issues net = (Uncaught e, init)"
  | (banner_raised) auth st where "missing_vars environ = []"
      "get_auth_header (env_value environ (lit ''JIRA_EMAIL''))
         (env_value environ (lit ''JIRA_API_TOKEN'')) = Inr auth"
      "\<not> printable codec (rstrip_slash (env_value environ (lit ''JIRA_URL'')))"
      "requests st = []" "created st = []" "failed st = []"
      "\<not> summary_printed (stdout st)"
      "main codec environ issues net = (Uncaught UnicodeEncodeError, st)"
  | (batch_raised) auth st0 e st' where "missing_vars environ = []"
      "get_auth_header (env_value environ (lit ''JIRA_EMAIL''))
         (env_value environ (lit ''JIRA_API_TOKEN'')) = Inr auth"
      "printable codec (rstrip_slash (env_value environ (lit ''JIRA_URL'')))"
      "requests st0 = []" "created st0 = []" "failed st0 = []"
      "\<not> summary_printed (stdout st0)"
      "create_all codec net (rstrip_slash (env_value environ (lit ''JIRA_URL''))) auth issues st0
         = (Some e, st')"
      "main codec environ issues net = (Uncaught e, st')"
  | (batch_done) auth st0 st' where "missing_vars environ = []"
      "get_auth_header (env_value environ (lit ''JIRA_EMAIL''))
         (env_value environ (lit ''JIRA_API_TOKEN'')) = Inr auth"
      "printable codec (rstrip_slash (env_value environ (lit ''JIRA_URL'')))"
      "requests st0 = []" "created st0 = []" "failed st0 = []"
      "\<not> summary_printed (stdout st0)"
      "create_all codec net (rstrip_slash (env_value environ (lit ''JIRA_URL''))) auth issues st0
         = (None, st')"
      "main codec environ issues net
         = report codec (rstrip_slash (env_value environ (lit ''JIRA_URL''))) st'"
proof (cases "missing_vars environ = []")
  case False
  show ?thesis by (rule missing [OF False main_missing [OF False]])
next
  case True
  let ?base = "rstrip_slash (env_value environ (lit ''JIRA_URL''))"
  let ?l1 = "lit ''Creating '' @ str_nat (length issues) @ lit '' issues in project ''
                     @ PROJECT_KEY @ lit ''...''"
  show ?thesis
  proof (cases "get_auth_header (env_value environ (lit ''JIRA_EMAIL''))
         (env_value environ (lit ''JIRA_API_TOKEN''))")
    case (Inl e)
    show ?thesis using True Inl by (intro no_header [OF True Inl]) (simp add: main_def Let_def)
  next
    case (Inr auth)
    show ?thesis
    proof (cases "printable codec ?base")
      case bad: False
      define st :: "pyval state" where "st = init\<lparr>stdout := [?l1]\<rparr>"
      have st: "requests st = []" "created st = []" "failed st = []"
        by (simp_all add: st_def init_def)
      have ns: "\<not> summary_printed (stdout st)"
        by (simp add: st_def summary_printed_def)
      have "main codec environ issues net = (Uncaught UnicodeEncodeError, st)"
        using True Inr bad by (simp add: main_def Let_def prints_cases st_def init_fields)
      then show ?thesis
        by (rule banner_raised [OF True Inr bad st ns])
    next
      case ok: True
      define st0 :: "pyval state" where
        "st0 = init\<lparr>stdout := [?l1, lit ''Jira URL: '' @ ?base, replicate 50 45]\<rparr>"
      have st0: "requests st0 = []" "created st0 = []" "failed st0 = []"
        by (simp_all add: st0_def init_def)
      have ns: "\<not> summary_printed (stdout st0)"
        using rule_no_summary(1) [of 9] by (simp add: st0_def summary_printed_def)
      obtain r st' where run: "create_all codec net ?base auth issues st0 = (r, st')"
        by (cases "create_all codec net ?base auth issues st0")
      show ?thesis
      proof (cases r)
        case None
        have "main codec environ issues net = report codec ?base st'"
          using True Inr ok run [unfolded st0_def None]
          by (simp add: main_def Let_def prints_cases init_fields)
        then show ?thesis
          by (rule batch_done [OF True Inr ok st0 ns run [unfolded None]])
      next
        case (Some e)
        have "main codec environ issues net = (Uncaught e, st')"
          using True Inr ok run [unfolded st0_def Some]
          by (simp add: main_def Let_def prints_cases init_fields)
        then show ?thesis
          by (rule batch_raised [OF True Inr ok st0 ns run [unfolded Some]])
      qed
    qed
  qed
qed


lemma main_v2_cases:
  obtains
    (missing) "missing_vars environ \<noteq> []"
      "main_v2 codec environ issues net
         = (SysExit 1, init\<lparr>stdout := missing_report_v2 (missing_vars environ)\<rparr>)"
  | (no_header) e where "missing_vars environ = []"
      "get_auth_header (env_value environ (lit ''JIRA_EMAIL''))
         (env_value environ (lit ''JIRA_API_TOKEN'')) = Inl e"
      "main_v2 codec environ issues net = (Uncaught e, init)"
  | (banner_raised) auth st where "missing_vars environ = []"
      "get_auth_header (env_value environ (lit ''JIRA_EMAIL''))
         (env_value environ (lit ''JIRA_API_TOKEN'')) = Inr auth"
      "\<not> printable codec (rstrip_slash (env_value environ (lit ''JIRA_URL'')))"
      "requests st = []" "created st = []" "failed st = []"
      "\<not> summary_printed_v2 (stdout st)"
      "main_v2 codec environ issues net = (Uncaught UnicodeEncodeError, st)"
  | (probe_raised) auth e st1 where "missing_vars environ = []"
      "get_auth_header (env_value environ (lit ''JIRA_EMAIL''))
         (env_value environ (lit ''JIRA_API_TOKEN'')) = Inr auth"
      "printable codec (rstrip_slash (env_value environ (lit ''JIRA_URL'')))"
      "fst (check_project_exists net [] (rstrip_slash (env_value environ (lit ''JIRA_URL'')))
              auth PROJECT_KEY) = Inl e"
      "requests st1 = [probe_request (rstrip_slash (env_value environ (lit ''JIRA_URL'')))
                         auth PROJECT_KEY]"
      "created st1 = []" "failed st1 = []"
      "\<not> summary_printed_v2 (stdout st1)"
      "main_v2 codec environ issues net = (Uncaught e, st1)"
  | (not_found) auth st1 where "missing_vars environ = []"
      "get_auth_header (env_value environ (lit ''JIRA_EMAIL''))
         (env_value environ (lit ''JIRA_API_TOKEN'')) = Inr auth"
      "printable codec (rstrip_slash (env_value environ (lit ''JIRA_URL'')))"
      "fst (check_project_exists net [] (rstrip_slash (env_value environ (lit ''JIRA_URL'')))
              auth PROJECT_KEY) = Inr False"
      "requests st1 = [probe_request (rstrip_slash (env_value environ (lit ''JIRA_URL'')))
                         auth PROJECT_KEY]"
      "created st1 = []" "failed st1 = []"
      "\<not> summary_printed_v2 (stdout st1)"
      "main_v2 codec environ issues net = (SysExit 1, st1)"
  | (found_raised) auth st1 where "missing_vars environ = []"
      "get_auth_header (env_value environ (lit ''JIRA_EMAIL''))
         (env_value environ (lit ''JIRA_API_TOKEN'')) = Inr auth"
      "printable codec (rstrip_slash (env_value environ (lit ''JIRA_URL'')))"
      "fst (check_project_exists net [] (rstrip_slash (env_value environ (lit ''JIRA_URL'')))
              auth PROJECT_KEY) = Inr True"
      "\<not> printable codec [0x2713]"
      "requests st1 = [probe_request (rstrip_slash (env_value environ (lit ''JIRA_URL'')))
                         auth PROJECT_KEY]"
      "created st1 = []" "failed st1 = []"
      "\<not> summary_printed_v2 (stdout st1)"
      "main_v2 codec environ issues net = (Uncaught UnicodeEncodeError, st1)"
  | (batch_raised) auth st0 e st' where "missing_vars environ = []"
      "get_auth_header (env_value environ (lit ''JIRA_EMAIL''))
         (env_value environ (lit ''JIRA_API_TOKEN'')) = Inr auth"
      "printable codec (rstrip_slash (env_value environ (lit ''JIRA_URL'')))"
      "fst (check_project_exists net [] (rstrip_slash (env_value environ (lit ''JIRA_URL'')))
              auth PROJECT_KEY) = Inr True"
      "printable codec [0x2713]"
      "requests st0 = [probe_request (rstrip_slash (env_value environ (lit ''JIRA_URL'')))
                         auth PROJECT_KEY]"
      "created st0 = []" "failed st0 = []"
      "\<not> summary_printed_v2 (stdout st0)"
      "create_all_v2 codec net (rstrip_slash (env_value environ (lit ''JIRA_URL''))) auth
         (length issues) 1 issues st0 = (Some e, st')"
      "main_v2 codec environ issues net = (Uncaught e, st')"
  | (batch_done) auth st0 st' where "missing_vars environ = []"
      "get_auth_header (env_value environ (lit ''JIRA_EMAIL''))
         (env_value environ (lit ''JIRA_API_TOKEN'')) = Inr auth"
      "printable codec (rstrip_slash (env_value environ (lit ''JIRA_URL'')))"
      "fst (check_project_exists net [] (rstrip_slash (env_value environ (lit ''JIRA_URL'')))
              auth PROJECT_KEY) = Inr True"
      "printable codec [0x2713]"
      "requests st0 = [probe_request (rstrip_slash (env_value environ (lit ''JIRA_URL'')))
                         auth PROJECT_KEY]"
      "created st0 = []" "failed st0 = []"
      "\<not> summary_printed_v2 (stdout st0)"
      "create_all_v2 codec net (rstrip_slash (env_value environ (lit ''JIRA_URL''))) auth
         (length issues) 1 issues st0 = (None, st')"
      "main_v2 codec environ issues net = report_v2 codec st'"
proof (cases "missing_vars environ = []")
  case False
  show ?thesis by (rule missing [OF False main_v2_missing [OF False]])
next
  case True
  let ?base = "rstrip_slash (env_value environ (lit ''JIRA_URL''))"
  let ?head = "[replicate 60 61, lit ''Beyond Burndown - Jira Issue Creator'', replicate 60 61]"
  let ?tail = "[lit ''Project:  '' @ PROJECT_KEY,
                lit ''Issues:   '' @ str_nat (length issues),
                replicate 60 45,
                lit ''\<newline>Checking project '' @ PROJECT_KEY @ lit ''...'']"
  show ?thesis
  proof (cases "get_auth_header (env_value environ (lit ''JIRA_EMAIL''))
         (env_value environ (lit ''JIRA_API_TOKEN''))")
    case (Inl e)
    show ?thesis using True Inl by (intro no_header [OF True Inl]) (simp add: main_v2_def Let_def)
  next
    case (Inr auth)
    show ?thesis
    proof (cases "printable codec ?base")
      case bad: False
      define st :: "created_item state" where "st = init\<lparr>stdout := ?head\<rparr>"
      have st: "requests st = []" "created st = []" "failed st = []"
        by (simp_all add: st_def init_def)
      have ns: "\<not> summary_printed_v2 (stdout st)"
        using rule_no_summary(3) [of 60] by (simp add: st_def summary_printed_v2_def)
      have "main_v2 codec environ issues net = (Uncaught UnicodeEncodeError, st)"
        using True Inr bad by (simp add: main_v2_def Let_def prints_cases st_def init_fields)
      then show ?thesis
        by (rule banner_raised [OF True Inr bad st ns])
    next
      case ok: True
      define st1 :: "created_item state" where
        "st1 = init\<lparr>stdout := ?head @ [lit ''Jira URL: '' @ ?base] @ ?tail,
                     requests := [probe_request ?base auth PROJECT_KEY]\<rparr>"
      have st1: "requests st1 = [probe_request ?base auth PROJECT_KEY]"
        "created st1 = []" "failed st1 = []"
        by (simp_all add: st1_def init_def)
      have ns1: "\<not> summary_printed_v2 (stdout st1)"
        using rule_no_summary(2,3) [of 60]
        by (simp add: st1_def summary_printed_v2_def PROJECT_KEY_def)
      show ?thesis
      proof (cases "fst (check_project_exists net [] ?base auth PROJECT_KEY)")
        case probe: (Inl e)
        have "main_v2 codec environ issues net = (Uncaught e, st1)"
          using True Inr ok probe unfolding st1_def
          by (simp add: main_v2_def Let_def prints_cases check_project_exists_eq init_fields
                split: reply.splits)
        then show ?thesis
          by (rule probe_raised [OF True Inr ok probe st1 ns1])
      next
        case probe: (Inr found)
        show ?thesis
        proof (cases found)
          case False
          have probe_false: "fst (check_project_exists net [] ?base auth PROJECT_KEY) = Inr False"
            using probe False by simp
          define st2 where "st2 = st1\<lparr>stdout := stdout st1 @
                        [lit ''ERROR: Project '' @ [39] @ PROJECT_KEY @ [39]
                           @ lit '' not found or not accessible.'',
                         lit ''Check that:'',
                         lit ''  1. The project key is correct'',
                         lit ''  2. Your API token has access to this project'',
                         lit ''  3. Your Jira URL is correct'']\<rparr>"
          have st2: "requests st2 = [probe_request ?base auth PROJECT_KEY]"
            "created st2 = []" "failed st2 = []"
            by (simp_all add: st2_def st1)
          have ns2: "\<not> summary_printed_v2 (stdout st2)"
            using ns1
            by (simp add: st2_def summary_printed_append) (simp add: summary_printed_v2_def)
          have "main_v2 codec environ issues net = (SysExit 1, st2)"
            using True Inr ok probe False unfolding st2_def st1_def
            by (simp add: main_v2_def Let_def prints_cases check_project_exists_eq init_fields
                  split: reply.splits)
          then show ?thesis
            by (rule not_found [OF True Inr ok probe_false st2 ns2])
        next
          case found: True
          have probe_true: "fst (check_project_exists net [] ?base auth PROJECT_KEY) = Inr True"
            using probe found by simp
          show ?thesis
          proof (cases "printable codec [0x2713]")
            case nomark: False
            have "main_v2 codec environ issues net = (Uncaught UnicodeEncodeError, st1)"
              using True Inr ok probe found nomark unfolding st1_def
              by (simp add: main_v2_def Let_def prints_cases check_project_exists_eq init_fields
                    split: reply.splits)
            then show ?thesis
              by (rule found_raised [OF True Inr ok probe_true nomark st1 ns1])
          next
            case mark: True
            define st0 where "st0 = st1\<lparr>stdout := stdout st1 @
                           [lit ''  '' @ [0x2713] @ lit '' Project '' @ PROJECT_KEY @ lit '' found'',
                            lit ''\<newline>Creating issues...'',
                            replicate 60 45]\<rparr>"
            have st0: "requests st0 = [probe_request ?base auth PROJECT_KEY]"
              "created st0 = []" "failed st0 = []"
              by (simp_all add: st0_def st1)
            have ns0: "\<not> summary_printed_v2 (stdout st0)"
              using ns1 rule_no_summary(2) [of 60]
              by (simp add: st0_def summary_printed_append) (simp add: summary_printed_v2_def)
            obtain r st' where run:
              "create_all_v2 codec net ?base auth (length issues) 1 issues st0 = (r, st')"
              by (cases "create_all_v2 codec net ?base auth (length issues) 1 issues st0")
            show ?thesis
            proof (cases r)
              case None
              have "main_v2 codec environ issues net = report_v2 codec st'"
                using True Inr ok probe found mark run [unfolded st0_def st1_def None]
                by (simp add: main_v2_def Let_def prints_cases check_project_exists_eq
                      init_fields split: reply.splits)
              then show ?thesis
                by (rule batch_done [OF True Inr ok probe_true mark st0 ns0 run [unfolded None]])
            next
              case (Some e)
              have "main_v2 codec environ issues net = (Uncaught e, st')"
                using True Inr ok probe found mark run [unfolded st0_def st1_def Some]
                by (simp add: main_v2_def Let_def prints_cases check_project_exists_eq
                      init_fields split: reply.splits)
              then show ?thesis
                by (rule batch_raised [OF True Inr ok probe_true mark st0 ns0 run [unfolded Some]])
            qed
          qed
        qed
      qed
    qed
  qed
qed


lemma create_issue_returns_iff:
  "(\<exists>res. fst (create_issue net log u h k issue) = Inr res)
     \<longleftrightarrow> handled (net (log @ [create_request u h k issue]))"
  "(\<exists>res. fst (create_issue_v2 net log u h k issue) = Inr res)
     \<longleftrightarrow> handled (net (log @ [create_request_v2 u h k issue]))"
  by (simp_all add: create_issue_eq create_issue_v2_eq handled_iff)

lemma probe_returns:
  "probe_handled (net (log @ [probe_request u h k])) \<Longrightarrow>
   \<exists>found. fst (check_project_exists net log u h k) = Inr found"
  by (cases "net (log @ [probe_request u h k])") (auto simp add: check_project_exists_eq)

lemma proceeds_handled:
  "list_all2 (attempt_proceeds codec u) issues (map try_create (replies net log (map f issues)))
   \<Longrightarrow> list_all handled (replies net log (map f issues))"
  by (induction issues arbitrary: log) (auto dest: attempt_proceeds_handled(1))

lemma proceeds_v2_handled:
  "list_all2 (attempt_proceeds_v2 codec) issues (map try_create (replies net log (map f issues)))
   \<Longrightarrow> list_all handled (replies net log (map f issues))"
  by (induction issues arbitrary: log) (auto dest: attempt_proceeds_handled(2))

lemma failures_need_mark:
  "list_all2 (attempt_proceeds_v2 codec) issues rs \<Longrightarrow> failed_summaries issues rs \<noteq> [] \<Longrightarrow>
   printable codec [0x2717]"
proof (induction issues rs rule: list_all2_induct)
  case Nil
  then show ?case by simp
next
  case (Cons issue issues r rs)
  show ?case
  proof (cases r)
    case (Inl e)
    with Cons show ?thesis by simp
  next
    case (Inr res)
    with Cons show ?thesis by (cases res) simp_all
  qed
qed

lemma main_completes:
  assumes "missing_vars environ = []"
    and "get_auth_header (env_value environ (lit ''JIRA_EMAIL''))
           (env_value environ (lit ''JIRA_API_TOKEN'')) = Inr auth"
    and "printable codec (rstrip_slash (env_value environ (lit ''JIRA_URL'')))"
    and "list_all2 (attempt_proceeds codec (rstrip_slash (env_value environ (lit ''JIRA_URL''))))
           issues (map try_create (replies net []
             (map (create_request (rstrip_slash (env_value environ (lit ''JIRA_URL'')))
                    auth PROJECT_KEY) issues)))"
    and "list_all (printable codec) (failed_summaries issues (map try_create (replies net []
             (map (create_request (rstrip_slash (env_value environ (lit ''JIRA_URL'')))
                    auth PROJECT_KEY) issues))))"
  shows "(fst (main codec environ issues net) = Returned
          \<or> fst (main codec environ issues net) = SysExit 1)
     \<and> requests (snd (main codec environ issues net))
         = map (create_request (rstrip_slash (env_value environ (lit ''JIRA_URL''))) auth
                  PROJECT_KEY) issues
     \<and> lit ''Summary: '' @ str_nat (length (created (snd (main codec environ issues net))))
          @ lit '' created, '' @ str_nat (length (failed (snd (main codec environ issues net))))
          @ lit '' failed'' \<in> set (stdout (snd (main codec environ issues net)))
     \<and> created (snd (main codec environ issues net))
         = created_keys (map try_create (replies net []
             (map (create_request (rstrip_slash (env_value environ (lit ''JIRA_URL''))) auth
                     PROJECT_KEY) issues)))
     \<and> failed (snd (main codec environ issues net))
         = failed_summaries issues (map try_create (replies net []
             (map (create_request (rstrip_slash (env_value environ (lit ''JIRA_URL''))) auth
                     PROJECT_KEY) issues)))"
proof (cases rule: main_cases [of environ codec issues net])
  case missing
  with assms show ?thesis by simp
next
  case (no_header e)
  with assms show ?thesis by simp
next
  case (banner_raised auth' st)
  with assms show ?thesis by simp
next
  case (batch_raised auth' st0 e st')
  let ?base = "rstrip_slash (env_value environ (lit ''JIRA_URL''))"
  from batch_raised(2) assms(2) have "auth' = auth" by simp
  with assms(4) batch_raised(4)
    create_all_proceeds_iff [of codec net ?base auth' issues st0] batch_raised(8)
  show ?thesis by simp
next
  case (batch_done auth' st0 st')
  let ?base = "rstrip_slash (env_value environ (lit ''JIRA_URL''))"
  from batch_done(2) assms(2) have a: "auth' = auth" by simp
  have none: "fst (create_all codec net ?base auth' issues st0) = None"
    using batch_done(8) by simp
  from create_all_result [OF none] batch_done(8) batch_done(4,5,6) a
  have r: "requests st' = map (create_request ?base auth PROJECT_KEY) issues"
    "created st' = created_keys (map try_create (replies net []
       (map (create_request ?base auth PROJECT_KEY) issues)))"
    "failed st' = failed_summaries issues (map try_create (replies net []
       (map (create_request ?base auth PROJECT_KEY) issues)))"
    by simp_all
  from create_all_stdout [of st0 codec net ?base auth' issues] batch_done(8) batch_done(5)
  have keys: "\<forall>k \<in> set (created st'). printable codec (py_str k)" by simp
  have f: "list_all (printable codec) (failed st')"
    using assms(5) unfolding r(3) .
  have "created st' = [] \<or> printable codec ?base" using assms(3) by simp
  from report_completes [OF this keys f]
  have o: "fst (report codec ?base st') = Returned \<or> fst (report codec ?base st') = SysExit 1"
    by (simp split: if_splits)
  from report_stdout(2) [of st' codec ?base]
  have s: "lit ''Summary: '' @ str_nat (length (created (snd (report codec ?base st'))))
          @ lit '' created, '' @ str_nat (length (failed (snd (report codec ?base st'))))
          @ lit '' failed'' \<in> set (stdout (snd (report codec ?base st')))"
    unfolding report_state .
  show ?thesis
    unfolding batch_done(9) using r s o by (simp add: report_state)
qed

lemma main_stops:
  assumes "missing_vars environ = []"
    and "get_auth_header (env_value environ (lit ''JIRA_EMAIL''))
           (env_value environ (lit ''JIRA_API_TOKEN'')) = Inr auth"
    and "\<not> printable codec (rstrip_slash (env_value environ (lit ''JIRA_URL'')))
       \<or> \<not> list_all2
           (attempt_proceeds codec (rstrip_slash (env_value environ (lit ''JIRA_URL''))))
           issues (map try_create (replies net []
             (map (create_request (rstrip_slash (env_value environ (lit ''JIRA_URL'')))
                    auth PROJECT_KEY) issues)))"
  shows "(\<exists>e. fst (main codec environ issues net) = Uncaught e)
     \<and> \<not> summary_printed (stdout (snd (main codec environ issues net)))"
proof (cases rule: main_cases [of environ codec issues net])
  case missing
  with assms show ?thesis by simp
next
  case (no_header e)
  with assms show ?thesis by simp
next
  case (banner_raised auth' st)
  then show ?thesis by simp
next
  case (batch_raised auth' st0 e st')
  let ?base = "rstrip_slash (env_value environ (lit ''JIRA_URL''))"
  from create_all_lines [of codec net ?base auth' issues st0] batch_raised(8)
  obtain ls where "stdout st' = stdout st0 @ ls" "list_all loop_line ls" by auto
  with batch_raised(7) have "\<not> summary_printed (stdout st')"
    by (simp add: summary_printed_append loop_lines_no_summary)
  with batch_raised(9) show ?thesis by simp
next
  case (batch_done auth' st0 st')
  let ?base = "rstrip_slash (env_value environ (lit ''JIRA_URL''))"
  from batch_done(2) assms(2) have a: "auth' = auth" by simp
  have "fst (create_all codec net ?base auth' issues st0) = None"
    using batch_done(8) by simp
  with create_all_proceeds_iff [of codec net ?base auth' issues st0] batch_done(4) a
  have "list_all2 (attempt_proceeds codec ?base) issues (map try_create (replies net []
             (map (create_request ?base auth PROJECT_KEY) issues)))" by simp
  with assms(3) batch_done(3) show ?thesis by simp
qed

lemma main_v2_completes:
  assumes "missing_vars environ = []"
    and "get_auth_header (env_value environ (lit ''JIRA_EMAIL''))
           (env_value environ (lit ''JIRA_API_TOKEN'')) = Inr auth"
    and "fst (check_project_exists net [] (rstrip_slash (env_value environ (lit ''JIRA_URL'')))
              auth PROJECT_KEY) = Inr True"
    and "printable codec (rstrip_slash (env_value environ (lit ''JIRA_URL'')))"
    and "printable codec [0x2713]"
    and "list_all2 (attempt_proceeds_v2 codec) issues (map try_create (replies net
           [probe_request (rstrip_slash (env_value environ (lit ''JIRA_URL''))) auth PROJECT_KEY]
           (map (create_request_v2 (rstrip_slash (env_value environ (lit ''JIRA_URL'')))
                  auth PROJECT_KEY) issues)))"
    and "list_all (printable codec) (failed_summaries issues (map try_create (replies net
           [probe_request (rstrip_slash (env_value environ (lit ''JIRA_URL''))) auth PROJECT_KEY]
           (map (create_request_v2 (rstrip_slash (env_value environ (lit ''JIRA_URL'')))
                  auth PROJECT_KEY) issues))))"
  shows "(fst (main_v2 codec environ issues net) = Returned
          \<or> fst (main_v2 codec environ issues net) = SysExit 1)
     \<and> requests (snd (main_v2 codec environ issues net))
          = probe_request (rstrip_slash (env_value environ (lit ''JIRA_URL''))) auth PROJECT_KEY
            # map (create_request_v2 (rstrip_slash (env_value environ (lit ''JIRA_URL''))) auth
                PROJECT_KEY) issues
     \<and> lit ''SUMMARY'' \<in> set (stdout (snd (main_v2 codec environ issues net)))
     \<and> created (snd (main_v2 codec environ issues net))
          = created_items (rstrip_slash (env_value environ (lit ''JIRA_URL''))) issues
              (map try_create (replies net
                 [probe_request (rstrip_slash (env_value environ (lit ''JIRA_URL''))) auth
                    PROJECT_KEY]
                 (map (create_request_v2 (rstrip_slash (env_value environ (lit ''JIRA_URL'')))
                    auth PROJECT_KEY) issues)))
     \<and> failed (snd (main_v2 codec environ issues net))
          = failed_summaries issues
              (map try_create (replies net
                 [probe_request (rstrip_slash (env_value environ (lit ''JIRA_URL''))) auth
                    PROJECT_KEY]
                 (map (create_request_v2 (rstrip_slash (env_value environ (lit ''JIRA_URL'')))
                    auth PROJECT_KEY) issues)))"
proof (cases rule: main_v2_cases [of environ codec issues net])
  case missing
  with assms show ?thesis by simp
next
  case (no_header e)
  with assms show ?thesis by simp
next
  case (banner_raised auth' st)
  with assms show ?thesis by simp
next
  case (probe_raised auth' e st1)
  with assms show ?thesis by simp
next
  case (not_found auth' st1)
  with assms show ?thesis by simp
next
  case (found_raised auth' st1)
  with assms show ?thesis by simp
next
  case (batch_raised auth' st0 e st')
  let ?base = "rstrip_slash (env_value environ (lit ''JIRA_URL''))"
  from batch_raised(2) assms(2) have "auth' = auth" by simp
  with assms(6) batch_raised(6)
    create_all_v2_proceeds_iff [of codec net ?base auth' "length issues" 1 issues st0]
    batch_raised(10)
  show ?thesis by simp
next
  case (batch_done auth' st0 st')
  let ?base = "rstrip_slash (env_value environ (lit ''JIRA_URL''))"
  let ?rs = "map try_create (replies net [probe_request ?base auth PROJECT_KEY]
       (map (create_request_v2 ?base auth PROJECT_KEY) issues))"
  from batch_done(2) assms(2) have a: "auth' = auth" by simp
  have none: "fst (create_all_v2 codec net ?base auth' (length issues) 1 issues st0) = None"
    using batch_done(10) by simp
  from create_all_v2_result [OF none] batch_done(10) batch_done(6,7,8) a
  have r: "requests st' = probe_request ?base auth PROJECT_KEY
              # map (create_request_v2 ?base auth PROJECT_KEY) issues"
    "created st' = created_items ?base issues ?rs"
    "failed st' = failed_summaries issues ?rs"
    by simp_all
  from create_all_v2_urls [of codec net ?base auth' "length issues" 1 issues st0]
    batch_done(10) batch_done(7) assms(4)
  have items: "\<forall>item \<in> set (created st'). printable codec (py_str (item_key item))
      \<and> printable codec (take 40 (item_summary item)) \<and> printable codec (item_url item)"
    by simp
  have f: "list_all (printable codec) (failed st')"
    using assms(7) unfolding r(3) .
  have m1: "created st' = [] \<or> printable codec [0x2713]" using assms(5) by blast
  have m2: "failed st' = [] \<or> printable codec [0x2717]"
    using failures_need_mark [OF assms(6)] unfolding r(3) by blast
  from report_v2_completes [OF m1 items m2 f]
  have o: "fst (report_v2 codec st') = Returned \<or> fst (report_v2 codec st') = SysExit 1"
    by (simp split: if_splits)
  show ?thesis
    unfolding batch_done(11) using r o report_v2_stdout(2) [of codec st']
    by (simp add: report_v2_state)
qed

lemma main_v2_not_found:
  assumes "missing_vars environ = []"
    and "get_auth_header (env_value environ (lit ''JIRA_EMAIL''))
           (env_value environ (lit ''JIRA_API_TOKEN'')) = Inr auth"
    and "fst (check_project_exists net [] (rstrip_slash (env_value environ (lit ''JIRA_URL'')))
              auth PROJECT_KEY) = Inr False"
    and "printable codec (rstrip_slash (env_value environ (lit ''JIRA_URL'')))"
  shows "fst (main_v2 codec environ issues net) = SysExit 1
     \<and> requests (snd (main_v2 codec environ issues net))
          = [probe_request (rstrip_slash (env_value environ (lit ''JIRA_URL''))) auth PROJECT_KEY]
     \<and> created (snd (main_v2 codec environ issues net)) = []
     \<and> failed (snd (main_v2 codec environ issues net)) = []
     \<and> \<not> summary_printed_v2 (stdout (snd (main_v2 codec environ issues net)))"
proof (cases rule: main_v2_cases [of environ codec issues net])
  case missing
  with assms show ?thesis by simp
next
  case (no_header e)
  with assms show ?thesis by simp
next
  case (banner_raised auth' st)
  with assms show ?thesis by simp
next
  case (probe_raised auth' e st1)
  with assms show ?thesis by simp
next
  case (not_found auth' st1)
  with assms show ?thesis by simp
next
  case (found_raised auth' st1)
  with assms show ?thesis by simp
next
  case (batch_raised auth' st0 e st')
  with assms show ?thesis by simp
next
  case (batch_done auth' st0 st')
  with assms show ?thesis by simp
qed

lemma main_v2_stops:
  assumes "missing_vars environ = []"
    and "get_auth_header (env_value environ (lit ''JIRA_EMAIL''))
           (env_value environ (lit ''JIRA_API_TOKEN'')) = Inr auth"
    and "\<not> printable codec (rstrip_slash (env_value environ (lit ''JIRA_URL'')))
       \<or> (\<exists>e. fst (check_project_exists net []
                 (rstrip_slash (env_value environ (lit ''JIRA_URL''))) auth PROJECT_KEY) = Inl e)
       \<or> (fst (check_project_exists net []
                 (rstrip_slash (env_value environ (lit ''JIRA_URL''))) auth PROJECT_KEY) = Inr True
          \<and> (\<not> printable codec [0x2713]
             \<or> \<not> list_all2 (attempt_proceeds_v2 codec) issues (map try_create (replies net
                   [probe_request (rstrip_slash (env_value environ (lit ''JIRA_URL''))) auth
                      PROJECT_KEY]
                   (map (create_request_v2 (rstrip_slash (env_value environ (lit ''JIRA_URL'')))
                      auth PROJECT_KEY) issues)))))"
  shows "(\<exists>e. fst (main_v2 codec environ issues net) = Uncaught e)
     \<and> \<not> summary_printed_v2 (stdout (snd (main_v2 codec environ issues net)))"
proof (cases rule: main_v2_cases [of environ codec issues net])
  case missing
  with assms show ?thesis by simp
next
  case (no_header e)
  with assms show ?thesis by simp
next
  case (banner_raised auth' st)
  then show ?thesis by simp
next
  case (probe_raised auth' e st1)
  then show ?thesis by simp
next
  case (not_found auth' st1)
  with assms show ?thesis by auto
next
  case (found_raised auth' st1)
  then show ?thesis by simp
next
  case (batch_raised auth' st0 e st')
  let ?base = "rstrip_slash (env_value environ (lit ''JIRA_URL''))"
  from create_all_v2_lines [of codec net ?base auth' "length issues" 1 issues st0]
    batch_raised(10)
  obtain ls where "stdout st' = stdout st0 @ ls" "list_all loop_line ls" by auto
  with batch_raised(9) have "\<not> summary_printed_v2 (stdout st')"
    by (simp add: summary_printed_append loop_lines_no_summary)
  with batch_raised(11) show ?thesis by simp
next
  case (batch_done auth' st0 st')
  let ?base = "rstrip_slash (env_value environ (lit ''JIRA_URL''))"
  from batch_done(2) assms(2) have a: "auth' = auth" by simp
  have "fst (create_all_v2 codec net ?base auth' (length issues) 1 issues st0) = None"
    using batch_done(10) by simp
  with create_all_v2_proceeds_iff [of codec net ?base auth' "length issues" 1 issues st0]
    batch_done(6) a
  have "list_all2 (attempt_proceeds_v2 codec) issues (map try_create (replies net
           [probe_request ?base auth PROJECT_KEY]
           (map (create_request_v2 ?base auth PROJECT_KEY) issues)))" by simp
  with assms(3) batch_done(3,4,5) a show ?thesis by auto
qed

section \<open>Exit status\<close>

lemma exit_status_any_list:
  assumes "issues \<noteq> []"
  shows "(exit_status (fst (main codec environ issues net)) = 0
        \<longleftrightarrow> (\<forall>name \<in> set required. \<not> not_set environ name)
            \<and> all_created issues (snd (main codec environ issues net)))
     \<and> (exit_status (fst (main codec environ issues net)) \<noteq> 0
        \<longrightarrow> exit_status (fst (main codec environ issues net)) = 1)
     \<and> (exit_status (fst (main_v2 codec environ issues net)) = 0
        \<longleftrightarrow> (\<forall>name \<in> set required. \<not> not_set environ name)
            \<and> project_found environ net
            \<and> all_created issues (snd (main_v2 codec environ issues net)))
     \<and> (exit_status (fst (main_v2 codec environ issues net)) \<noteq> 0
        \<longrightarrow> exit_status (fst (main_v2 codec environ issues net)) = 1)"
proof -
  have present: "(\<forall>name \<in> set required. \<not> not_set environ name) \<longleftrightarrow> missing_vars environ = []"
    by (simp add: missing_vars_filter filter_empty_conv)
  have v1: "(exit_status (fst (main codec environ issues net)) = 0
        \<longleftrightarrow> missing_vars environ = [] \<and> all_created issues (snd (main codec environ issues net)))
     \<and> (exit_status (fst (main codec environ issues net)) \<noteq> 0
        \<longrightarrow> exit_status (fst (main codec environ issues net)) = 1)"
  proof (cases rule: main_cases [of environ codec issues net])
    case missing
    then show ?thesis by simp
  next
    case (no_header e)
    with assms show ?thesis by (simp add: all_created_def init_def)
  next
    case (banner_raised auth st)
    with assms show ?thesis by (simp add: all_created_def)
  next
    case (batch_raised auth st0 e st')
    from create_all_counts [of codec net "rstrip_slash (env_value environ (lit ''JIRA_URL''))"
        auth issues st0] batch_raised
    have "length (created st') < length issues" by simp
    with batch_raised show ?thesis by (simp add: all_created_def)
  next
    case (batch_done auth st0 st')
    let ?base = "rstrip_slash (env_value environ (lit ''JIRA_URL''))"
    from create_all_counts [of codec net ?base auth issues st0] batch_done
    have n: "length (created st') + length (failed st') = length issues" by simp
    from create_all_stdout [of st0 codec net ?base auth issues] batch_done(8) batch_done(5)
    have keys: "\<forall>k \<in> set (created st'). printable codec (py_str k)" by simp
    have b: "created st' = [] \<or> printable codec ?base" using batch_done(3) by simp
    have ok: "failed st' = [] \<Longrightarrow> fst (report codec ?base st') = Returned"
      using report_completes [OF b keys, of ] by simp
    have "fst (report codec ?base st') = Returned \<longleftrightarrow> failed st' = []"
      using ok report_outcome(2) [of codec ?base st'] by blast
    moreover have "exit_status (fst (report codec ?base st')) = 0
        \<longleftrightarrow> fst (report codec ?base st') = Returned"
      using report_outcome(1) [of codec ?base st'] by auto
    moreover have "exit_status (fst (report codec ?base st')) \<noteq> 0
        \<longrightarrow> exit_status (fst (report codec ?base st')) = 1"
      using report_outcome(1) [of codec ?base st'] by auto
    ultimately show ?thesis
      using n batch_done(1) unfolding batch_done(9)
      by (auto simp add: all_created_def report_state)
  qed
  have v2: "(exit_status (fst (main_v2 codec environ issues net)) = 0
        \<longleftrightarrow> missing_vars environ = [] \<and> project_found environ net
            \<and> all_created issues (snd (main_v2 codec environ issues net)))
     \<and> (exit_status (fst (main_v2 codec environ issues net)) \<noteq> 0
        \<longrightarrow> exit_status (fst (main_v2 codec environ issues net)) = 1)"
  proof (cases rule: main_v2_cases [of environ codec issues net])
    case missing
    then show ?thesis by simp
  next
    case (no_header e)
    with assms show ?thesis by (simp add: all_created_def init_def)
  next
    case (banner_raised auth st)
    with assms show ?thesis by (simp add: all_created_def)
  next
    case (probe_raised auth e st1)
    with assms show ?thesis by (simp add: all_created_def)
  next
    case (not_found auth st1)
    with assms show ?thesis by (simp add: all_created_def)
  next
    case (found_raised auth st1)
    with assms show ?thesis by (simp add: all_created_def)
  next
    case (batch_raised auth st0 e st')
    from create_all_v2_counts [of codec net "rstrip_slash (env_value environ (lit ''JIRA_URL''))"
        auth "length issues" 1 issues st0] batch_raised
    have "length (created st') < length issues" by simp
    with batch_raised show ?thesis by (simp add: all_created_def)
  next
    case (batch_done auth st0 st')
    let ?base = "rstrip_slash (env_value environ (lit ''JIRA_URL''))"
    from create_all_v2_counts [of codec net ?base auth "length issues" 1 issues st0] batch_done
    have n: "length (created st') + length (failed st') = length issues" by simp
    from batch_done have pf: "project_found environ net"
      by (simp add: project_found_def)
    from create_all_v2_urls [of codec net ?base auth "length issues" 1 issues st0]
      batch_done(10) batch_done(7) batch_done(3)
    have items: "\<forall>item \<in> set (created st'). printable codec (py_str (item_key item))
        \<and> printable codec (take 40 (item_summary item)) \<and> printable codec (item_url item)"
      by simp
    have m1: "created st' = [] \<or> printable codec [0x2713]" using batch_done(5) by blast
    have ok: "failed st' = [] \<Longrightarrow> fst (report_v2 codec st') = Returned"
      using report_v2_completes [OF m1 items] by simp
    have "fst (report_v2 codec st') = Returned \<longleftrightarrow> failed st' = []"
      using ok report_v2_outcome(2) [of codec st'] by blast
    moreover have "exit_status (fst (report_v2 codec st')) = 0
        \<longleftrightarrow> fst (report_v2 codec st') = Returned"
      using report_v2_outcome(1) [of codec st'] by auto
    moreover have "exit_status (fst (report_v2 codec st')) \<noteq> 0
        \<longrightarrow> exit_status (fst (report_v2 codec st')) = 1"
      using report_v2_outcome(1) [of codec st'] by auto
    ultimately show ?thesis
      using n pf batch_done(1) unfolding batch_done(11)
      by (auto simp add: all_created_def report_v2_state)
  qed
  from v1 v2 show ?thesis unfolding present by blast
qed




lemma replies_constant: "replies (\<lambda>h. r) log reqs = replicate (length reqs) r"
  by (induction reqs arbitrary: log) simp_all





lemma handled_constant: "handled r \<Longrightarrow> list_all handled (replies (\<lambda>h. r) log reqs)"
  by (simp add: replies_constant list_all_length)

lemma try_create_created_reply:
  "try_create created_reply = Inr (Success (PStr (lit ''BB-7'')) (PStr (lit ''10007'')))"
  by (simp add: created_reply_def sample_items_def try_create_success)


lemma printable_summary_short_full:
  "printable codec (summary issue) \<Longrightarrow> printable codec (summary_short issue)"
  by (simp add: summary_short_def printable_take)

lemma proceeds_constant:
  "list_all (\<lambda>issue. printable utf8_stdout (summary issue)) issues \<Longrightarrow>
   list_all2 (attempt_proceeds utf8_stdout sample_url) issues
     (replicate (length issues) (Inr (Success (PStr (lit ''BB-7'')) (PStr (lit ''10007'')))))"
  "list_all (\<lambda>issue. printable utf8_stdout (summary issue)) issues \<Longrightarrow>
   list_all2 (attempt_proceeds utf8_stdout sample_url) issues
     (replicate (length issues) (Inr (Failure (str_nat 400 @ lit '': '' @ bad_request_text))))"
  "list_all (\<lambda>issue. printable utf8_stdout (summary issue)) issues \<Longrightarrow>
   list_all2 (attempt_proceeds_v2 utf8_stdout) issues
     (replicate (length issues) (Inr (Success (PStr (lit ''BB-7'')) (PStr (lit ''10007'')))))"
  by (induction issues)
     (simp_all add: utf8_stdout_marks sample_url_def bad_request_text_def printable_take
        printable_summary_short_full)



section \<open>The URLs a run constructs\<close>

lemma requests_subset_v1:
  "r \<in> set (requests (snd (create_all codec net u auth issues st))) \<Longrightarrow>
   r \<in> set (requests st) \<or> r \<in> create_request u auth PROJECT_KEY ` set issues"
proof -
  assume a: "r \<in> set (requests (snd (create_all codec net u auth issues st)))"
  from create_all_prefix [of codec net u auth issues st] obtain reqs where
    "requests (snd (create_all codec net u auth issues st)) = requests st @ reqs"
    "prefix reqs (map (create_request u auth PROJECT_KEY) issues)" by blast
  with a set_mono_prefix [of reqs "map (create_request u auth PROJECT_KEY) issues"]
  show ?thesis by auto
qed

lemma requests_subset_v2:
  "r \<in> set (requests (snd (create_all_v2 codec net u auth n j issues st))) \<Longrightarrow>
   r \<in> set (requests st) \<or> r \<in> create_request_v2 u auth PROJECT_KEY ` set issues"
proof -
  assume a: "r \<in> set (requests (snd (create_all_v2 codec net u auth n j issues st)))"
  from create_all_v2_prefix [of codec net u auth n j issues st] obtain reqs where
    "requests (snd (create_all_v2 codec net u auth n j issues st)) = requests st @ reqs"
    "prefix reqs (map (create_request_v2 u auth PROJECT_KEY) issues)" by blast
  with a set_mono_prefix [of reqs "map (create_request_v2 u auth PROJECT_KEY) issues"]
  show ?thesis by auto
qed

lemma main_request_urls:
  "r \<in> set (requests (snd (main codec environ issues net))) \<Longrightarrow>
   req_url r = rstrip_slash (env_value environ (lit ''JIRA_URL'')) @ lit ''/rest/api/3/issue''"
proof (cases rule: main_cases [of environ codec issues net])
  case missing
  assume "r \<in> set (requests (snd (main codec environ issues net)))"
  with missing show ?thesis by (simp add: init_def)
next
  case (no_header e)
  assume "r \<in> set (requests (snd (main codec environ issues net)))"
  with no_header show ?thesis by (simp add: init_def)
next
  case (banner_raised auth st)
  assume "r \<in> set (requests (snd (main codec environ issues net)))"
  with banner_raised show ?thesis by simp
next
  case (batch_raised auth st0 e st')
  assume "r \<in> set (requests (snd (main codec environ issues net)))"
  with batch_raised
    requests_subset_v1 [of r codec net "rstrip_slash (env_value environ (lit ''JIRA_URL''))"
      auth issues st0]
  show ?thesis by (auto simp add: create_request_def)
next
  case (batch_done auth st0 st')
  assume "r \<in> set (requests (snd (main codec environ issues net)))"
  with batch_done
    requests_subset_v1 [of r codec net "rstrip_slash (env_value environ (lit ''JIRA_URL''))"
      auth issues st0]
  show ?thesis by (auto simp add: create_request_def report_state)
qed

lemma main_browse_lines:
  "k \<in> set (created (snd (main codec environ issues net))) \<Longrightarrow>
   lit ''    URL: '' @ rstrip_slash (env_value environ (lit ''JIRA_URL'')) @ lit ''/browse/'' @ py_str k
     \<in> set (stdout (snd (main codec environ issues net)))
   \<and> ((\<forall>e. fst (main codec environ issues net) \<noteq> Uncaught e) \<longrightarrow>
      lit ''  - '' @ rstrip_slash (env_value environ (lit ''JIRA_URL'')) @ lit ''/browse/'' @ py_str k
     \<in> set (stdout (snd (main codec environ issues net))))"
proof (cases rule: main_cases [of environ codec issues net])
  case missing
  assume "k \<in> set (created (snd (main codec environ issues net)))"
  with missing show ?thesis by (simp add: init_def)
next
  case (no_header e)
  assume "k \<in> set (created (snd (main codec environ issues net)))"
  with no_header show ?thesis by (simp add: init_def)
next
  case (banner_raised auth st)
  assume "k \<in> set (created (snd (main codec environ issues net)))"
  with banner_raised show ?thesis by simp
next
  case (batch_raised auth st0 e st')
  assume "k \<in> set (created (snd (main codec environ issues net)))"
  with batch_raised
    create_all_stdout [of st0 codec net "rstrip_slash (env_value environ (lit ''JIRA_URL''))"
      auth issues]
  show ?thesis by auto
next
  case (batch_done auth st0 st')
  let ?base = "rstrip_slash (env_value environ (lit ''JIRA_URL''))"
  assume "k \<in> set (created (snd (main codec environ issues net)))"
  with batch_done have k: "k \<in> set (created st')" by (simp add: report_state)
  with batch_done create_all_stdout [of st0 codec net ?base auth issues]
  have "lit ''    URL: '' @ ?base @ lit ''/browse/'' @ py_str k \<in> set (stdout st')" by auto
  with report_stdout(1) [of st' codec ?base]
  have 1: "lit ''    URL: '' @ ?base @ lit ''/browse/'' @ py_str k
     \<in> set (stdout (snd (report codec ?base st')))" by blast
  from report_browse [OF k, of codec ?base]
  have 2: "(\<forall>e. fst (report codec ?base st') \<noteq> Uncaught e) \<longrightarrow>
     lit ''  - '' @ ?base @ lit ''/browse/'' @ py_str k
     \<in> set (stdout (snd (report codec ?base st')))" by blast
  from 1 2 show ?thesis unfolding batch_done(9) by blast
qed

lemma main_v2_request_urls:
  "r \<in> set (requests (snd (main_v2 codec environ issues net))) \<Longrightarrow>
   req_url r = rstrip_slash (env_value environ (lit ''JIRA_URL'')) @ lit ''/rest/api/2/issue''
   \<or> req_url r = rstrip_slash (env_value environ (lit ''JIRA_URL''))
        @ lit ''/rest/api/2/project/'' @ PROJECT_KEY"
proof (cases rule: main_v2_cases [of environ codec issues net])
  case missing
  assume "r \<in> set (requests (snd (main_v2 codec environ issues net)))"
  with missing show ?thesis by (simp add: init_def)
next
  case (no_header e)
  assume "r \<in> set (requests (snd (main_v2 codec environ issues net)))"
  with no_header show ?thesis by (simp add: init_def)
next
  case (banner_raised auth st)
  assume "r \<in> set (requests (snd (main_v2 codec environ issues net)))"
  with banner_raised show ?thesis by simp
next
  case (probe_raised auth e st1)
  assume "r \<in> set (requests (snd (main_v2 codec environ issues net)))"
  with probe_raised show ?thesis by (simp add: probe_request_def)
next
  case (not_found auth st1)
  assume "r \<in> set (requests (snd (main_v2 codec environ issues net)))"
  with not_found show ?thesis by (simp add: probe_request_def)
next
  case (found_raised auth st1)
  assume "r \<in> set (requests (snd (main_v2 codec environ issues net)))"
  with found_raised show ?thesis by (simp add: probe_request_def)
next
  case (batch_raised auth st0 e st')
  assume "r \<in> set (requests (snd (main_v2 codec environ issues net)))"
  with batch_raised
    requests_subset_v2 [of r codec net "rstrip_slash (env_value environ (lit ''JIRA_URL''))" auth
      "length issues" 1 issues st0]
  show ?thesis by (auto simp add: create_request_v2_def probe_request_def)
next
  case (batch_done auth st0 st')
  assume "r \<in> set (requests (snd (main_v2 codec environ issues net)))"
  with batch_done
    requests_subset_v2 [of r codec net "rstrip_slash (env_value environ (lit ''JIRA_URL''))" auth
      "length issues" 1 issues st0]
  show ?thesis by (auto simp add: create_request_v2_def probe_request_def report_v2_state)
qed

lemma main_v2_browse_urls:
  "item \<in> set (created (snd (main_v2 codec environ issues net))) \<Longrightarrow>
   item_url item = rstrip_slash (env_value environ (lit ''JIRA_URL''))
      @ lit ''/browse/'' @ py_str (item_key item)"
proof (cases rule: main_v2_cases [of environ codec issues net])
  case missing
  assume "item \<in> set (created (snd (main_v2 codec environ issues net)))"
  with missing show ?thesis by (simp add: init_def)
next
  case (no_header e)
  assume "item \<in> set (created (snd (main_v2 codec environ issues net)))"
  with no_header show ?thesis by (simp add: init_def)
next
  case (banner_raised auth st)
  assume "item \<in> set (created (snd (main_v2 codec environ issues net)))"
  with banner_raised show ?thesis by simp
next
  case (probe_raised auth e st1)
  assume "item \<in> set (created (snd (main_v2 codec environ issues net)))"
  with probe_raised show ?thesis by simp
next
  case (not_found auth st1)
  assume "item \<in> set (created (snd (main_v2 codec environ issues net)))"
  with not_found show ?thesis by simp
next
  case (found_raised auth st1)
  assume "item \<in> set (created (snd (main_v2 codec environ issues net)))"
  with found_raised show ?thesis by simp
next
  case (batch_raised auth st0 e st')
  assume "item \<in> set (created (snd (main_v2 codec environ issues net)))"
  with batch_raised
    create_all_v2_urls [of codec net "rstrip_slash (env_value environ (lit ''JIRA_URL''))" auth
      "length issues" 1 issues st0]
  show ?thesis by auto
next
  case (batch_done auth st0 st')
  assume "item \<in> set (created (snd (main_v2 codec environ issues net)))"
  with batch_done
    create_all_v2_urls [of codec net "rstrip_slash (env_value environ (lit ''JIRA_URL''))" auth
      "length issues" 1 issues st0]
  show ?thesis by (auto simp add: report_v2_state)
qed

text \<open>
  C8. Let \<open>base\<close> be the configured base URL after \<^verbatim>\<open>rstrip("/")\<close>: it is the configured
  value without its trailing slashes and does not end in a slash. Every request either
  script sends has the URL \<open>base\<close> followed by \<^verbatim>\<open>/rest/api/3/issue\<close>,
  \<^verbatim>\<open>/rest/api/2/issue\<close> or \<^verbatim>\<open>/rest/api/2/project/BB\<close>, and every browse URL (printed by the
  first script, stored and printed by the second) is \<open>base\<close> followed by \<^verbatim>\<open>/browse/\<close> and
  the key; in each the path follows \<open>base\<close> after exactly one slash.
\<close>

theorem base_url_is_stripped:
  assumes "base = rstrip_slash (env_value environ (lit ''JIRA_URL''))"
  shows "(\<exists>n. env_value environ (lit ''JIRA_URL'') = base @ replicate n 47)
     \<and> (base = [] \<or> last base \<noteq> 47)
     \<and> (\<forall>r \<in> set (requests (snd (main codec environ issues net))).
          req_url r = base @ lit ''/rest/api/3/issue'' \<and> joined base (req_url r))
     \<and> (\<forall>k \<in> set (created (snd (main codec environ issues net))).
          joined base (base @ lit ''/browse/'' @ py_str k)
          \<and> lit ''    URL: '' @ base @ lit ''/browse/'' @ py_str k
               \<in> set (stdout (snd (main codec environ issues net)))
          \<and> ((\<forall>e. fst (main codec environ issues net) \<noteq> Uncaught e) \<longrightarrow>
               lit ''  - '' @ base @ lit ''/browse/'' @ py_str k
                 \<in> set (stdout (snd (main codec environ issues net)))))
     \<and> (\<forall>r \<in> set (requests (snd (main_v2 codec environ issues net))).
          (req_url r = base @ lit ''/rest/api/2/issue''
           \<or> req_url r = base @ lit ''/rest/api/2/project/'' @ PROJECT_KEY)
          \<and> joined base (req_url r))
     \<and> (\<forall>item \<in> set (created (snd (main_v2 codec environ issues net))).
          item_url item = base @ lit ''/browse/'' @ py_str (item_key item)
          \<and> joined base (item_url item))"
proof -
  have l: "base = [] \<or> last base \<noteq> 47"
    unfolding assms by (rule rstrip_slash_last)
  have d: "\<exists>n. env_value environ (lit ''JIRA_URL'') = base @ replicate n 47"
    unfolding assms by (rule rstrip_slash_decomp)
  have 1: "\<forall>r \<in> set (requests (snd (main codec environ issues net))).
          req_url r = base @ lit ''/rest/api/3/issue'' \<and> joined base (req_url r)"
    using main_request_urls [of _ codec environ issues net] joined_rest(1) [OF l]
    unfolding assms by simp
  have 2: "\<forall>k \<in> set (created (snd (main codec environ issues net))).
          joined base (base @ lit ''/browse/'' @ py_str k)
          \<and> lit ''    URL: '' @ base @ lit ''/browse/'' @ py_str k
               \<in> set (stdout (snd (main codec environ issues net)))
          \<and> ((\<forall>e. fst (main codec environ issues net) \<noteq> Uncaught e) \<longrightarrow>
               lit ''  - '' @ base @ lit ''/browse/'' @ py_str k
                 \<in> set (stdout (snd (main codec environ issues net))))"
    using main_browse_lines [of _ codec environ issues net] joined_rest(4) [OF l]
    unfolding assms by simp
  have 3: "\<forall>r \<in> set (requests (snd (main_v2 codec environ issues net))).
          (req_url r = base @ lit ''/rest/api/2/issue''
           \<or> req_url r = base @ lit ''/rest/api/2/project/'' @ PROJECT_KEY)
          \<and> joined base (req_url r)"
  proof
    fix r
    assume r: "r \<in> set (requests (snd (main_v2 codec environ issues net)))"
    from main_v2_request_urls [OF r]
    have u: "req_url r = base @ lit ''/rest/api/2/issue''
           \<or> req_url r = base @ lit ''/rest/api/2/project/'' @ PROJECT_KEY"
      unfolding assms .
    then have "joined base (req_url r)"
      using joined_rest(2) [OF l] joined_rest(3) [OF l, of PROJECT_KEY] by metis
    with u show "(req_url r = base @ lit ''/rest/api/2/issue''
           \<or> req_url r = base @ lit ''/rest/api/2/project/'' @ PROJECT_KEY)
          \<and> joined base (req_url r)" by blast
  qed
  have 4: "\<forall>item \<in> set (created (snd (main_v2 codec environ issues net))).
          item_url item = base @ lit ''/browse/'' @ py_str (item_key item)
          \<and> joined base (item_url item)"
    using main_v2_browse_urls [of _ codec environ issues net] joined_rest(4) [OF l]
    unfolding assms by simp
  from l d 1 2 3 4 show ?thesis by blast
qed

theorem base_url_is_stripped_witness:
  "sample_url = rstrip_slash (env_value sample_environ (lit ''JIRA_URL''))
   \<and> env_value sample_environ (lit ''JIRA_URL'') = lit ''https://x.atlassian.net/''
   \<and> map req_url (requests (snd (main utf8_stdout sample_environ [sample_issue]
        (\<lambda>h. created_reply))))
       = [lit ''https://x.atlassian.net/rest/api/3/issue'']
   \<and> joined sample_url (lit ''https://x.atlassian.net/rest/api/3/issue'')
   \<and> map req_url (requests (snd (main_v2 utf8_stdout sample_environ [sample_issue]
        (\<lambda>h. created_reply))))
       = [lit ''https://x.atlassian.net/rest/api/2/project/BB'',
          lit ''https://x.atlassian.net/rest/api/2/issue'']
   \<and> map item_url (created (snd (main_v2 utf8_stdout sample_environ [sample_issue]
        (\<lambda>h. created_reply))))
       = [lit ''https://x.atlassian.net/browse/BB-7'']
   \<and> joined sample_url (lit ''https://x.atlassian.net/browse/BB-7'')"
proof -
  have b: "sample_url = rstrip_slash (env_value sample_environ (lit ''JIRA_URL''))"
    using sample_values sample_base by simp
  have a: "get_auth_header (env_value sample_environ (lit ''JIRA_EMAIL''))
        (env_value sample_environ (lit ''JIRA_API_TOKEN'')) = Inr sample_auth"
    using sample_header sample_values by simp
  have pb: "printable utf8_stdout (rstrip_slash (env_value sample_environ (lit ''JIRA_URL'')))"
    unfolding b [symmetric] by (simp add: sample_url_def)
  have c: "fst (check_project_exists (\<lambda>h. created_reply) []
        (rstrip_slash (env_value sample_environ (lit ''JIRA_URL''))) sample_auth PROJECT_KEY)
      = Inr True"
    by (simp add: check_project_exists_eq created_reply_def)
  have mark: "printable utf8_stdout [0x2713]"
    by (simp add: utf8_stdout_marks)
  have s: "list_all (\<lambda>issue. printable utf8_stdout (summary issue)) [sample_issue]"
    by (simp add: sample_issue_def)
  have q1: "list_all2
      (attempt_proceeds utf8_stdout (rstrip_slash (env_value sample_environ (lit ''JIRA_URL''))))
      [sample_issue] (map try_create (replies (\<lambda>h. created_reply) []
         (map (create_request (rstrip_slash (env_value sample_environ (lit ''JIRA_URL'')))
            sample_auth PROJECT_KEY) [sample_issue])))"
    unfolding b [symmetric] using proceeds_constant(1) [OF s]
    by (simp add: try_create_created_reply)
  have q2: "list_all2 (attempt_proceeds_v2 utf8_stdout) [sample_issue]
      (map try_create (replies (\<lambda>h. created_reply)
         [probe_request (rstrip_slash (env_value sample_environ (lit ''JIRA_URL'')))
            sample_auth PROJECT_KEY]
         (map (create_request_v2 (rstrip_slash (env_value sample_environ (lit ''JIRA_URL'')))
            sample_auth PROJECT_KEY) [sample_issue])))"
    using proceeds_constant(3) [OF s]
    by (simp add: try_create_created_reply)
  have r1: "requests (snd (main utf8_stdout sample_environ [sample_issue] (\<lambda>h. created_reply)))
       = [create_request sample_url sample_auth PROJECT_KEY sample_issue]"
    using main_completes [OF sample_missing a pb q1] b
    by (simp add: try_create_created_reply)
  have v2: "requests (snd (main_v2 utf8_stdout sample_environ [sample_issue]
         (\<lambda>h. created_reply)))
       = [probe_request sample_url sample_auth PROJECT_KEY,
          create_request_v2 sample_url sample_auth PROJECT_KEY sample_issue]
     \<and> created (snd (main_v2 utf8_stdout sample_environ [sample_issue] (\<lambda>h. created_reply)))
       = [\<lparr>item_key = PStr (lit ''BB-7''), item_summary = summary sample_issue,
           item_url = sample_url @ lit ''/browse/'' @ lit ''BB-7''\<rparr>]"
    using main_v2_completes [OF sample_missing a c pb mark q2] b
    by (simp add: try_create_created_reply)
  from v2 have r2: "requests (snd (main_v2 utf8_stdout sample_environ [sample_issue]
         (\<lambda>h. created_reply)))
       = [probe_request sample_url sample_auth PROJECT_KEY,
          create_request_v2 sample_url sample_auth PROJECT_KEY sample_issue]"
    and c2: "created (snd (main_v2 utf8_stdout sample_environ [sample_issue]
         (\<lambda>h. created_reply)))
       = [\<lparr>item_key = PStr (lit ''BB-7''), item_summary = summary sample_issue,
           item_url = sample_url @ lit ''/browse/'' @ lit ''BB-7''\<rparr>]"
    by blast+
  from base_url_is_stripped [OF b, of utf8_stdout "[sample_issue]" "\<lambda>h. created_reply"] b
  show ?thesis
    unfolding r1 r2 c2 using sample_values(1)
    by (simp add: create_request_def create_request_v2_def probe_request_def sample_url_def
          PROJECT_KEY_def)
qed

section \<open>Exceptions that leave the wrapping\<close>

text \<open>
  C6, as stated, fails: with the configuration present, a response to the create request
  whose body is not JSON (here an HTML page) makes \<^verbatim>\<open>json.loads\<close> raise inside
  \<^verbatim>\<open>create_issue\<close>; no handler catches the exception, and the run ends with it before the
  summary is printed. So does a run in which the response is well formed but carries a key
  the standard output cannot encode (a lone surrogate on a UTF-8 terminal): the \<^verbatim>\<open>print\<close>
  of the key raises \<^verbatim>\<open>UnicodeEncodeError\<close>.
\<close>

theorem invalid_json_ends_run:
  "fst (main utf8_stdout sample_environ [sample_issue] (\<lambda>h. html_reply))
     = Uncaught JSONDecodeError
   \<and> \<not> summary_printed (stdout (snd (main utf8_stdout sample_environ [sample_issue]
          (\<lambda>h. html_reply))))
   \<and> fst (main utf8_stdout sample_environ [sample_issue] (\<lambda>h. surrogate_key_reply))
     = Uncaught UnicodeEncodeError
   \<and> \<not> summary_printed (stdout (snd (main utf8_stdout sample_environ [sample_issue]
          (\<lambda>h. surrogate_key_reply))))"
  using sample_header sample_missing sample_values sample_base rule_no_summary(1) [of 9]
  by (simp add: main_def Let_def prints_cases create_all.simps(2) print_def create_issue_eq
        try_create_def json_loads_def read_decode_def html_reply_def surrogate_key_reply_def
        init_fields summary_printed_def utf8_stdout_def surrogate_def sample_url_def
        sample_issue_def)


lemma not_handled_stops:
  "\<not> list_all handled (replies net log (map f issues)) \<Longrightarrow>
   \<not> list_all2 (attempt_proceeds codec u) issues
         (map try_create (replies net log (map f issues)))"
  "\<not> list_all handled (replies net log (map f issues)) \<Longrightarrow>
   \<not> list_all2 (attempt_proceeds_v2 codec) issues
         (map try_create (replies net log (map f issues)))"
  using proceeds_handled [of codec u issues net log f]
    proceeds_v2_handled [of codec issues net log f]
  by blast+

lemma main_stops_unhandled:
  assumes "missing_vars environ = []"
    and "get_auth_header (env_value environ (lit ''JIRA_EMAIL''))
           (env_value environ (lit ''JIRA_API_TOKEN'')) = Inr auth"
    and "\<not> list_all handled (replies net []
             (map (create_request (rstrip_slash (env_value environ (lit ''JIRA_URL'')))
                    auth PROJECT_KEY) issues))
       \<or> \<not> printable codec (rstrip_slash (env_value environ (lit ''JIRA_URL'')))
       \<or> \<not> list_all2
           (attempt_proceeds codec (rstrip_slash (env_value environ (lit ''JIRA_URL''))))
           issues (map try_create (replies net []
             (map (create_request (rstrip_slash (env_value environ (lit ''JIRA_URL'')))
                    auth PROJECT_KEY) issues)))"
  shows "(\<exists>e. fst (main codec environ issues net) = Uncaught e)
     \<and> \<not> summary_printed (stdout (snd (main codec environ issues net)))"
proof -
  from assms(3) not_handled_stops(1)
  have "\<not> printable codec (rstrip_slash (env_value environ (lit ''JIRA_URL'')))
       \<or> \<not> list_all2
           (attempt_proceeds codec (rstrip_slash (env_value environ (lit ''JIRA_URL''))))
           issues (map try_create (replies net []
             (map (create_request (rstrip_slash (env_value environ (lit ''JIRA_URL'')))
                    auth PROJECT_KEY) issues)))"
    by blast
  then show ?thesis by (rule main_stops [OF assms(1,2)])
qed

lemma main_v2_stops_unhandled:
  assumes "missing_vars environ = []"
    and "get_auth_header (env_value environ (lit ''JIRA_EMAIL''))
           (env_value environ (lit ''JIRA_API_TOKEN'')) = Inr auth"
    and "\<not> printable codec (rstrip_slash (env_value environ (lit ''JIRA_URL'')))
       \<or> (\<exists>name. net [probe_request
             (rstrip_slash (env_value environ (lit ''JIRA_URL''))) auth PROJECT_KEY]
               = Raises name)
       \<or> (fst (check_project_exists net []
                 (rstrip_slash (env_value environ (lit ''JIRA_URL''))) auth PROJECT_KEY) = Inr True
          \<and> (\<not> printable codec [0x2713]
             \<or> \<not> list_all handled (replies net
                   [probe_request (rstrip_slash (env_value environ (lit ''JIRA_URL''))) auth
                      PROJECT_KEY]
                   (map (create_request_v2 (rstrip_slash (env_value environ (lit ''JIRA_URL'')))
                      auth PROJECT_KEY) issues))
             \<or> \<not> list_all2 (attempt_proceeds_v2 codec) issues (map try_create (replies net
                   [probe_request (rstrip_slash (env_value environ (lit ''JIRA_URL''))) auth
                      PROJECT_KEY]
                   (map (create_request_v2 (rstrip_slash (env_value environ (lit ''JIRA_URL'')))
                      auth PROJECT_KEY) issues)))))"
  shows "(\<exists>e. fst (main_v2 codec environ issues net) = Uncaught e)
     \<and> \<not> summary_printed_v2 (stdout (snd (main_v2 codec environ issues net)))"
proof -
  let ?base = "rstrip_slash (env_value environ (lit ''JIRA_URL''))"
  have p: "\<exists>name. net [probe_request ?base auth PROJECT_KEY] = Raises name \<Longrightarrow>
      \<exists>e. fst (check_project_exists net [] ?base auth PROJECT_KEY) = Inl e"
    by (auto simp add: check_project_exists_eq)
  from assms(3) p not_handled_stops(2)
  have "\<not> printable codec ?base
       \<or> (\<exists>e. fst (check_project_exists net [] ?base auth PROJECT_KEY) = Inl e)
       \<or> (fst (check_project_exists net [] ?base auth PROJECT_KEY) = Inr True
          \<and> (\<not> printable codec [0x2713]
             \<or> \<not> list_all2 (attempt_proceeds_v2 codec) issues (map try_create (replies net
                   [probe_request ?base auth PROJECT_KEY]
                   (map (create_request_v2 ?base auth PROJECT_KEY) issues)))))"
    by blast
  then show ?thesis by (rule main_v2_stops [OF assms(1,2)])
qed

text \<open>
  C6, amended. \<^verbatim>\<open>create_issue\<close> (both scripts) returns a result exactly on the replies
  singled out by \<open>handled\<close>: a response whose body is a JSON object holding \<^verbatim>\<open>key\<close> and
  \<^verbatim>\<open>id\<close>, an HTTP error whose body is readable text, and a \<^verbatim>\<open>URLError\<close>; on every other
  reply (a response whose body is unreadable, is not JSON, is no object or lacks
  \<^verbatim>\<open>key\<close> or \<^verbatim>\<open>id\<close>; an HTTP error with an unreadable body; another exception) an
  exception leaves it. \<^verbatim>\<open>check_project_exists\<close> returns a boolean on every response and
  every HTTP error; an exception of \<^verbatim>\<open>urlopen\<close> that is neither an \<^verbatim>\<open>HTTPError\<close> nor a
  \<^verbatim>\<open>URLError\<close> leaves it (what it does on a \<^verbatim>\<open>URLError\<close> is the subject of C5).
  A \<^verbatim>\<open>print\<close> raises when the standard output cannot encode its text.

  With the configuration present and the authorization header built, the first script
  ends by returning or by \<^verbatim>\<open>sys.exit(1)\<close>, having attempted every issue and printed the
  summary, when the base URL can be printed, every attempt proceeds (\<^verbatim>\<open>create_issue\<close>
  returns a result and the lines of the attempt can be printed) and the summaries of the
  failed templates can be printed. When a create request gets a reply that is not handled,
  or the base URL or a line of an attempt cannot be printed, the run ends with an
  exception, and the summary has not been printed.

  The second script, when the probe is answered by a response, the base URL and the check
  mark can be printed, every attempt proceeds and the summaries of the failed templates
  can be printed, ends by returning or by \<^verbatim>\<open>sys.exit(1)\<close>, having sent the probe and
  attempted every issue, and having printed the summary. When the probe is answered by an
  HTTP error and the base URL can be printed, the run ends by \<^verbatim>\<open>sys.exit(1)\<close> after the
  probe alone: no issue is attempted and no summary printed. When the base URL cannot be
  printed, or \<^verbatim>\<open>urlopen\<close> raises such an exception on the probe, or the project is found and then the check
  mark or a line of an attempt cannot be printed or a create request gets a reply that is
  not handled, the run ends with an exception, and the summary has not been printed.
\<close>

theorem run_completes_on_handled_replies:
  "((\<exists>res. fst (create_issue net log u h k issue) = Inr res)
      \<longleftrightarrow> handled (net (log @ [create_request u h k issue])))
   \<and> ((\<exists>res. fst (create_issue_v2 net log u h k issue) = Inr res)
      \<longleftrightarrow> handled (net (log @ [create_request_v2 u h k issue])))
   \<and> (probe_handled (net (log @ [probe_request u h k]))
      \<longrightarrow> (\<exists>found. fst (check_project_exists net log u h k) = Inr found))
   \<and> (net (log @ [probe_request u h k]) = Raises name
      \<longrightarrow> fst (check_project_exists net log u h k) = Inl (OtherException name))
   \<and> (missing_vars environ = []
      \<and> get_auth_header (env_value environ (lit ''JIRA_EMAIL''))
           (env_value environ (lit ''JIRA_API_TOKEN'')) = Inr auth
      \<and> printable codec (rstrip_slash (env_value environ (lit ''JIRA_URL'')))
      \<and> list_all2 (attempt_proceeds codec (rstrip_slash (env_value environ (lit ''JIRA_URL''))))
           issues (map try_create (replies net []
             (map (create_request (rstrip_slash (env_value environ (lit ''JIRA_URL'')))
                    auth PROJECT_KEY) issues)))
      \<and> list_all (printable codec) (failed_summaries issues (map try_create (replies net []
             (map (create_request (rstrip_slash (env_value environ (lit ''JIRA_URL'')))
                    auth PROJECT_KEY) issues))))
      \<longrightarrow> (fst (main codec environ issues net) = Returned
            \<or> fst (main codec environ issues net) = SysExit 1)
        \<and> requests (snd (main codec environ issues net))
            = map (create_request (rstrip_slash (env_value environ (lit ''JIRA_URL''))) auth
                     PROJECT_KEY) issues
        \<and> lit ''Summary: '' @ str_nat (length (created (snd (main codec environ issues net))))
             @ lit '' created, ''
             @ str_nat (length (failed (snd (main codec environ issues net))))
             @ lit '' failed'' \<in> set (stdout (snd (main codec environ issues net))))
   \<and> (missing_vars environ = []
      \<and> get_auth_header (env_value environ (lit ''JIRA_EMAIL''))
           (env_value environ (lit ''JIRA_API_TOKEN'')) = Inr auth
      \<and> (\<not> list_all handled (replies net []
             (map (create_request (rstrip_slash (env_value environ (lit ''JIRA_URL'')))
                    auth PROJECT_KEY) issues))
         \<or> \<not> printable codec (rstrip_slash (env_value environ (lit ''JIRA_URL'')))
         \<or> \<not> list_all2
             (attempt_proceeds codec (rstrip_slash (env_value environ (lit ''JIRA_URL''))))
             issues (map try_create (replies net []
               (map (create_request (rstrip_slash (env_value environ (lit ''JIRA_URL'')))
                      auth PROJECT_KEY) issues))))
      \<longrightarrow> (\<exists>e. fst (main codec environ issues net) = Uncaught e)
        \<and> \<not> summary_printed (stdout (snd (main codec environ issues net))))
   \<and> (missing_vars environ = []
      \<and> get_auth_header (env_value environ (lit ''JIRA_EMAIL''))
           (env_value environ (lit ''JIRA_API_TOKEN'')) = Inr auth
      \<and> fst (check_project_exists net [] (rstrip_slash (env_value environ (lit ''JIRA_URL'')))
              auth PROJECT_KEY) = Inr True
      \<and> printable codec (rstrip_slash (env_value environ (lit ''JIRA_URL'')))
      \<and> printable codec [0x2713]
      \<and> list_all2 (attempt_proceeds_v2 codec) issues (map try_create (replies net
           [probe_request (rstrip_slash (env_value environ (lit ''JIRA_URL''))) auth PROJECT_KEY]
           (map (create_request_v2 (rstrip_slash (env_value environ (lit ''JIRA_URL'')))
                  auth PROJECT_KEY) issues)))
      \<and> list_all (printable codec) (failed_summaries issues (map try_create (replies net
           [probe_request (rstrip_slash (env_value environ (lit ''JIRA_URL''))) auth PROJECT_KEY]
           (map (create_request_v2 (rstrip_slash (env_value environ (lit ''JIRA_URL'')))
                  auth PROJECT_KEY) issues))))
      \<longrightarrow> (fst (main_v2 codec environ issues net) = Returned
            \<or> fst (main_v2 codec environ issues net) = SysExit 1)
        \<and> requests (snd (main_v2 codec environ issues net))
            = probe_request (rstrip_slash (env_value environ (lit ''JIRA_URL''))) auth
                PROJECT_KEY
              # map (create_request_v2 (rstrip_slash (env_value environ (lit ''JIRA_URL'')))
                  auth PROJECT_KEY) issues
        \<and> lit ''SUMMARY'' \<in> set (stdout (snd (main_v2 codec environ issues net))))
   \<and> (missing_vars environ = []
      \<and> get_auth_header (env_value environ (lit ''JIRA_EMAIL''))
           (env_value environ (lit ''JIRA_API_TOKEN'')) = Inr auth
      \<and> fst (check_project_exists net [] (rstrip_slash (env_value environ (lit ''JIRA_URL'')))
              auth PROJECT_KEY) = Inr False
      \<and> printable codec (rstrip_slash (env_value environ (lit ''JIRA_URL'')))
      \<longrightarrow> fst (main_v2 codec environ issues net) = SysExit 1
        \<and> requests (snd (main_v2 codec environ issues net))
            = [probe_request (rstrip_slash (env_value environ (lit ''JIRA_URL''))) auth
                 PROJECT_KEY]
        \<and> created (snd (main_v2 codec environ issues net)) = []
        \<and> failed (snd (main_v2 codec environ issues net)) = []
        \<and> \<not> summary_printed_v2 (stdout (snd (main_v2 codec environ issues net))))
   \<and> (missing_vars environ = []
      \<and> get_auth_header (env_value environ (lit ''JIRA_EMAIL''))
           (env_value environ (lit ''JIRA_API_TOKEN'')) = Inr auth
      \<and> (\<not> printable codec (rstrip_slash (env_value environ (lit ''JIRA_URL'')))
         \<or> (\<exists>name. net [probe_request
               (rstrip_slash (env_value environ (lit ''JIRA_URL''))) auth PROJECT_KEY]
                 = Raises name)
         \<or> (fst (check_project_exists net []
                   (rstrip_slash (env_value environ (lit ''JIRA_URL''))) auth PROJECT_KEY)
               = Inr True
            \<and> (\<not> printable codec [0x2713]
               \<or> \<not> list_all handled (replies net
                     [probe_request (rstrip_slash (env_value environ (lit ''JIRA_URL''))) auth
                        PROJECT_KEY]
                     (map (create_request_v2
                        (rstrip_slash (env_value environ (lit ''JIRA_URL'')))
                        auth PROJECT_KEY) issues))
               \<or> \<not> list_all2 (attempt_proceeds_v2 codec) issues (map try_create (replies net
                     [probe_request (rstrip_slash (env_value environ (lit ''JIRA_URL''))) auth
                        PROJECT_KEY]
                     (map (create_request_v2
                        (rstrip_slash (env_value environ (lit ''JIRA_URL'')))
                        auth PROJECT_KEY) issues))))))
      \<longrightarrow> (\<exists>e. fst (main_v2 codec environ issues net) = Uncaught e)
        \<and> \<not> summary_printed_v2 (stdout (snd (main_v2 codec environ issues net))))"
proof (intro conjI)
  show "(\<exists>res. fst (create_issue net log u h k issue) = Inr res)
      \<longleftrightarrow> handled (net (log @ [create_request u h k issue]))"
    by (rule create_issue_returns_iff)
  show "(\<exists>res. fst (create_issue_v2 net log u h k issue) = Inr res)
      \<longleftrightarrow> handled (net (log @ [create_request_v2 u h k issue]))"
    by (rule create_issue_returns_iff)
  show "probe_handled (net (log @ [probe_request u h k]))
      \<longrightarrow> (\<exists>found. fst (check_project_exists net log u h k) = Inr found)"
    using probe_returns [of net log u h k] by blast
  show "net (log @ [probe_request u h k]) = Raises name
      \<longrightarrow> fst (check_project_exists net log u h k) = Inl (OtherException name)"
    by (simp add: check_project_exists_eq)
qed (use main_completes [of environ auth codec issues net]
      main_stops_unhandled [of environ auth net issues codec]
      main_v2_completes [of environ auth net codec issues]
      main_v2_not_found [of environ auth net codec issues]
      main_v2_stops_unhandled [of environ auth codec net issues] in blast)+


theorem run_completes_on_handled_replies_witness:
  "handled (second_fails ([] @ [create_request sample_url sample_auth PROJECT_KEY sample_issue]))
   \<and> fst (create_issue second_fails [] sample_url sample_auth PROJECT_KEY sample_issue)
       = Inr (Success (PStr (lit ''BB-7'')) (PStr (lit ''10007'')))
   \<and> probe_handled (second_fails ([] @ [probe_request sample_url sample_auth PROJECT_KEY]))
   \<and> fst (check_project_exists second_fails [] sample_url sample_auth PROJECT_KEY) = Inr True
   \<and> (\<lambda>h. disconnected_reply) ([] @ [probe_request sample_url sample_auth PROJECT_KEY])
       = Raises (lit ''RemoteDisconnected'')
   \<and> fst (check_project_exists (\<lambda>h. disconnected_reply) [] sample_url sample_auth PROJECT_KEY)
       = Inl (OtherException (lit ''RemoteDisconnected''))
   \<and> missing_vars sample_environ = []
   \<and> get_auth_header (env_value sample_environ (lit ''JIRA_EMAIL''))
        (env_value sample_environ (lit ''JIRA_API_TOKEN'')) = Inr sample_auth
   \<and> printable utf8_stdout (rstrip_slash (env_value sample_environ (lit ''JIRA_URL'')))
   \<and> printable utf8_stdout [0x2713]
   \<and> list_all2
        (attempt_proceeds utf8_stdout (rstrip_slash (env_value sample_environ (lit ''JIRA_URL''))))
        three_issues (map try_create (replies second_fails []
          (map (create_request (rstrip_slash (env_value sample_environ (lit ''JIRA_URL'')))
                 sample_auth PROJECT_KEY) three_issues)))
   \<and> fst (main utf8_stdout sample_environ three_issues second_fails) = SysExit 1
   \<and> length (requests (snd (main utf8_stdout sample_environ three_issues second_fails))) = 3
   \<and> \<not> list_all handled (replies second_undecodable []
          (map (create_request (rstrip_slash (env_value sample_environ (lit ''JIRA_URL'')))
                 sample_auth PROJECT_KEY) three_issues))
   \<and> exit_status (fst (main utf8_stdout sample_environ three_issues second_undecodable)) = 1
   \<and> \<not> summary_printed
          (stdout (snd (main utf8_stdout sample_environ three_issues second_undecodable)))
   \<and> list_all2 (attempt_proceeds_v2 utf8_stdout) three_issues
        (map try_create (replies second_fails
          [probe_request (rstrip_slash (env_value sample_environ (lit ''JIRA_URL''))) sample_auth
             PROJECT_KEY]
          (map (create_request_v2 (rstrip_slash (env_value sample_environ (lit ''JIRA_URL'')))
                 sample_auth PROJECT_KEY) three_issues)))
   \<and> fst (main_v2 utf8_stdout sample_environ three_issues second_fails) = SysExit 1
   \<and> length (requests (snd (main_v2 utf8_stdout sample_environ three_issues second_fails))) = 4
   \<and> fst (check_project_exists (\<lambda>h. not_found_reply) []
          (rstrip_slash (env_value sample_environ (lit ''JIRA_URL''))) sample_auth PROJECT_KEY)
       = Inr False
   \<and> fst (main_v2 utf8_stdout sample_environ three_issues (\<lambda>h. not_found_reply)) = SysExit 1
   \<and> length (requests (snd (main_v2 utf8_stdout sample_environ three_issues
          (\<lambda>h. not_found_reply)))) = 1
   \<and> \<not> list_all handled (replies second_undecodable
          [probe_request (rstrip_slash (env_value sample_environ (lit ''JIRA_URL''))) sample_auth
             PROJECT_KEY]
          (map (create_request_v2 (rstrip_slash (env_value sample_environ (lit ''JIRA_URL'')))
                 sample_auth PROJECT_KEY) three_issues))
   \<and> exit_status (fst (main_v2 utf8_stdout sample_environ three_issues second_undecodable)) = 1
   \<and> \<not> summary_printed_v2
          (stdout (snd (main_v2 utf8_stdout sample_environ three_issues second_undecodable)))"
proof -
  let ?base = "rstrip_slash (env_value sample_environ (lit ''JIRA_URL''))"
  let ?S = "Inr (Success (PStr (lit ''BB-7'')) (PStr (lit ''10007''))) :: exn + creation_result"
  let ?F = "Inr (Failure (str_nat 400 @ lit '': '' @ bad_request_text)) :: exn + creation_result"
  have h0: "handled (second_fails ([] @ [create_request sample_url sample_auth PROJECT_KEY sample_issue]))"
    by (simp add: second_fails_def created_reply_def sample_items_def)
  have c0: "fst (create_issue second_fails [] sample_url sample_auth PROJECT_KEY sample_issue)
       = Inr (Success (PStr (lit ''BB-7'')) (PStr (lit ''10007'')))"
    by (simp add: create_issue_eq second_fails_def created_reply_def sample_items_def
          try_create_success)
  have p0: "probe_handled (second_fails ([] @ [probe_request sample_url sample_auth PROJECT_KEY]))"
    by (simp add: second_fails_def created_reply_def)
  have p1: "fst (check_project_exists second_fails [] sample_url sample_auth PROJECT_KEY) = Inr True"
    by (simp add: check_project_exists_eq second_fails_def created_reply_def)
  have u0: "(\<lambda>h. disconnected_reply) ([] @ [probe_request sample_url sample_auth PROJECT_KEY])
       = Raises (lit ''RemoteDisconnected'')"
    by (simp add: disconnected_reply_def)
  note t4 = run_completes_on_handled_replies
         [where net = "\<lambda>h. disconnected_reply" and codec = utf8_stdout
            and environ = sample_environ
            and auth = sample_auth and issues = three_issues and log = "[]" and u = sample_url
            and h = sample_auth and k = PROJECT_KEY and issue = sample_issue
            and name = "lit ''RemoteDisconnected''"]
  from t4 u0
  have u1: "fst (check_project_exists (\<lambda>h. disconnected_reply) [] sample_url sample_auth
       PROJECT_KEY) = Inl (OtherException (lit ''RemoteDisconnected''))"
    by blast
  have a: "get_auth_header (env_value sample_environ (lit ''JIRA_EMAIL''))
        (env_value sample_environ (lit ''JIRA_API_TOKEN'')) = Inr sample_auth"
    using sample_header sample_values by simp
  have b: "?base = sample_url"
    using sample_base sample_values by simp
  have pb: "printable utf8_stdout ?base"
    unfolding b by (simp add: sample_url_def)
  have mark: "printable utf8_stdout [0x2713]"
    by (simp add: utf8_stdout_marks)
  have rs1: "map try_create (replies second_fails []
      (map (create_request ?base sample_auth PROJECT_KEY) three_issues)) = [?S, ?F, ?S]"
    by (simp add: second_fails_def three_issues_def created_reply_def bad_request_reply_def
          sample_items_def try_create_success try_create_http_error)
  have rs2: "map try_create (replies second_fails [probe_request ?base sample_auth PROJECT_KEY]
      (map (create_request_v2 ?base sample_auth PROJECT_KEY) three_issues)) = [?F, ?S, ?S]"
    by (simp add: second_fails_def three_issues_def created_reply_def bad_request_reply_def
          sample_items_def try_create_success try_create_http_error)
  have q1: "list_all2 (attempt_proceeds utf8_stdout ?base) three_issues
      (map try_create (replies second_fails []
         (map (create_request ?base sample_auth PROJECT_KEY) three_issues)))"
    unfolding rs1 unfolding b
    by (simp add: three_issues_def sample_issue_def second_issue_def sample_url_def
          bad_request_text_def utf8_stdout_marks)
  have q2: "list_all2 (attempt_proceeds_v2 utf8_stdout) three_issues
      (map try_create (replies second_fails [probe_request ?base sample_auth PROJECT_KEY]
         (map (create_request_v2 ?base sample_auth PROJECT_KEY) three_issues)))"
    unfolding rs2
    by (simp add: three_issues_def sample_issue_def second_issue_def summary_short_def
          bad_request_text_def utf8_stdout_marks printable_take)
  have f1: "list_all (printable utf8_stdout) (failed_summaries three_issues
      (map try_create (replies second_fails []
         (map (create_request ?base sample_auth PROJECT_KEY) three_issues))))"
    unfolding rs1 by (simp add: three_issues_def sample_issue_def second_issue_def)
  have f2: "list_all (printable utf8_stdout) (failed_summaries three_issues
      (map try_create (replies second_fails [probe_request ?base sample_auth PROJECT_KEY]
         (map (create_request_v2 ?base sample_auth PROJECT_KEY) three_issues))))"
    unfolding rs2 by (simp add: three_issues_def sample_issue_def second_issue_def)
  have c1: "fst (check_project_exists second_fails [] ?base sample_auth PROJECT_KEY) = Inr True"
    by (simp add: check_project_exists_eq second_fails_def created_reply_def)
  have three: "three_issues \<noteq> []" by (simp add: three_issues_def)
  have "failed (snd (main utf8_stdout sample_environ three_issues second_fails)) \<noteq> []"
    using main_completes [OF sample_missing a pb q1 f1] unfolding rs1
    by (simp add: three_issues_def)
  then have e1: "fst (main utf8_stdout sample_environ three_issues second_fails) \<noteq> Returned"
    using exit_status_any_list [OF three, of utf8_stdout sample_environ second_fails]
    by (auto simp add: all_created_def)
  have "failed (snd (main_v2 utf8_stdout sample_environ three_issues second_fails)) \<noteq> []"
    using main_v2_completes [OF sample_missing a c1 pb mark q2 f2] unfolding rs2
    by (simp add: three_issues_def)
  then have e2: "fst (main_v2 utf8_stdout sample_environ three_issues second_fails) \<noteq> Returned"
    using exit_status_any_list [OF three, of utf8_stdout sample_environ second_fails]
    by (auto simp add: all_created_def)
  have n1: "\<not> list_all handled (replies second_undecodable []
          (map (create_request ?base sample_auth PROJECT_KEY) three_issues))"
    by (simp add: second_undecodable_def three_issues_def undecodable_reply_def)
  have n2: "\<not> list_all handled (replies second_undecodable
          [probe_request ?base sample_auth PROJECT_KEY]
          (map (create_request_v2 ?base sample_auth PROJECT_KEY) three_issues))"
    by (simp add: second_undecodable_def three_issues_def undecodable_reply_def)
  have c2: "fst (check_project_exists second_undecodable [] ?base sample_auth PROJECT_KEY)
      = Inr True"
    by (simp add: check_project_exists_eq second_undecodable_def created_reply_def)
  have c3: "fst (check_project_exists (\<lambda>h. not_found_reply) [] ?base sample_auth PROJECT_KEY)
      = Inr False"
    by (simp add: check_project_exists_eq not_found_reply_def)
  note t1 = run_completes_on_handled_replies
         [where net = second_fails and codec = utf8_stdout and environ = sample_environ
            and auth = sample_auth and issues = three_issues and log = "[]" and u = sample_url
            and h = sample_auth and k = PROJECT_KEY and issue = sample_issue]
  note t2 = run_completes_on_handled_replies
         [where net = second_undecodable and codec = utf8_stdout and environ = sample_environ
            and auth = sample_auth and issues = three_issues and log = "[]" and u = sample_url
            and h = sample_auth and k = PROJECT_KEY and issue = sample_issue]
  note t3 = run_completes_on_handled_replies
         [where net = "\<lambda>h. not_found_reply" and codec = utf8_stdout
            and environ = sample_environ
            and auth = sample_auth and issues = three_issues and log = "[]" and u = sample_url
            and h = sample_auth and k = PROJECT_KEY and issue = sample_issue]
  from t1 sample_missing a pb q1 f1 have v1:
    "fst (main utf8_stdout sample_environ three_issues second_fails) = Returned
     \<or> fst (main utf8_stdout sample_environ three_issues second_fails) = SysExit 1"
    "requests (snd (main utf8_stdout sample_environ three_issues second_fails))
       = map (create_request ?base sample_auth PROJECT_KEY) three_issues"
    by blast+
  from t1 sample_missing a c1 pb mark q2 f2 have v2:
    "fst (main_v2 utf8_stdout sample_environ three_issues second_fails) = Returned
     \<or> fst (main_v2 utf8_stdout sample_environ three_issues second_fails) = SysExit 1"
    "requests (snd (main_v2 utf8_stdout sample_environ three_issues second_fails))
       = probe_request ?base sample_auth PROJECT_KEY
         # map (create_request_v2 ?base sample_auth PROJECT_KEY) three_issues"
    by blast+
  from t2 sample_missing a n1 have s1:
    "\<exists>e. fst (main utf8_stdout sample_environ three_issues second_undecodable) = Uncaught e"
    "\<not> summary_printed
        (stdout (snd (main utf8_stdout sample_environ three_issues second_undecodable)))"
    by blast+
  from t2 sample_missing a c2 n2 have s2:
    "\<exists>e. fst (main_v2 utf8_stdout sample_environ three_issues second_undecodable) = Uncaught e"
    "\<not> summary_printed_v2
        (stdout (snd (main_v2 utf8_stdout sample_environ three_issues second_undecodable)))"
    by blast+
  from t3 sample_missing a c3 pb have nf:
    "fst (main_v2 utf8_stdout sample_environ three_issues (\<lambda>h. not_found_reply)) = SysExit 1"
    "requests (snd (main_v2 utf8_stdout sample_environ three_issues (\<lambda>h. not_found_reply)))
       = [probe_request ?base sample_auth PROJECT_KEY]"
    by blast+
  have l1: "length (requests (snd (main utf8_stdout sample_environ three_issues second_fails)))
      = 3"
    unfolding v1(2) by (simp add: three_issues_def)
  have l2: "length (requests (snd (main_v2 utf8_stdout sample_environ three_issues
      second_fails))) = 4"
    unfolding v2(2) by (simp add: three_issues_def)
  have l3: "length (requests (snd (main_v2 utf8_stdout sample_environ three_issues
      (\<lambda>h. not_found_reply)))) = 1"
    unfolding nf(2) by simp
  from v1(1) e1 have x1: "fst (main utf8_stdout sample_environ three_issues second_fails)
      = SysExit 1" by blast
  from v2(1) e2 have x2: "fst (main_v2 utf8_stdout sample_environ three_issues second_fails)
      = SysExit 1" by blast
  from s1(1) have y1:
    "exit_status (fst (main utf8_stdout sample_environ three_issues second_undecodable)) = 1"
    by auto
  from s2(1) have y2:
    "exit_status (fst (main_v2 utf8_stdout sample_environ three_issues second_undecodable)) = 1"
    by auto
  from h0 c0 p0 p1 u0 u1 sample_missing a pb mark q1 x1 l1 n1 y1 s1(2) q2 x2 l2 c3 nf(1) l3
    n2 y2 s2(2)
  show ?thesis by blast
qed


section \<open>The authorization header\<close>

declare sextets.simps [simp del]

lemma length_bits_of [simp]: "length (bits_of k n) = k"
  by (induction k arbitrary: n) simp_all

lemma bits_of_add: "bits_of (j + k) n = bits_of j (n div 2 ^ k) @ bits_of k n"
proof (induction k arbitrary: n)
  case 0
  show ?case by simp
next
  case (Suc k)
  have "bits_of (j + Suc k) n = bits_of (j + k) (n div 2) @ [odd n]" by simp
  also have "\<dots> = bits_of j (n div 2 div 2 ^ k) @ bits_of k (n div 2) @ [odd n]"
    by (simp add: Suc.IH)
  also have "n div 2 div 2 ^ k = n div 2 ^ Suc k"
    by (simp add: div_mult2_eq)
  finally show ?case by simp
qed

lemma value_lsb_append: "value_lsb (xs @ ys) = value_lsb xs + 2 ^ length xs * value_lsb ys"
  by (induction xs) simp_all

lemma bits_value_append:
  "bits_value (xs @ ys) = bits_value xs * 2 ^ length ys + bits_value ys"
  by (simp add: bits_value_def value_lsb_append)

lemma bits_value_single [simp]: "bits_value [b] = (if b then 1 else 0)" "bits_value [] = 0"
  by (simp_all add: bits_value_def)

lemma bits_value_bits_of: "bits_value (bits_of k n) = n mod 2 ^ k"
proof (induction k arbitrary: n)
  case 0
  show ?case by simp
next
  case (Suc k)
  have "bits_value (bits_of (Suc k) n) = (n div 2 mod 2 ^ k) * 2 + (if odd n then 1 else 0)"
    by (simp add: bits_value_append Suc.IH)
  also have "\<dots> = n mod 2 ^ Suc k"
    by (simp add: mod_mult2_eq odd_iff_mod_2_eq_one)
  finally show ?case .
qed

lemma sextets_full: "length xs = 6 \<Longrightarrow> sextets (xs @ rest) = xs # sextets rest"
  by (subst sextets.simps) auto

lemma sextets_Nil [simp]: "sextets [] = []"
  by (subst sextets.simps) simp

lemma sextets_last:
  "xs \<noteq> [] \<Longrightarrow> length xs \<le> 6 \<Longrightarrow> sextets xs = [xs @ replicate (6 - length xs) False]"
  by (subst sextets.simps) (cases xs; simp)


lemma byte_split:
  "bits_of 8 n = bits_of 6 (n div 4) @ bits_of 2 n"
  "bits_of 8 n = bits_of 4 (n div 16) @ bits_of 4 n"
  "bits_of 8 n = bits_of 2 (n div 64) @ bits_of 6 n"
  using bits_of_add [of 6 2 n] bits_of_add [of 4 4 n] bits_of_add [of 2 6 n] by simp_all

lemma base64_standard_eq:
  "base64_standard raw
     = sextet_chars raw @ replicate ((4 - length (sextet_chars raw) mod 4) mod 4) 61"
  by (simp add: base64_standard_def sextet_chars_def Let_def)

lemma index_values:
  "bits_value (bits_of 6 (a div 4)) = a div 4 mod 64"
  "b < 256 \<Longrightarrow> bits_value (bits_of 2 a @ bits_of 4 (b div 16)) = (a mod 4 * 16 + b div 16) mod 64"
  "c < 256 \<Longrightarrow> bits_value (bits_of 4 b @ bits_of 2 (c div 64)) = (b mod 16 * 4 + c div 64) mod 64"
  "bits_value (bits_of 6 c) = c mod 64"
  "bits_value (bits_of 4 b @ replicate 2 False) = (b mod 16 * 4) mod 64"
  "bits_value (bits_of 2 a @ replicate 4 False) = (a mod 4 * 16) mod 64"
proof -
  show "bits_value (bits_of 6 (a div 4)) = a div 4 mod 64"
    by (simp add: bits_value_bits_of)
  show "bits_value (bits_of 6 c) = c mod 64"
    by (simp add: bits_value_bits_of)
  have z: "\<And>k. bits_value (replicate k False) = 0"
    by (simp add: bits_value_def) (induct_tac k; simp)
  have a4: "a mod 4 < 4" and b16: "b mod 16 < 16" by simp_all
  from b16 show "bits_value (bits_of 4 b @ replicate 2 False) = (b mod 16 * 4) mod 64"
    by (simp add: bits_value_append bits_value_bits_of z)
  from a4 show "bits_value (bits_of 2 a @ replicate 4 False) = (a mod 4 * 16) mod 64"
    by (simp add: bits_value_append bits_value_bits_of z)
  {
    assume "b < 256"
    then have "b div 16 < 16" by simp
    with a4 show "bits_value (bits_of 2 a @ bits_of 4 (b div 16)) = (a mod 4 * 16 + b div 16) mod 64"
      by (simp add: bits_value_append bits_value_bits_of)
  }
  {
    assume "c < 256"
    then have "c div 64 < 4" by simp
    with b16 show "bits_value (bits_of 4 b @ bits_of 2 (c div 64)) = (b mod 16 * 4 + c div 64) mod 64"
      by (simp add: bits_value_append bits_value_bits_of)
  }
qed

lemma sextets_full2:
  "length xs + length ys = 6 \<Longrightarrow> sextets (xs @ ys @ rest) = (xs @ ys) # sextets rest"
  using sextets_full [of "xs @ ys" rest] by simp

lemma sextets_three:
  "sextets (bits_of 8 a @ bits_of 8 b @ bits_of 8 c @ rest)
     = [bits_of 6 (a div 4), bits_of 2 a @ bits_of 4 (b div 16),
        bits_of 4 b @ bits_of 2 (c div 64), bits_of 6 c] @ sextets rest"
proof -
  have "sextets (bits_of 8 a @ bits_of 8 b @ bits_of 8 c @ rest)
      = sextets (bits_of 6 (a div 4) @ bits_of 2 a @ bits_of 4 (b div 16)
        @ bits_of 4 b @ bits_of 2 (c div 64) @ bits_of 6 c @ rest)"
    by (simp only: byte_split(1) [of a] byte_split(2) [of b] byte_split(3) [of c] append_assoc)
  also have "\<dots> = bits_of 6 (a div 4) # sextets (bits_of 2 a @ bits_of 4 (b div 16)
        @ bits_of 4 b @ bits_of 2 (c div 64) @ bits_of 6 c @ rest)"
    by (rule sextets_full) simp
  also have "sextets (bits_of 2 a @ bits_of 4 (b div 16)
        @ bits_of 4 b @ bits_of 2 (c div 64) @ bits_of 6 c @ rest)
      = (bits_of 2 a @ bits_of 4 (b div 16))
        # sextets (bits_of 4 b @ bits_of 2 (c div 64) @ bits_of 6 c @ rest)"
    by (rule sextets_full2) simp
  also have "sextets (bits_of 4 b @ bits_of 2 (c div 64) @ bits_of 6 c @ rest)
      = (bits_of 4 b @ bits_of 2 (c div 64)) # sextets (bits_of 6 c @ rest)"
    by (rule sextets_full2) simp
  also have "sextets (bits_of 6 c @ rest) = bits_of 6 c # sextets rest"
    by (rule sextets_full) simp
  finally show ?thesis by simp
qed

lemma bits_of_not_Nil: "0 < k \<Longrightarrow> bits_of k n \<noteq> []"
  by (cases k) simp_all

lemma sextets_two:
  "sextets (bits_of 8 a @ bits_of 8 b)
     = [bits_of 6 (a div 4), bits_of 2 a @ bits_of 4 (b div 16), bits_of 4 b @ replicate 2 False]"
proof -
  have "sextets (bits_of 8 a @ bits_of 8 b)
      = sextets (bits_of 6 (a div 4) @ bits_of 2 a @ bits_of 4 (b div 16) @ bits_of 4 b)"
    by (simp only: byte_split(1) [of a] byte_split(2) [of b] append_assoc)
  also have "\<dots> = bits_of 6 (a div 4)
      # sextets (bits_of 2 a @ bits_of 4 (b div 16) @ bits_of 4 b)"
    by (rule sextets_full) simp
  also have "sextets (bits_of 2 a @ bits_of 4 (b div 16) @ bits_of 4 b)
      = (bits_of 2 a @ bits_of 4 (b div 16)) # sextets (bits_of 4 b)"
    by (rule sextets_full2) simp
  also have "sextets (bits_of 4 b) = [bits_of 4 b @ replicate 2 False]"
    using sextets_last [of "bits_of 4 b"] bits_of_not_Nil [of 4 b] by simp
  finally show ?thesis .
qed

lemma sextets_one:
  "sextets (bits_of 8 a) = [bits_of 6 (a div 4), bits_of 2 a @ replicate 4 False]"
proof -
  have "sextets (bits_of 8 a) = sextets (bits_of 6 (a div 4) @ bits_of 2 a)"
    by (simp only: byte_split(1) [of a])
  also have "\<dots> = bits_of 6 (a div 4) # sextets (bits_of 2 a)"
    by (rule sextets_full) simp
  also have "sextets (bits_of 2 a) = [bits_of 2 a @ replicate 4 False]"
    using sextets_last [of "bits_of 2 a"] bits_of_not_Nil [of 2 a] by simp
  finally show ?thesis .
qed

lemma replicate_small: "replicate 2 x = [x, x]" "replicate 1 x = [x]"
  by (simp_all add: numeral_2_eq_2)

lemma sextet_chars_simps:
  "b < 256 \<Longrightarrow> c < 256 \<Longrightarrow> sextet_chars (a # b # c # rest)
     = [b64_char (a div 4), b64_char ((a mod 4) * 16 + b div 16),
        b64_char ((b mod 16) * 4 + c div 64), b64_char (c mod 64)] @ sextet_chars rest"
  "b < 256 \<Longrightarrow> sextet_chars [a, b]
     = [b64_char (a div 4), b64_char ((a mod 4) * 16 + b div 16), b64_char ((b mod 16) * 4)]"
  "sextet_chars [a] = [b64_char (a div 4), b64_char ((a mod 4) * 16)]"
  "sextet_chars [] = []"
proof -
  show "sextet_chars [] = []" by (simp add: sextet_chars_def)
  show "sextet_chars [a] = [b64_char (a div 4), b64_char ((a mod 4) * 16)]"
    unfolding sextet_chars_def b64_char_def
    by (simp add: sextets_one index_values del: bits_of.simps)
  {
    assume b: "b < 256"
    show "sextet_chars [a, b]
     = [b64_char (a div 4), b64_char ((a mod 4) * 16 + b div 16), b64_char ((b mod 16) * 4)]"
      unfolding sextet_chars_def b64_char_def
      by (simp add: sextets_two index_values b del: bits_of.simps)
    assume c: "c < 256"
    show "sextet_chars (a # b # c # rest)
     = [b64_char (a div 4), b64_char ((a mod 4) * 16 + b div 16),
        b64_char ((b mod 16) * 4 + c div 64), b64_char (c mod 64)] @ sextet_chars rest"
      unfolding sextet_chars_def b64_char_def
      by (simp add: sextets_three index_values b c del: bits_of.simps)
  }
qed

lemma b64encode_is_standard:
  "\<forall>b \<in> set raw. b < 256 \<Longrightarrow> b64encode raw = base64_standard raw"
proof (induction raw rule: b64encode.induct)
  case (1 a b c rest)
  then have "b < 256" "c < 256" "\<forall>b \<in> set rest. b < 256" by simp_all
  with 1 show ?case
    by (simp add: base64_standard_eq sextet_chars_simps(1))
next
  case (2 a b)
  then have "b < 256" by simp
  then show ?case
    by (simp add: base64_standard_eq sextet_chars_simps(2) replicate_small)
next
  case (3 a)
  show ?case
    by (simp add: base64_standard_eq sextet_chars_simps(3) replicate_small)
next
  case 4
  show ?case
    by (simp add: base64_standard_eq sextet_chars_simps(4))
qed

lemma utf8_char_ok:
  "\<not> surrogate c \<Longrightarrow> \<exists>bs. utf8_char c = Inr bs"
  by (simp add: utf8_char_def)

lemma utf8_char_bytes:
  "c < 0x110000 \<Longrightarrow> utf8_char c = Inr bs \<Longrightarrow> \<forall>b \<in> set bs. b < 256"
  by (auto simp add: utf8_char_def split: if_splits)

lemma utf8_char_surrogate: "surrogate c \<Longrightarrow> utf8_char c = Inl UnicodeEncodeError"
  by (simp add: utf8_char_def surrogate_def)

lemma encode_ok:
  "\<forall>c \<in> set s. \<not> surrogate c \<and> c < 0x110000 \<Longrightarrow>
   \<exists>raw. encode s = Inr raw \<and> (\<forall>b \<in> set raw. b < 256)"
proof (induction s)
  case Nil
  show ?case by simp
next
  case (Cons c s)
  then obtain raw where raw: "encode s = Inr raw" "\<forall>b \<in> set raw. b < 256" by auto
  from Cons.prems obtain bs where bs: "utf8_char c = Inr bs"
    using utf8_char_ok [of c] by auto
  with Cons.prems utf8_char_bytes [of c bs] have "\<forall>b \<in> set bs. b < 256" by simp
  with raw bs show ?case by auto
qed

lemma encode_ascii: "\<forall>c \<in> set s. c < 128 \<Longrightarrow> encode s = Inr s"
  by (induction s) (simp_all add: utf8_char_def)

lemma encode_raises:
  "\<exists>c \<in> set s. surrogate c \<Longrightarrow> encode s = Inl UnicodeEncodeError"
proof (induction s)
  case Nil
  then show ?case by simp
next
  case (Cons c s)
  show ?case
  proof (cases "surrogate c")
    case True
    then show ?thesis by (simp add: utf8_char_surrogate)
  next
    case False
    with Cons have "encode s = Inl UnicodeEncodeError" by simp
    moreover from False obtain bs where "utf8_char c = Inr bs"
      using utf8_char_ok [of c] by blast
    ultimately show ?thesis by simp
  qed
qed

text \<open>
  C7, as stated, fails: \<^verbatim>\<open>get_auth_header\<close> has a failure path. An e-mail value holding a
  lone surrogate (what \<^verbatim>\<open>os.environ\<close> gives for the byte \<^verbatim>\<open>0x80\<close>) cannot be encoded, and
  \<^verbatim>\<open>credentials.encode()\<close> raises \<^verbatim>\<open>UnicodeEncodeError\<close>.
\<close>

theorem auth_header_surrogate_raises:
  "get_auth_header [0xDC80] (lit ''tok123'') = Inl UnicodeEncodeError"
  by (simp add: get_auth_header_def utf8_char_def surrogate_def)

text \<open>
  C7, amended. For every e-mail and token without a surrogate code point,
  \<^verbatim>\<open>get_auth_header\<close> returns \<^verbatim>\<open>Basic\<close>, a space and the standard Base64 encoding of the
  UTF-8 bytes of e-mail, colon, token; for ASCII values these bytes are the characters
  themselves. \<^verbatim>\<open>get_auth_header("a@b.com", "tok123")\<close> is
  \<^verbatim>\<open>Basic YUBiLmNvbTp0b2sxMjM=\<close>. When a surrogate occurs, the function raises
  \<^verbatim>\<open>UnicodeEncodeError\<close>.
\<close>

theorem auth_header_is_basic_base64:
  "((\<forall>c \<in> set (email @ api_token). \<not> surrogate c \<and> c < 0x110000) \<longrightarrow>
      (\<exists>raw. encode (email @ lit '':'' @ api_token) = Inr raw \<and> (\<forall>b \<in> set raw. b < 256)
         \<and> get_auth_header email api_token = Inr (lit ''Basic '' @ base64_standard raw)))
   \<and> ((\<forall>c \<in> set (email @ api_token). c < 128) \<longrightarrow>
      get_auth_header email api_token
        = Inr (lit ''Basic '' @ base64_standard (email @ lit '':'' @ api_token)))
   \<and> get_auth_header (lit ''a@b.com'') (lit ''tok123'') = Inr (lit ''Basic YUBiLmNvbTp0b2sxMjM='')
   \<and> ((\<exists>c \<in> set (email @ api_token). surrogate c) \<longrightarrow>
      get_auth_header email api_token = Inl UnicodeEncodeError)"
proof (intro conjI impI)
  assume ok: "\<forall>c \<in> set (email @ api_token). \<not> surrogate c \<and> c < 0x110000"
  then have "\<forall>c \<in> set (email @ lit '':'' @ api_token). \<not> surrogate c \<and> c < 0x110000"
    by (auto simp add: surrogate_def)
  from encode_ok [OF this] obtain raw where
    raw: "encode (email @ lit '':'' @ api_token) = Inr raw" "\<forall>b \<in> set raw. b < 256"
    by blast
  then have "get_auth_header email api_token = Inr (lit ''Basic '' @ base64_standard raw)"
    using b64encode_is_standard [of raw] by (simp add: get_auth_header_def)
  with raw show "\<exists>raw. encode (email @ lit '':'' @ api_token) = Inr raw
      \<and> (\<forall>b \<in> set raw. b < 256)
      \<and> get_auth_header email api_token = Inr (lit ''Basic '' @ base64_standard raw)"
    by blast
next
  assume ascii: "\<forall>c \<in> set (email @ api_token). c < 128"
  then have a: "\<forall>c \<in> set (email @ lit '':'' @ api_token). c < 128"
    by auto
  then have "\<forall>b \<in> set (email @ lit '':'' @ api_token). b < 256"
    by fastforce
  from b64encode_is_standard [OF this] encode_ascii [OF a]
  show "get_auth_header email api_token
        = Inr (lit ''Basic '' @ base64_standard (email @ lit '':'' @ api_token))"
    by (simp add: get_auth_header_def)
next
  show "get_auth_header (lit ''a@b.com'') (lit ''tok123'')
      = Inr (lit ''Basic YUBiLmNvbTp0b2sxMjM='')"
    by (simp add: get_auth_header_def utf8_char_def b64_char_def b64_alphabet_def)
next
  assume "\<exists>c \<in> set (email @ api_token). surrogate c"
  then have "\<exists>c \<in> set (email @ lit '':'' @ api_token). surrogate c"
    by auto
  from encode_raises [OF this]
  show "get_auth_header email api_token = Inl UnicodeEncodeError"
    by (simp add: get_auth_header_def)
qed

theorem auth_header_is_basic_base64_witness:
  "list_all (\<lambda>c. c < 128) (lit ''a@b.com'' @ lit ''tok123'')
   \<and> get_auth_header (lit ''a@b.com'') (lit ''tok123'')
       = Inr (lit ''Basic '' @ base64_standard (lit ''a@b.com:tok123''))
   \<and> base64_standard (lit ''a@b.com:tok123'') = lit ''YUBiLmNvbTp0b2sxMjM=''
   \<and> list_all (\<lambda>c. \<not> surrogate c \<and> c < 0x110000) ([233] @ lit ''x'')
   \<and> encode ([233] @ lit '':'' @ lit ''x'') = Inr [195, 169, 58, 120]
   \<and> get_auth_header [233] (lit ''x'') = Inr (lit ''Basic w6k6eA=='')
   \<and> base64_standard [195, 169, 58, 120] = lit ''w6k6eA==''
   \<and> list_ex surrogate ([0xDCFF] @ lit ''tok123'')
   \<and> get_auth_header [0xDCFF] (lit ''tok123'') = Inl UnicodeEncodeError"
proof -
  have a: "\<forall>c \<in> set (lit ''a@b.com'' @ lit ''tok123''). c < 128"
    by simp
  have n: "\<forall>c \<in> set ([233] @ lit ''x''). \<not> surrogate c \<and> c < 0x110000"
    by (simp add: surrogate_def)
  have e: "encode ([233] @ lit '':'' @ lit ''x'') = Inr [195, 169, 58, 120]"
    by (simp add: utf8_char_def)
  have g: "get_auth_header [233] (lit ''x'') = Inr (lit ''Basic w6k6eA=='')"
    by (simp add: get_auth_header_def utf8_char_def b64_char_def b64_alphabet_def)
  have s: "\<exists>c \<in> set ([0xDCFF] @ lit ''tok123''). surrogate c"
    by (simp add: surrogate_def)
  note t1 = auth_header_is_basic_base64 [of "lit ''a@b.com''" "lit ''tok123''"]
  note t2 = auth_header_is_basic_base64 [of "[233]" "lit ''x''"]
  note t3 = auth_header_is_basic_base64 [of "[0xDCFF]" "lit ''tok123''"]
  from t1 a have 1: "get_auth_header (lit ''a@b.com'') (lit ''tok123'')
       = Inr (lit ''Basic '' @ base64_standard (lit ''a@b.com'' @ lit '':'' @ lit ''tok123''))"
    by blast
  from t1 have 2: "get_auth_header (lit ''a@b.com'') (lit ''tok123'')
       = Inr (lit ''Basic YUBiLmNvbTp0b2sxMjM='')"
    by blast
  from 1 2 have 3: "base64_standard (lit ''a@b.com:tok123'') = lit ''YUBiLmNvbTp0b2sxMjM=''"
    by simp
  from t2 n e have "get_auth_header [233] (lit ''x'')
       = Inr (lit ''Basic '' @ base64_standard [195, 169, 58, 120])"
    by auto
  with g have 4: "base64_standard [195, 169, 58, 120] = lit ''w6k6eA==''"
    by simp
  from t3 s have 5: "get_auth_header [0xDCFF] (lit ''tok123'') = Inl UnicodeEncodeError"
    by blast
  from a n e g s 1 3 4 5 show ?thesis
    unfolding list_all_iff list_ex_iff by simp
qed

end
